theory Spec2Isabelle
  imports Main "HOL-Library.AList"
begin

section \<open>Python values, tensors and errors\<close>

text \<open>
  The program is Python on top of torch.  Every \<^verbatim>\<open>raise\<close>, failed \<^verbatim>\<open>assert\<close> and
  failing built-in operation of the source is a value of \<open>py_error\<close>; a function that can
  raise returns \<open>py_error + 'r\<close> with \<open>Inl\<close> the error.  The neural transforms, the entropy
  coder, torchmetrics and LibMTL are libraries outside the source: they are parameters
  of the embedding, they return \<open>string + 'r\<close>, and a failure inside one of them is
  propagated as \<open>External\<close>.  Assertions are taken as enabled (no \<^verbatim>\<open>python -O\<close>).
\<close>

datatype not_implemented =
    UnrecognizedAggregation string
  | Not4DOr5D
  | NotBCHW
  | NotBNCHW

datatype py_key = Name string | Index nat

datatype py_error =
    KeyError py_key
  | ValueError "string list"
  | NotImplementedError not_implemented
  | AssertionError
  | ZeroDivisionError
  | AttributeError
  | TypeError
  | IndexError
  | RuntimeError
  | RecursionError
  | External string

text \<open>
  A tensor is its shape and its elements in row-major order; the element type stays
  abstract.  Two tensors are bit-identical when they are equal.
\<close>

datatype 'a tensor = Tensor (shape: "nat list") (elems: "'a list")

text \<open>
  A 5-dimensional tensor (batch, frame, channel, height, width) handed to an
  orchestrator or to an encoder is held frame by frame: the list of its slices
  \<^verbatim>\<open>x[:, i]\<close> along the frame axis, so \<^verbatim>\<open>x.size()[1]\<close> is the length of the list.
\<close>

type_synonym 'a video = "'a tensor list"

datatype 'a pyval =
    VTensor "'a tensor"
  | VStr string
  | VInt int
  | VNone
  | VTuple "'a pyval list"
  | VList "'a pyval list"
  | VDict "(string \<times> 'a pyval) list"

definition ebind :: "'e + 'a \<Rightarrow> ('a \<Rightarrow> 'e + 'b) \<Rightarrow> 'e + 'b" where
  "ebind m f = (case m of Inl e \<Rightarrow> Inl e | Inr x \<Rightarrow> f x)"

definition ext :: "string + 'a \<Rightarrow> py_error + 'a" where
  "ext r = (case r of Inl s \<Rightarrow> Inl (External s) | Inr x \<Rightarrow> Inr x)"

text \<open>A \<^verbatim>\<open>for\<close> loop over a list or a range, stopping at the first exception.\<close>

fun for_each :: "('i \<Rightarrow> 's \<Rightarrow> 'e + 's) \<Rightarrow> 'i list \<Rightarrow> 's \<Rightarrow> 'e + 's" where
  "for_each body [] s = Inr s"
| "for_each body (x # xs) s = (case body x s of Inl e \<Rightarrow> Inl e | Inr s' \<Rightarrow> for_each body xs s')"

text \<open>\<^verbatim>\<open>t[i]\<close> on a tensor selects along the first dimension.\<close>

definition tensor_select :: "'a tensor \<Rightarrow> nat \<Rightarrow> py_error + 'a tensor" where
  "tensor_select t i =
     (case shape t of
        [] \<Rightarrow> Inl IndexError
      | n # rest \<Rightarrow>
          if i < n
          then Inr (Tensor rest (take (prod_list rest) (drop (i * prod_list rest) (elems t))))
          else Inl IndexError)"

text \<open>\<^verbatim>\<open>t.size()[0]\<close>: indexing the empty size of a 0-dimensional tensor raises.\<close>

definition size0 :: "'a tensor \<Rightarrow> py_error + nat" where
  "size0 t = (case shape t of [] \<Rightarrow> Inl IndexError | n # _ \<Rightarrow> Inr n)"

definition unsqueeze0 :: "'a tensor \<Rightarrow> 'a tensor" where
  "unsqueeze0 t = Tensor (1 # shape t) (elems t)"

text \<open>
  \<^verbatim>\<open>torch.stack(ts)\<close> along dimension 0: the list must be non-empty and the shapes equal.
\<close>

definition torch_stack0 :: "'a tensor list \<Rightarrow> py_error + 'a tensor" where
  "torch_stack0 ts =
     (case ts of
        [] \<Rightarrow> Inl RuntimeError
      | t # _ \<Rightarrow>
          if list_all (\<lambda>u. shape u = shape t) ts
          then Inr (Tensor (length ts # shape t) (concat (map elems ts)))
          else Inl RuntimeError)"

text \<open>
  \<^verbatim>\<open>torch.stack(ts, dim=1)\<close> of frames: the list must be non-empty, the shapes equal and
  of rank at least one; the result is the 5-dimensional tensor with these frames.
\<close>

definition torch_stack1 :: "'a tensor list \<Rightarrow> py_error + 'a video" where
  "torch_stack1 ts =
     (case ts of
        [] \<Rightarrow> Inl RuntimeError
      | t # _ \<Rightarrow>
          if shape t = [] then Inl IndexError
          else if list_all (\<lambda>u. shape u = shape t) ts then Inr ts
          else Inl RuntimeError)"

text \<open>The size of a 5-dimensional tensor held frame by frame (it has a frame).\<close>

definition video_size :: "'a video \<Rightarrow> nat list" where
  "video_size v =
     (case v of
        [] \<Rightarrow> []
      | t # _ \<Rightarrow> (case shape t of [] \<Rightarrow> [] | b # rest \<Rightarrow> b # length v # rest))"

text \<open>
  \<^verbatim>\<open>video[:, a:b]\<close>: a Python slice along the frame axis.  A negative bound counts from
  the end, and both bounds are clipped to the range; nothing raises.
\<close>

definition slice_bound :: "nat \<Rightarrow> int \<Rightarrow> nat" where
  "slice_bound n a = (if a < 0 then nat (max 0 (int n + a)) else min n (nat a))"

definition slice_frames :: "'a video \<Rightarrow> int \<Rightarrow> int \<Rightarrow> 'a video" where
  "slice_frames v a b =
     (let lo = slice_bound (length v) a; hi = slice_bound (length v) b
      in take (hi - lo) (drop lo v))"

section \<open>models/vsrvc.py: the two-frame-window encoders\<close>

record 'a VSRVCMotionResidualEncoder =
  feat_extractor :: "'a tensor \<Rightarrow> string + 'a tensor"
  motion_estimator :: "'a tensor \<Rightarrow> 'a tensor \<Rightarrow> string + 'a tensor"
  motion_compressor_train :: "'a tensor \<Rightarrow> string + ('a tensor \<times> 'a tensor \<times> 'a tensor)"
  motion_compensator :: "'a tensor \<Rightarrow> 'a tensor \<Rightarrow> string + 'a tensor"

text \<open>The body of \<^verbatim>\<open>VSRVCMotionResidualEncoder.forward\<close> after its assertion.\<close>

definition VSRVCMotionResidualEncoder_body ::
  "'a VSRVCMotionResidualEncoder \<Rightarrow> 'a tensor \<Rightarrow> 'a tensor \<Rightarrow> 'a tensor \<Rightarrow> py_error + 'a pyval" where
  "VSRVCMotionResidualEncoder_body enc x0 x1 xlast =
     ebind (ext (feat_extractor enc x0)) (\<lambda>prev_feat.
     ebind (ext (feat_extractor enc x1)) (\<lambda>curr_feat.
     ebind (ext (motion_estimator enc prev_feat curr_feat)) (\<lambda>offsets.
     ebind (ext (motion_compressor_train enc offsets)) (\<lambda>(decompressed_offsets, p_bits, hp_bits).
     ebind (ext (motion_compensator enc prev_feat decompressed_offsets)) (\<lambda>aligned_features.
       Inr (VList [VTuple [VTensor aligned_features, VTensor curr_feat, VTensor p_bits, VTensor hp_bits],
                   VTuple [VTensor aligned_features, VTensor xlast]]))))))"

definition VSRVCMotionResidualEncoder_forward ::
  "'a VSRVCMotionResidualEncoder \<Rightarrow> 'a video \<Rightarrow> py_error + 'a pyval" where
  "VSRVCMotionResidualEncoder_forward enc x =
     (if length x \<noteq> 2 then Inl AssertionError
      else VSRVCMotionResidualEncoder_body enc (x ! 0) (x ! 1) (last x))"

record 'a VSRVCResidualEncoder =
  layers :: "'a tensor \<Rightarrow> string + 'a tensor"

definition VSRVCResidualEncoder_body ::
  "'a VSRVCResidualEncoder \<Rightarrow> 'a tensor \<Rightarrow> 'a tensor \<Rightarrow> 'a tensor \<Rightarrow> py_error + 'a pyval" where
  "VSRVCResidualEncoder_body enc x0 x1 xlast =
     ebind (ext (layers enc x0)) (\<lambda>prev_feat.
     ebind (ext (layers enc x1)) (\<lambda>curr_feat.
       Inr (VList [VTuple [VTensor prev_feat, VTensor curr_feat],
                   VTuple [VTensor prev_feat, VTensor curr_feat, VTensor xlast]])))"

definition VSRVCResidualEncoder_forward ::
  "'a VSRVCResidualEncoder \<Rightarrow> 'a video \<Rightarrow> py_error + 'a pyval" where
  "VSRVCResidualEncoder_forward enc x =
     (if length x \<noteq> 2 then Inl AssertionError
      else VSRVCResidualEncoder_body enc (x ! 0) (x ! 1) (last x))"

text \<open>
  \<^verbatim>\<open>VSRVCEncoder\<close>: \<^verbatim>\<open>layers\<close> applied to the frames viewed as channels, returned with the
  last frame.
\<close>

record 'a VSRVCEncoder =
  view_layers :: "'a video \<Rightarrow> string + 'a tensor"

definition VSRVCEncoder_forward :: "'a VSRVCEncoder \<Rightarrow> 'a video \<Rightarrow> py_error + 'a pyval" where
  "VSRVCEncoder_forward enc x =
     ebind (ext (view_layers enc x)) (\<lambda>features.
       if x = [] then Inl IndexError
       else Inr (VList [VTensor features, VTuple [VTensor features, VTensor (last x)]]))"

text \<open>
  \<^verbatim>\<open>ICDecoder\<close>: the hyperprior compressor and the reconstruction head are library
  modules.  \<^verbatim>\<open>decompress\<close> takes exactly three positional arguments.
\<close>

record 'a ICDecoder =
  compressor_compress :: "'a pyval \<Rightarrow> string + ('a pyval \<times> 'a pyval \<times> 'a pyval)"
  compressor_decompress :: "'a pyval \<Rightarrow> 'a pyval \<Rightarrow> 'a pyval \<Rightarrow> string + 'a tensor"
  compressor_train :: "'a pyval \<Rightarrow> string + ('a tensor \<times> 'a pyval \<times> 'a pyval)"
  reconstruction_head :: "'a tensor \<Rightarrow> string + 'a tensor"

definition ICDecoder_compress :: "'a ICDecoder \<Rightarrow> 'a pyval \<Rightarrow> py_error + 'a pyval" where
  "ICDecoder_compress dec x =
     ebind (ext (compressor_compress dec x)) (\<lambda>(prior_string, hyperprior_string, shp).
       Inr (VTuple [prior_string, hyperprior_string, shp]))"

definition ICDecoder_decompress :: "'a ICDecoder \<Rightarrow> 'a pyval list \<Rightarrow> py_error + 'a tensor" where
  "ICDecoder_decompress dec args =
     (case args of
        [prior_string, hyperprior_string, shp] \<Rightarrow>
          ebind (ext (compressor_decompress dec prior_string hyperprior_string shp)) (\<lambda>reconstructed_features.
            ext (reconstruction_head dec reconstructed_features))
      | _ \<Rightarrow> Inl TypeError)"

definition ICDecoder_forward :: "'a ICDecoder \<Rightarrow> 'a pyval \<Rightarrow> py_error + 'a pyval" where
  "ICDecoder_forward dec x =
     ebind (ext (compressor_train dec x)) (\<lambda>(decompressed_data, prior_bits, hyperprior_bits).
     ebind (ext (reconstruction_head dec decompressed_data)) (\<lambda>reconstructed_frame.
       Inr (VTuple [VTensor reconstructed_frame, VList [prior_bits, hyperprior_bits]])))"

section \<open>metrics.py: psnr and ssim\<close>

record 'a torchmetrics =
  peak_signal_noise_ratio :: "'a tensor \<Rightarrow> 'a tensor \<Rightarrow> string + 'a tensor"
  structural_similarity_index_measure :: "'a tensor \<Rightarrow> 'a tensor \<Rightarrow> string + 'a tensor"
  torch_mean :: "'a tensor \<Rightarrow> string + 'a tensor"
  torch_sum :: "'a tensor \<Rightarrow> string + 'a tensor"

text \<open>The tail shared by the four helpers: stack the per-item values and aggregate.\<close>

definition aggregate_values :: "'a torchmetrics \<Rightarrow> string \<Rightarrow> 'a tensor list \<Rightarrow> py_error + 'a tensor" where
  "aggregate_values tm aggregate vals =
     (if aggregate = ''mean'' then ebind (torch_stack0 vals) (\<lambda>s. ext (torch_mean tm s))
      else if aggregate = ''sum'' then ebind (torch_stack0 vals) (\<lambda>s. ext (torch_sum tm s))
      else if aggregate = ''none'' then torch_stack0 vals
      else Inl (NotImplementedError (UnrecognizedAggregation aggregate)))"

definition psnr_images :: "'a torchmetrics \<Rightarrow> 'a tensor \<Rightarrow> 'a tensor \<Rightarrow> string \<Rightarrow> py_error + 'a tensor" where
  "psnr_images tm input_images target_images aggregate =
     (if length (shape input_images) \<noteq> 4 then Inl (NotImplementedError NotBCHW)
      else
        ebind (size0 target_images) (\<lambda>n.
        ebind (for_each (\<lambda>i psnr_values.
                 ebind (tensor_select input_images i) (\<lambda>a.
                 ebind (tensor_select target_images i) (\<lambda>b.
                 ebind (ext (peak_signal_noise_ratio tm a b)) (\<lambda>p.
                   Inr (psnr_values @ [p])))))
               [0..<n] []) (\<lambda>psnr_values.
          aggregate_values tm aggregate psnr_values)))"

definition psnr_videos :: "'a torchmetrics \<Rightarrow> 'a tensor \<Rightarrow> 'a tensor \<Rightarrow> string \<Rightarrow> py_error + 'a tensor" where
  "psnr_videos tm input_videos target_videos aggregate =
     (if length (shape input_videos) \<noteq> 5 then Inl (NotImplementedError NotBNCHW)
      else
        ebind (size0 target_videos) (\<lambda>n.
        ebind (for_each (\<lambda>i psnr_values.
                 ebind (tensor_select input_videos i) (\<lambda>a.
                 ebind (tensor_select target_videos i) (\<lambda>b.
                 ebind (ext (peak_signal_noise_ratio tm a b)) (\<lambda>p.
                   Inr (psnr_values @ [p])))))
               [0..<n] []) (\<lambda>psnr_values.
          aggregate_values tm aggregate psnr_values)))"

definition ssim_images :: "'a torchmetrics \<Rightarrow> 'a tensor \<Rightarrow> 'a tensor \<Rightarrow> string \<Rightarrow> py_error + 'a tensor" where
  "ssim_images tm input_images target_images aggregate =
     (if length (shape input_images) \<noteq> 4 then Inl (NotImplementedError NotBCHW)
      else
        ebind (size0 target_images) (\<lambda>n.
        ebind (for_each (\<lambda>i ssim_values.
                 ebind (tensor_select input_images i) (\<lambda>a.
                 ebind (tensor_select target_images i) (\<lambda>b.
                 ebind (ext (structural_similarity_index_measure tm (unsqueeze0 a) (unsqueeze0 b))) (\<lambda>p.
                   Inr (ssim_values @ [p])))))
               [0..<n] []) (\<lambda>ssim_values.
          aggregate_values tm aggregate ssim_values)))"

definition ssim_videos :: "'a torchmetrics \<Rightarrow> 'a tensor \<Rightarrow> 'a tensor \<Rightarrow> string \<Rightarrow> py_error + 'a tensor" where
  "ssim_videos tm input_videos target_videos aggregate =
     (if length (shape input_videos) \<noteq> 5 then Inl (NotImplementedError NotBNCHW)
      else
        ebind (size0 target_videos) (\<lambda>n.
        ebind (for_each (\<lambda>i ssim_values.
                 ebind (tensor_select input_videos i) (\<lambda>a.
                 ebind (tensor_select target_videos i) (\<lambda>b.
                 ebind (ext (structural_similarity_index_measure tm a b)) (\<lambda>p.
                   Inr (ssim_values @ [p])))))
               [0..<n] []) (\<lambda>ssim_values.
          aggregate_values tm aggregate ssim_values)))"

definition valid_aggregate :: "string \<Rightarrow> bool" where
  "valid_aggregate aggregate \<longleftrightarrow> aggregate \<in> set [''mean'', ''sum'', ''none'']"

definition psnr :: "'a torchmetrics \<Rightarrow> 'a tensor \<Rightarrow> 'a tensor \<Rightarrow> string \<Rightarrow> py_error + 'a tensor" where
  "psnr tm input_images target_images aggregate =
     (if \<not> valid_aggregate aggregate
      then Inl (NotImplementedError (UnrecognizedAggregation aggregate))
      else if length (shape input_images) = 4 then psnr_images tm input_images target_images aggregate
      else if length (shape input_images) = 5 then psnr_videos tm input_images target_images aggregate
      else Inl (NotImplementedError Not4DOr5D))"

definition ssim :: "'a torchmetrics \<Rightarrow> 'a tensor \<Rightarrow> 'a tensor \<Rightarrow> string \<Rightarrow> py_error + 'a tensor" where
  "ssim tm input_images target_images aggregate =
     (if \<not> valid_aggregate aggregate
      then Inl (NotImplementedError (UnrecognizedAggregation aggregate))
      else if length (shape input_images) = 4 then ssim_images tm input_images target_images aggregate
      else if length (shape input_images) = 5 then ssim_videos tm input_images target_images aggregate
      else Inl (NotImplementedError Not4DOr5D))"

section \<open>loader/model_loader.py: Python operations on values\<close>

definition is_list :: "'a pyval \<Rightarrow> bool" where
  "is_list v = (case v of VList _ \<Rightarrow> True | _ \<Rightarrow> False)"

definition tensor_rows :: "'a tensor \<Rightarrow> py_error + 'a tensor list" where
  "tensor_rows t =
     (case shape t of
        [] \<Rightarrow> Inl TypeError
      | n # rest \<Rightarrow>
          Inr (map (\<lambda>i. Tensor rest (take (prod_list rest) (drop (i * prod_list rest) (elems t)))) [0..<n]))"

text \<open>\<^verbatim>\<open>v[i]\<close> for a non-negative integer index.\<close>

definition py_getitem :: "'a pyval \<Rightarrow> nat \<Rightarrow> py_error + 'a pyval" where
  "py_getitem v i =
     (case v of
        VTuple xs \<Rightarrow> if i < length xs then Inr (xs ! i) else Inl IndexError
      | VList xs \<Rightarrow> if i < length xs then Inr (xs ! i) else Inl IndexError
      | VStr s \<Rightarrow> if i < length s then Inr (VStr [s ! i]) else Inl IndexError
      | VTensor t \<Rightarrow> ebind (tensor_select t i) (\<lambda>r. Inr (VTensor r))
      | VDict d \<Rightarrow> Inl (KeyError (Index i))
      | VInt _ \<Rightarrow> Inl TypeError
      | VNone \<Rightarrow> Inl TypeError)"

text \<open>Iteration, as \<^verbatim>\<open>for x in v\<close> and the unpacking \<^verbatim>\<open>f(*v)\<close> do it; a dictionary yields its keys.\<close>

definition py_iter :: "'a pyval \<Rightarrow> py_error + 'a pyval list" where
  "py_iter v =
     (case v of
        VTuple xs \<Rightarrow> Inr xs
      | VList xs \<Rightarrow> Inr xs
      | VStr s \<Rightarrow> Inr (map (\<lambda>c. VStr [c]) s)
      | VTensor t \<Rightarrow> ebind (tensor_rows t) (\<lambda>rs. Inr (map VTensor rs))
      | VDict d \<Rightarrow> Inr (map (\<lambda>kv. VStr (fst kv)) d)
      | VInt _ \<Rightarrow> Inl TypeError
      | VNone \<Rightarrow> Inl TypeError)"

text \<open>\<^verbatim>\<open>(x,) + y\<close>: only a tuple can be concatenated to a tuple.\<close>

definition py_tuple_add :: "'a pyval \<Rightarrow> 'a pyval \<Rightarrow> py_error + 'a pyval" where
  "py_tuple_add x y = (case y of VTuple ys \<Rightarrow> Inr (VTuple (x # ys)) | _ \<Rightarrow> Inl TypeError)"

text \<open>\<^verbatim>\<open>l.append(x)\<close>, \<^verbatim>\<open>l.extend([x])\<close>: of the values here only a list has these methods.\<close>

definition py_append :: "'a pyval \<Rightarrow> 'a pyval \<Rightarrow> py_error + 'a pyval" where
  "py_append l x = (case l of VList xs \<Rightarrow> Inr (VList (xs @ [x])) | _ \<Rightarrow> Inl AttributeError)"

definition py_extend :: "'a pyval \<Rightarrow> 'a pyval list \<Rightarrow> py_error + 'a pyval" where
  "py_extend l ys = (case l of VList xs \<Rightarrow> Inr (VList (xs @ ys)) | _ \<Rightarrow> Inl AttributeError)"

text \<open>\<^verbatim>\<open>i % k\<close> on integers: the sign of the result follows \<open>k\<close>, as \<open>mod\<close> on \<open>int\<close> does.\<close>

definition py_mod :: "nat \<Rightarrow> int \<Rightarrow> py_error + int" where
  "py_mod i k = (if k = 0 then Inl ZeroDivisionError else Inr (int i mod k))"

definition dict_get :: "(string \<times> 'v) list \<Rightarrow> string \<Rightarrow> py_error + 'v" where
  "dict_get d k = (case map_of d k of None \<Rightarrow> Inl (KeyError (Name k)) | Some v \<Rightarrow> Inr v)"

definition opt_val :: "'a tensor option \<Rightarrow> 'a pyval" where
  "opt_val p = (case p of None \<Rightarrow> VNone | Some t \<Rightarrow> VTensor t)"

text \<open>The empty record \<^verbatim>\<open>('', '', 0)\<close> that fills the motion slot of a keyframe.\<close>

definition sentinel :: "'a pyval" where
  "sentinel = VTuple [VStr [], VStr [], VInt 0]"

section \<open>loader/model_loader.py: the models\<close>

text \<open>
  The encoder and the per-task decoders are resolved by name from a registry: a model
  holds the methods the orchestrators call on them.  A method may raise any error.
\<close>

record 'a encoder =
  enc_forward :: "'a video \<Rightarrow> py_error + 'a pyval"
  enc_compress :: "'a video \<Rightarrow> 'a pyval list \<Rightarrow> py_error + 'a pyval"
  enc_compress_with_prev_recon :: "'a pyval \<Rightarrow> 'a video \<Rightarrow> py_error + 'a pyval"
  extract_feats :: "'a tensor \<Rightarrow> py_error + 'a tensor"
  enc_decompress :: "'a pyval list \<Rightarrow> py_error + 'a pyval"
  align_features :: "'a pyval \<Rightarrow> 'a pyval \<Rightarrow> py_error + 'a pyval"

record 'a decoder =
  dec_compress :: "'a pyval \<Rightarrow> py_error + 'a pyval"
  dec_decompress :: "'a pyval list \<Rightarrow> py_error + 'a tensor"
  dec_forward :: "'a pyval \<Rightarrow> py_error + 'a pyval"

datatype 'm nn_module = EntropyBottleneck 'm | GaussianConditional 'm | OtherModule

text \<open>
  What \<^verbatim>\<open>BaseModel\<close> inherits from the LibMTL architecture: the task names, the encoder,
  the decoders, \<^verbatim>\<open>_prepare_rep\<close>, and the modules \<^verbatim>\<open>named_modules()\<close> walks.
\<close>

record ('a, 'm) base =
  task_name :: "string list"
  multi_input :: bool
  encoder :: "'a encoder"
  decoders :: "string \<Rightarrow> 'a decoder option"
  prepare_rep :: "'a pyval \<Rightarrow> string \<Rightarrow> bool \<Rightarrow> py_error + 'a pyval"
  modules :: "'m nn_module list"

text \<open>
  The three classes of \<^verbatim>\<open>load_model\<close>.  A predictive model holds \<^verbatim>\<open>self.iframe_model\<close>,
  \<^verbatim>\<open>self.keyframe_interval\<close> and \<^verbatim>\<open>self.adaptation\<close>.
\<close>

datatype ('a, 'm) model =
    IFrameModel "('a, 'm) base"
  | PFrameModel "('a, 'm) base" "('a, 'm) model" int bool
  | PFrameModelWithMotion "('a, 'm) base" "('a, 'm) model" int bool

type_synonym 'a results = "(string \<times> 'a pyval) list"

type_synonym 'a out = "(string \<times> 'a pyval list) list"

definition get_decoder :: "('a, 'm) base \<Rightarrow> string \<Rightarrow> py_error + 'a decoder" where
  "get_decoder b task = (case decoders b task of None \<Rightarrow> Inl (KeyError (Name task)) | Some d \<Rightarrow> Inr d)"

text \<open>\<^verbatim>\<open>s_rep[tn] if isinstance(s_rep, list) else s_rep\<close>, then \<^verbatim>\<open>_prepare_rep\<close>.\<close>

definition task_rep :: "('a, 'm) base \<Rightarrow> 'a pyval \<Rightarrow> nat \<Rightarrow> string \<Rightarrow> py_error + 'a pyval" where
  "task_rep b s_rep tn task =
     (let same_rep = (\<not> is_list s_rep \<and> \<not> multi_input b) in
      ebind (if is_list s_rep then py_getitem s_rep tn else Inr s_rep) (\<lambda>ss_rep.
        prepare_rep b ss_rep task same_rep))"

text \<open>
  The value a task contributes for one frame: \<^verbatim>\<open>self.decoders[task].compress(ss_rep)\<close> for
  \<^verbatim>\<open>vc\<close>, \<^verbatim>\<open>self.decoders[task](ss_rep)\<close> for the others.
\<close>

definition task_value :: "('a, 'm) base \<Rightarrow> string \<Rightarrow> 'a pyval \<Rightarrow> py_error + 'a pyval" where
  "task_value b task ss_rep =
     ebind (get_decoder b task) (\<lambda>d.
       if task = ''vc'' then dec_compress d ss_rep else dec_forward d ss_rep)"

text \<open>\<^verbatim>\<open>{task: [] for task in self.task_name}\<close>\<close>

definition init_out :: "string list \<Rightarrow> 'a out" where
  "init_out tasks = fold (\<lambda>task out. AList.update task [] out) tasks []"

text \<open>
  \<^verbatim>\<open>out[task].append(e)\<close>: the list is looked up before the argument \<open>e\<close> is evaluated.
\<close>

definition out_append :: "string \<Rightarrow> py_error + 'a pyval \<Rightarrow> 'a out \<Rightarrow> py_error + 'a out" where
  "out_append task e out =
     (case map_of out task of
        None \<Rightarrow> Inl (KeyError (Name task))
      | Some l \<Rightarrow> ebind e (\<lambda>v. Inr (AList.update task (l @ [v]) out)))"

text \<open>\<^verbatim>\<open>for task, value in results.items(): out[task].append(value)\<close>\<close>

definition append_results :: "'a results \<Rightarrow> 'a out \<Rightarrow> py_error + 'a out" where
  "append_results results out = for_each (\<lambda>(task, v) out. out_append task (Inr v) out) results out"

subsection \<open>IFrameModel\<close>

definition IFrameModel_compress_one :: "('a, 'm) base \<Rightarrow> 'a video \<Rightarrow> py_error + 'a results" where
  "IFrameModel_compress_one b inp =
     ebind (enc_forward (encoder b) inp) (\<lambda>s_rep.
       for_each (\<lambda>(tn, task) out.
           ebind (task_rep b s_rep tn task) (\<lambda>ss_rep.
           ebind (task_value b task ss_rep) (\<lambda>v.
             Inr (AList.update task v out))))
         (enumerate 0 (task_name b)) [])"

definition IFrameModel_decompress_one :: "('a, 'm) base \<Rightarrow> 'a pyval \<Rightarrow> py_error + 'a tensor" where
  "IFrameModel_decompress_one b inputs =
     ebind (get_decoder b ''vc'') (\<lambda>d.
     ebind (py_iter inputs) (\<lambda>args.
       dec_decompress d args))"

text \<open>The loop of \<^verbatim>\<open>IFrameModel.compress\<close> after \<open>n\<close> frames.\<close>

definition IFrameModel_compress_upto :: "('a, 'm) base \<Rightarrow> 'a video \<Rightarrow> nat \<Rightarrow> py_error + 'a out" where
  "IFrameModel_compress_upto b video n =
     for_each (\<lambda>i out.
         ebind (IFrameModel_compress_one b (slice_frames video (int i) (int i + 1))) (\<lambda>results.
           append_results results out))
       [0..<n] (init_out (task_name b))"

definition IFrameModel_compress :: "('a, 'm) base \<Rightarrow> 'a video \<Rightarrow> py_error + 'a out" where
  "IFrameModel_compress b video = IFrameModel_compress_upto b video (length video)"

definition IFrameModel_decompress :: "('a, 'm) base \<Rightarrow> 'a pyval \<Rightarrow> py_error + 'a video" where
  "IFrameModel_decompress b inputs =
     ebind (py_iter inputs) (\<lambda>inps.
     ebind (for_each (\<lambda>inp reconstructed_video.
              ebind (IFrameModel_decompress_one b inp) (\<lambda>r. Inr (reconstructed_video @ [r])))
            inps []) (\<lambda>reconstructed_video.
       torch_stack1 reconstructed_video))"

text \<open>
  \<^verbatim>\<open>self.iframe_model.compress_one\<close> and \<^verbatim>\<open>self.iframe_model.decompress_one\<close>: only an
  \<^verbatim>\<open>IFrameModel\<close> has these methods.
\<close>

definition compress_one :: "('a, 'm) model \<Rightarrow> 'a video \<Rightarrow> py_error + 'a results" where
  "compress_one m inp = (case m of IFrameModel b \<Rightarrow> IFrameModel_compress_one b inp | _ \<Rightarrow> Inl AttributeError)"

definition decompress_one :: "('a, 'm) model \<Rightarrow> 'a pyval \<Rightarrow> py_error + 'a tensor" where
  "decompress_one m inputs = (case m of IFrameModel b \<Rightarrow> IFrameModel_decompress_one b inputs | _ \<Rightarrow> Inl AttributeError)"

subsection \<open>The branches shared by the two predictive classes\<close>

text \<open>
  The loops of a predictive model thread \<^verbatim>\<open>out\<close> together with \<^verbatim>\<open>prev_recon\<close>
  (compress with adaptation) or \<^verbatim>\<open>reconstructed_video\<close> together with \<^verbatim>\<open>prev_feat\<close>
  (decompress); both references start as \<^verbatim>\<open>None\<close>.  The two classes repeat the task
  loops of a predicted frame word for word, so each is written once here.
\<close>

text \<open>The task loop of a predicted frame without adaptation.\<close>

definition plain_task :: "('a, 'm) base \<Rightarrow> 'a pyval \<Rightarrow> nat \<times> string \<Rightarrow> 'a out \<Rightarrow> py_error + 'a out" where
  "plain_task b s_rep = (\<lambda>(tn, task) out.
     ebind (task_rep b s_rep tn task) (\<lambda>ss_rep.
       out_append task (task_value b task ss_rep) out))"

text \<open>The predicted frame of \<^verbatim>\<open>compress_no_adaptation\<close>, the same in both classes.\<close>

definition predicted_no_adaptation :: "('a, 'm) base \<Rightarrow> 'a video \<Rightarrow> nat \<Rightarrow> 'a out \<Rightarrow> py_error + 'a out" where
  "predicted_no_adaptation b video i out =
     ebind (enc_compress (encoder b) (slice_frames video (int i - 1) (int i + 1)) []) (\<lambda>s_rep.
       for_each (plain_task b s_rep) (enumerate 0 (task_name b)) out)"

text \<open>
  The \<^verbatim>\<open>vc\<close> branch of a predicted frame with adaptation: compress the representation,
  then decompress the record against \<^verbatim>\<open>ss_rep[0]\<close>, as the decoder will.  It returns
  \<^verbatim>\<open>results\<close> and the reconstruction, the next \<^verbatim>\<open>prev_recon\<close>.
\<close>

definition compress_and_decode :: "('a, 'm) base \<Rightarrow> 'a pyval \<Rightarrow> py_error + ('a pyval \<times> 'a tensor)" where
  "compress_and_decode b ss_rep =
     ebind (get_decoder b ''vc'') (\<lambda>d.
     ebind (dec_compress d ss_rep) (\<lambda>results.
     ebind (py_getitem ss_rep 0) (\<lambda>ref.
     ebind (py_getitem results 0) (\<lambda>r0.
     ebind (py_tuple_add ref r0) (\<lambda>inp.
     ebind (py_iter inp) (\<lambda>args.
     ebind (dec_decompress d args) (\<lambda>recon.
       Inr (results, recon))))))))"

text \<open>The task loop of a predicted frame with adaptation.\<close>

definition adapt_task ::
  "('a, 'm) base \<Rightarrow> 'a pyval \<Rightarrow> nat \<times> string \<Rightarrow> 'a out \<times> 'a tensor option \<Rightarrow>
     py_error + ('a out \<times> 'a tensor option)" where
  "adapt_task b s_rep = (\<lambda>(tn, task) (out, prev_recon).
     ebind (task_rep b s_rep tn task) (\<lambda>ss_rep.
       if task = ''vc'' then
         ebind (compress_and_decode b ss_rep) (\<lambda>(results, recon).
         ebind (out_append task (Inr results) out) (\<lambda>out'.
           Inr (out', Some recon)))
       else
         ebind (out_append task (task_value b task ss_rep) out) (\<lambda>out'.
           Inr (out', prev_recon))))"

subsection \<open>PFrameModel\<close>

text \<open>The keyframe branch of \<^verbatim>\<open>PFrameModel.compress_with_adaptation\<close>.\<close>

definition PFrameModel_keyframe_adapt ::
  "('a, 'm) model \<Rightarrow> 'a video \<Rightarrow> nat \<Rightarrow> 'a out \<Rightarrow> py_error + ('a out \<times> 'a tensor option)" where
  "PFrameModel_keyframe_adapt im video i out =
     ebind (compress_one im (slice_frames video (int i) (int i + 1))) (\<lambda>results.
     ebind (dict_get results ''vc'') (\<lambda>vc.
     ebind (py_getitem vc 0) (\<lambda>vc0.
     ebind (decompress_one im vc0) (\<lambda>prev_recon.
     ebind (append_results results out) (\<lambda>out'.
       Inr (out', Some prev_recon))))))"

text \<open>The predicted branch of \<^verbatim>\<open>PFrameModel.compress_with_adaptation\<close>.\<close>

definition PFrameModel_predicted_adapt ::
  "('a, 'm) base \<Rightarrow> 'a video \<Rightarrow> nat \<Rightarrow> 'a out \<times> 'a tensor option \<Rightarrow> py_error + ('a out \<times> 'a tensor option)" where
  "PFrameModel_predicted_adapt b video i = (\<lambda>(out, prev_recon).
     ebind (enc_compress (encoder b) (slice_frames video (int i - 1) (int i + 1)) [opt_val prev_recon]) (\<lambda>s_rep.
       for_each (adapt_task b s_rep) (enumerate 0 (task_name b)) (out, prev_recon)))"

text \<open>One round of the loop of \<^verbatim>\<open>PFrameModel.compress_with_adaptation\<close>.\<close>

definition PFrameModel_adapt_frame ::
  "('a, 'm) base \<Rightarrow> ('a, 'm) model \<Rightarrow> int \<Rightarrow> 'a video \<Rightarrow> nat \<Rightarrow> 'a out \<times> 'a tensor option \<Rightarrow>
     py_error + ('a out \<times> 'a tensor option)" where
  "PFrameModel_adapt_frame b im k video i st =
     ebind (py_mod i k) (\<lambda>r.
       if r = 0 then PFrameModel_keyframe_adapt im video i (fst st)
       else PFrameModel_predicted_adapt b video i st)"

text \<open>The loop of \<^verbatim>\<open>PFrameModel.compress_with_adaptation\<close> after \<open>n\<close> frames.\<close>

definition PFrameModel_adapt_upto ::
  "('a, 'm) base \<Rightarrow> ('a, 'm) model \<Rightarrow> int \<Rightarrow> 'a video \<Rightarrow> nat \<Rightarrow> py_error + ('a out \<times> 'a tensor option)" where
  "PFrameModel_adapt_upto b im k video n =
     for_each (PFrameModel_adapt_frame b im k video) [0..<n] (init_out (task_name b), None)"

definition PFrameModel_compress_with_adaptation ::
  "('a, 'm) base \<Rightarrow> ('a, 'm) model \<Rightarrow> int \<Rightarrow> 'a video \<Rightarrow> py_error + 'a out" where
  "PFrameModel_compress_with_adaptation b im k video =
     ebind (PFrameModel_adapt_upto b im k video (length video)) (\<lambda>(out, prev_recon). Inr out)"

text \<open>The keyframe branch of \<^verbatim>\<open>PFrameModel.compress_no_adaptation\<close>.\<close>

definition PFrameModel_keyframe :: "('a, 'm) model \<Rightarrow> 'a video \<Rightarrow> nat \<Rightarrow> 'a out \<Rightarrow> py_error + 'a out" where
  "PFrameModel_keyframe im video i out =
     ebind (compress_one im (slice_frames video (int i) (int i + 1))) (\<lambda>results.
       append_results results out)"

text \<open>One round of the loop of \<^verbatim>\<open>PFrameModel.compress_no_adaptation\<close>.\<close>

definition PFrameModel_plain_frame ::
  "('a, 'm) base \<Rightarrow> ('a, 'm) model \<Rightarrow> int \<Rightarrow> 'a video \<Rightarrow> nat \<Rightarrow> 'a out \<Rightarrow> py_error + 'a out" where
  "PFrameModel_plain_frame b im k video i out =
     ebind (py_mod i k) (\<lambda>r.
       if r = 0 then PFrameModel_keyframe im video i out
       else predicted_no_adaptation b video i out)"

definition PFrameModel_plain_upto ::
  "('a, 'm) base \<Rightarrow> ('a, 'm) model \<Rightarrow> int \<Rightarrow> 'a video \<Rightarrow> nat \<Rightarrow> py_error + 'a out" where
  "PFrameModel_plain_upto b im k video n =
     for_each (PFrameModel_plain_frame b im k video) [0..<n] (init_out (task_name b))"

definition PFrameModel_compress_no_adaptation ::
  "('a, 'm) base \<Rightarrow> ('a, 'm) model \<Rightarrow> int \<Rightarrow> 'a video \<Rightarrow> py_error + 'a out" where
  "PFrameModel_compress_no_adaptation b im k video = PFrameModel_plain_upto b im k video (length video)"

text \<open>The keyframe branch of \<^verbatim>\<open>decompress\<close>, the same in both classes.\<close>

definition decode_keyframe :: "('a, 'm) model \<Rightarrow> 'a pyval \<Rightarrow> py_error + 'a tensor" where
  "decode_keyframe im inp = ebind (py_getitem inp 0) (\<lambda>inp0. decompress_one im inp0)"

text \<open>The predicted branch of \<^verbatim>\<open>PFrameModel.decompress\<close>.\<close>

definition PFrameModel_decode_predicted ::
  "('a, 'm) base \<Rightarrow> 'a tensor option \<Rightarrow> 'a pyval \<Rightarrow> py_error + 'a tensor" where
  "PFrameModel_decode_predicted b prev_feat inp =
     ebind (py_getitem inp 0) (\<lambda>inp0.
     ebind (py_tuple_add (opt_val prev_feat) inp0) (\<lambda>inp'.
     ebind (get_decoder b ''vc'') (\<lambda>d.
     ebind (py_iter inp') (\<lambda>args.
       dec_decompress d args))))"

text \<open>One round of the loop of \<^verbatim>\<open>PFrameModel.decompress\<close>.\<close>

definition PFrameModel_decompress_frame ::
  "('a, 'm) base \<Rightarrow> ('a, 'm) model \<Rightarrow> int \<Rightarrow> nat \<times> 'a pyval \<Rightarrow> 'a tensor list \<times> 'a tensor option \<Rightarrow>
     py_error + ('a tensor list \<times> 'a tensor option)" where
  "PFrameModel_decompress_frame b im k = (\<lambda>(i, inp) (reconstructed_video, prev_feat).
     ebind (py_mod i k) (\<lambda>r.
     ebind (if r = 0 then decode_keyframe im inp
            else PFrameModel_decode_predicted b prev_feat inp) (\<lambda>recon.
     ebind (extract_feats (encoder b) recon) (\<lambda>feat.
       Inr (reconstructed_video @ [recon], Some feat)))))"

definition PFrameModel_decompress_loop ::
  "('a, 'm) base \<Rightarrow> ('a, 'm) model \<Rightarrow> int \<Rightarrow> 'a pyval list \<Rightarrow>
     py_error + ('a tensor list \<times> 'a tensor option)" where
  "PFrameModel_decompress_loop b im k inps =
     for_each (PFrameModel_decompress_frame b im k) (enumerate 0 inps) ([], None)"

definition PFrameModel_decompress ::
  "('a, 'm) base \<Rightarrow> ('a, 'm) model \<Rightarrow> int \<Rightarrow> 'a pyval \<Rightarrow> py_error + 'a video" where
  "PFrameModel_decompress b im k inputs =
     ebind (py_iter inputs) (\<lambda>inps.
     ebind (PFrameModel_decompress_loop b im k inps) (\<lambda>(reconstructed_video, prev_feat).
       torch_stack1 reconstructed_video))"

subsection \<open>PFrameModelWithMotion\<close>

text \<open>The keyframe branch of \<^verbatim>\<open>PFrameModelWithMotion.compress_no_adaptation\<close>.\<close>

definition PFrameModelWithMotion_keyframe ::
  "('a, 'm) model \<Rightarrow> 'a video \<Rightarrow> nat \<Rightarrow> 'a out \<Rightarrow> py_error + 'a out" where
  "PFrameModelWithMotion_keyframe im video i out =
     ebind (compress_one im (slice_frames video (int i) (int i + 1))) (\<lambda>results.
     ebind (dict_get results ''vc'') (\<lambda>vc.
     ebind (py_append vc sentinel) (\<lambda>vc'.
       append_results (AList.update ''vc'' vc' results) out)))"

definition PFrameModelWithMotion_plain_frame ::
  "('a, 'm) base \<Rightarrow> ('a, 'm) model \<Rightarrow> int \<Rightarrow> 'a video \<Rightarrow> nat \<Rightarrow> 'a out \<Rightarrow> py_error + 'a out" where
  "PFrameModelWithMotion_plain_frame b im k video i out =
     ebind (py_mod i k) (\<lambda>r.
       if r = 0 then PFrameModelWithMotion_keyframe im video i out
       else predicted_no_adaptation b video i out)"

definition PFrameModelWithMotion_plain_upto ::
  "('a, 'm) base \<Rightarrow> ('a, 'm) model \<Rightarrow> int \<Rightarrow> 'a video \<Rightarrow> nat \<Rightarrow> py_error + 'a out" where
  "PFrameModelWithMotion_plain_upto b im k video n =
     for_each (PFrameModelWithMotion_plain_frame b im k video) [0..<n] (init_out (task_name b))"

definition PFrameModelWithMotion_compress_no_adaptation ::
  "('a, 'm) base \<Rightarrow> ('a, 'm) model \<Rightarrow> int \<Rightarrow> 'a video \<Rightarrow> py_error + 'a out" where
  "PFrameModelWithMotion_compress_no_adaptation b im k video =
     PFrameModelWithMotion_plain_upto b im k video (length video)"

text \<open>The keyframe branch of \<^verbatim>\<open>PFrameModelWithMotion.compress_with_adaptation\<close>.\<close>

definition PFrameModelWithMotion_keyframe_adapt ::
  "('a, 'm) model \<Rightarrow> 'a video \<Rightarrow> nat \<Rightarrow> 'a out \<Rightarrow> py_error + ('a out \<times> 'a tensor option)" where
  "PFrameModelWithMotion_keyframe_adapt im video i out =
     ebind (compress_one im (slice_frames video (int i) (int i + 1))) (\<lambda>results.
     ebind (dict_get results ''vc'') (\<lambda>vc.
     ebind (py_getitem vc 0) (\<lambda>vc0.
     ebind (decompress_one im vc0) (\<lambda>prev_recon.
     ebind (py_extend vc [sentinel]) (\<lambda>vc'.
     ebind (append_results (AList.update ''vc'' vc' results) out) (\<lambda>out'.
       Inr (out', Some prev_recon)))))))"

text \<open>The predicted branch of \<^verbatim>\<open>PFrameModelWithMotion.compress_with_adaptation\<close>.\<close>

definition PFrameModelWithMotion_predicted_adapt ::
  "('a, 'm) base \<Rightarrow> 'a video \<Rightarrow> nat \<Rightarrow> 'a out \<times> 'a tensor option \<Rightarrow> py_error + ('a out \<times> 'a tensor option)" where
  "PFrameModelWithMotion_predicted_adapt b video i = (\<lambda>(out, prev_recon).
     ebind (enc_compress_with_prev_recon (encoder b) (opt_val prev_recon)
              (slice_frames video (int i - 1) (int i + 1))) (\<lambda>s_rep.
       for_each (adapt_task b s_rep) (enumerate 0 (task_name b)) (out, prev_recon)))"

definition PFrameModelWithMotion_adapt_frame ::
  "('a, 'm) base \<Rightarrow> ('a, 'm) model \<Rightarrow> int \<Rightarrow> 'a video \<Rightarrow> nat \<Rightarrow> 'a out \<times> 'a tensor option \<Rightarrow>
     py_error + ('a out \<times> 'a tensor option)" where
  "PFrameModelWithMotion_adapt_frame b im k video i st =
     ebind (py_mod i k) (\<lambda>r.
       if r = 0 then PFrameModelWithMotion_keyframe_adapt im video i (fst st)
       else PFrameModelWithMotion_predicted_adapt b video i st)"

definition PFrameModelWithMotion_adapt_upto ::
  "('a, 'm) base \<Rightarrow> ('a, 'm) model \<Rightarrow> int \<Rightarrow> 'a video \<Rightarrow> nat \<Rightarrow> py_error + ('a out \<times> 'a tensor option)" where
  "PFrameModelWithMotion_adapt_upto b im k video n =
     for_each (PFrameModelWithMotion_adapt_frame b im k video) [0..<n] (init_out (task_name b), None)"

definition PFrameModelWithMotion_compress_with_adaptation ::
  "('a, 'm) base \<Rightarrow> ('a, 'm) model \<Rightarrow> int \<Rightarrow> 'a video \<Rightarrow> py_error + 'a out" where
  "PFrameModelWithMotion_compress_with_adaptation b im k video =
     ebind (PFrameModelWithMotion_adapt_upto b im k video (length video)) (\<lambda>(out, prev_recon). Inr out)"

text \<open>The predicted branch of \<^verbatim>\<open>PFrameModelWithMotion.decompress\<close>.\<close>

definition PFrameModelWithMotion_decode_predicted ::
  "('a, 'm) base \<Rightarrow> 'a tensor option \<Rightarrow> 'a pyval \<Rightarrow> py_error + 'a tensor" where
  "PFrameModelWithMotion_decode_predicted b prev_feat inp =
     ebind (py_getitem inp 1) (\<lambda>inp1.
     ebind (py_iter inp1) (\<lambda>margs.
     ebind (enc_decompress (encoder b) margs) (\<lambda>recon_offsets.
     ebind (align_features (encoder b) (opt_val prev_feat) recon_offsets) (\<lambda>align_feat.
     ebind (py_getitem inp 0) (\<lambda>inp0.
     ebind (py_tuple_add align_feat inp0) (\<lambda>inp'.
     ebind (get_decoder b ''vc'') (\<lambda>d.
     ebind (py_iter inp') (\<lambda>args.
       dec_decompress d args))))))))"

definition PFrameModelWithMotion_decompress_frame ::
  "('a, 'm) base \<Rightarrow> ('a, 'm) model \<Rightarrow> int \<Rightarrow> nat \<times> 'a pyval \<Rightarrow> 'a tensor list \<times> 'a tensor option \<Rightarrow>
     py_error + ('a tensor list \<times> 'a tensor option)" where
  "PFrameModelWithMotion_decompress_frame b im k = (\<lambda>(i, inp) (reconstructed_video, prev_feat).
     ebind (py_mod i k) (\<lambda>r.
     ebind (if r = 0 then decode_keyframe im inp
            else PFrameModelWithMotion_decode_predicted b prev_feat inp) (\<lambda>recon.
     ebind (extract_feats (encoder b) recon) (\<lambda>feat.
       Inr (reconstructed_video @ [recon], Some feat)))))"

definition PFrameModelWithMotion_decompress_loop ::
  "('a, 'm) base \<Rightarrow> ('a, 'm) model \<Rightarrow> int \<Rightarrow> 'a pyval list \<Rightarrow>
     py_error + ('a tensor list \<times> 'a tensor option)" where
  "PFrameModelWithMotion_decompress_loop b im k inps =
     for_each (PFrameModelWithMotion_decompress_frame b im k) (enumerate 0 inps) ([], None)"

definition PFrameModelWithMotion_decompress ::
  "('a, 'm) base \<Rightarrow> ('a, 'm) model \<Rightarrow> int \<Rightarrow> 'a pyval \<Rightarrow> py_error + 'a video" where
  "PFrameModelWithMotion_decompress b im k inputs =
     ebind (py_iter inputs) (\<lambda>inps.
     ebind (PFrameModelWithMotion_decompress_loop b im k inps) (\<lambda>(reconstructed_video, prev_feat).
       torch_stack1 reconstructed_video))"

subsection \<open>compress and decompress of a loaded model\<close>

definition compress :: "('a, 'm) model \<Rightarrow> 'a video \<Rightarrow> py_error + 'a out" where
  "compress m video =
     (case m of
        IFrameModel b \<Rightarrow> IFrameModel_compress b video
      | PFrameModel b im k adaptation \<Rightarrow>
          if adaptation then PFrameModel_compress_with_adaptation b im k video
          else PFrameModel_compress_no_adaptation b im k video
      | PFrameModelWithMotion b im k adaptation \<Rightarrow>
          if adaptation then PFrameModelWithMotion_compress_with_adaptation b im k video
          else PFrameModelWithMotion_compress_no_adaptation b im k video)"

definition decompress :: "('a, 'm) model \<Rightarrow> 'a pyval \<Rightarrow> py_error + 'a video" where
  "decompress m inputs =
     (case m of
        IFrameModel b \<Rightarrow> IFrameModel_decompress b inputs
      | PFrameModel b im k adaptation \<Rightarrow> PFrameModel_decompress b im k inputs
      | PFrameModelWithMotion b im k adaptation \<Rightarrow> PFrameModelWithMotion_decompress b im k inputs)"

text \<open>The dictionary \<^verbatim>\<open>compress\<close> returns, as a value.\<close>

definition out_val :: "'a out \<Rightarrow> 'a pyval" where
  "out_val out = VDict (map (\<lambda>(task, records). (task, VList records)) out)"

section \<open>loader/model_loader.py: load_model\<close>

text \<open>
  The model description read from \<^verbatim>\<open>model.json\<close>.  A key of \<^verbatim>\<open>arch_args\<close> that the
  description omits is \<open>None\<close>; \<^verbatim>\<open>keyframe_interval\<close> is an integer and \<^verbatim>\<open>adaptation\<close> a
  boolean, as the error messages of \<^verbatim>\<open>load_model\<close> ask for.
\<close>

record arch_args =
  iframe_model_path :: "string option"
  keyframe_interval :: "int option"
  adaptation :: "bool option"

record model_data =
  model_type :: string
  arch_args :: arch_args
  checkpoint :: string
  encoder_class :: string
  decoder_modules :: "(string \<times> string) list"
  weighting :: string
  architecture :: string

text \<open>
  What \<^verbatim>\<open>load_model\<close> calls outside the source: reading the file, the registry lookups
  and the construction of the decoders (the lines before the classes), the LibMTL
  constructor with \<^verbatim>\<open>init_param\<close>, and torch.  \<^verbatim>\<open>to(device)\<close>, \<^verbatim>\<open>load_state_dict\<close> and
  \<^verbatim>\<open>eval\<close> change the parameters and buffers of the modules and nothing else: they map
  the bases of a model (its own, then those of its embedded keyframe model) and leave
  its class, \<^verbatim>\<open>keyframe_interval\<close> and \<^verbatim>\<open>adaptation\<close> as they are.
\<close>

record ('a, 'm, 'c) env =
  read_model_json :: "string \<Rightarrow> string + model_data"
  resolve_components :: "model_data \<Rightarrow> string + 'c"
  arch_init :: "'c \<Rightarrow> model_data \<Rightarrow> string + ('a, 'm) base"
  to_device :: "('a, 'm) base list \<Rightarrow> string + ('a, 'm) base list"
  load_state_dict :: "string \<Rightarrow> bool \<Rightarrow> ('a, 'm) base list \<Rightarrow> string + ('a, 'm) base list"
  eval_mode :: "('a, 'm) base list \<Rightarrow> ('a, 'm) base list"
  get_scale_table :: "'a tensor"
  eb_update :: "bool \<Rightarrow> bool \<Rightarrow> 'm \<Rightarrow> string + (bool \<times> 'm)"
  gc_update_scale_table :: "'a tensor \<Rightarrow> bool \<Rightarrow> 'm \<Rightarrow> string + (bool \<times> 'm)"

fun bases :: "('a, 'm) model \<Rightarrow> ('a, 'm) base list" where
  "bases (IFrameModel b) = [b]"
| "bases (PFrameModel b im k a) = b # bases im"
| "bases (PFrameModelWithMotion b im k a) = b # bases im"

fun set_bases :: "('a, 'm) model \<Rightarrow> ('a, 'm) base list \<Rightarrow> ('a, 'm) model" where
  "set_bases m [] = m"
| "set_bases (IFrameModel b) (b' # bs) = IFrameModel b'"
| "set_bases (PFrameModel b im k a) (b' # bs) = PFrameModel b' (set_bases im bs) k a"
| "set_bases (PFrameModelWithMotion b im k a) (b' # bs) = PFrameModelWithMotion b' (set_bases im bs) k a"

subsection \<open>BaseModel.update\<close>

definition update_module ::
  "('a, 'm, 'c) env \<Rightarrow> 'a tensor \<Rightarrow> bool \<Rightarrow> bool \<Rightarrow> 'm nn_module \<Rightarrow> 'm nn_module list \<times> bool \<Rightarrow>
     py_error + ('m nn_module list \<times> bool)" where
  "update_module env scale_table force update_quantiles = (\<lambda>module (seen, updated).
     case module of
       EntropyBottleneck st \<Rightarrow>
         ebind (ext (eb_update env force update_quantiles st)) (\<lambda>(u, st').
           Inr (seen @ [EntropyBottleneck st'], updated \<or> u))
     | GaussianConditional st \<Rightarrow>
         ebind (ext (gc_update_scale_table env scale_table force st)) (\<lambda>(u, st').
           Inr (seen @ [GaussianConditional st'], updated \<or> u))
     | OtherModule \<Rightarrow> Inr (seen @ [OtherModule], updated))"

definition update_base ::
  "('a, 'm, 'c) env \<Rightarrow> 'a tensor \<Rightarrow> bool \<Rightarrow> bool \<Rightarrow> ('a, 'm) base \<Rightarrow> ('a, 'm) base list \<times> bool \<Rightarrow>
     py_error + (('a, 'm) base list \<times> bool)" where
  "update_base env scale_table force update_quantiles = (\<lambda>b (seen, updated).
     ebind (for_each (update_module env scale_table force update_quantiles) (modules b) ([], updated))
       (\<lambda>(ms, updated'). Inr (seen @ [b\<lparr>modules := ms\<rparr>], updated')))"

text \<open>
  \<^verbatim>\<open>update(scale_table, force, update_quantiles)\<close>: the loop over \<^verbatim>\<open>named_modules()\<close>, which
  walks the modules of the model and of its embedded keyframe model.  It returns the
  model with its modules updated, and \<^verbatim>\<open>updated\<close>.
\<close>

definition update ::
  "('a, 'm, 'c) env \<Rightarrow> ('a, 'm) model \<Rightarrow> 'a tensor option \<Rightarrow> bool \<Rightarrow> bool \<Rightarrow>
     py_error + (('a, 'm) model \<times> bool)" where
  "update env m scale_table force update_quantiles =
     (let scale_table = (case scale_table of None \<Rightarrow> get_scale_table env | Some t \<Rightarrow> t) in
      ebind (for_each (update_base env scale_table force update_quantiles) (bases m) ([], False))
        (\<lambda>(bs, updated). Inr (set_bases m bs, updated)))"

subsection \<open>load_model\<close>

definition startswith :: "string \<Rightarrow> string \<Rightarrow> bool" where
  "startswith s p \<longleftrightarrow> take (length p) s = p"

definition supported_model_types :: "string list" where
  "supported_model_types = [''IFrame'', ''PFrame'', ''PFrameWithMotion'']"

text \<open>The three presence checks on \<^verbatim>\<open>arch_args\<close> for a type that starts with \<^verbatim>\<open>PFrame\<close>.\<close>

definition check_arch_args :: "model_data \<Rightarrow> py_error + unit" where
  "check_arch_args md =
     (if startswith (model_type md) ''PFrame'' then
        if iframe_model_path (arch_args md) = None then
          Inl (KeyError (Name ''iframe_model_path key doesn't exist. Please provide path (str) to it manually in model.json''))
        else if keyframe_interval (arch_args md) = None then
          Inl (KeyError (Name ''keyframe_interval key doesn't exist. Please provide value (int) manually in model.json''))
        else if adaptation (arch_args md) = None then
          Inl (KeyError (Name ''adaptation key doesn't exist. Please provide value (bool) manually in model.json''))
        else Inr ()
      else Inr ())"

text \<open>\<^verbatim>\<open>kwargs[key]\<close> in the constructors of the predictive classes.\<close>

definition kwarg :: "'v option \<Rightarrow> string \<Rightarrow> py_error + 'v" where
  "kwarg v key = (case v of None \<Rightarrow> Inl (KeyError (Name key)) | Some x \<Rightarrow> Inr x)"

text \<open>
  The constructor of a predictive class: the LibMTL constructor, then
  \<^verbatim>\<open>load_model(kwargs["iframe_model_path"])\<close>, then the two attributes.
\<close>

definition PFrame_init ::
  "('a, 'm, 'c) env \<Rightarrow> (string \<Rightarrow> py_error + ('a, 'm) model) \<Rightarrow> 'c \<Rightarrow> model_data \<Rightarrow>
     (('a, 'm) base \<Rightarrow> ('a, 'm) model \<Rightarrow> int \<Rightarrow> bool \<Rightarrow> ('a, 'm) model) \<Rightarrow> py_error + ('a, 'm) model" where
  "PFrame_init env load components md cls =
     ebind (ext (arch_init env components md)) (\<lambda>b.
     ebind (kwarg (iframe_model_path (arch_args md)) ''iframe_model_path'') (\<lambda>path.
     ebind (load path) (\<lambda>iframe_model.
     ebind (kwarg (keyframe_interval (arch_args md)) ''keyframe_interval'') (\<lambda>k.
     ebind (kwarg (adaptation (arch_args md)) ''adaptation'') (\<lambda>a.
       Inr (cls b iframe_model k a))))))"

text \<open>The dispatch on \<^verbatim>\<open>model_type\<close>, each class followed by \<^verbatim>\<open>.to(device)\<close>.\<close>

definition construct ::
  "('a, 'm, 'c) env \<Rightarrow> (string \<Rightarrow> py_error + ('a, 'm) model) \<Rightarrow> 'c \<Rightarrow> model_data \<Rightarrow>
     py_error + ('a, 'm) model" where
  "construct env load components md =
     ebind (if model_type md = ''IFrame'' then
              ebind (ext (arch_init env components md)) (\<lambda>b. Inr (IFrameModel b))
            else if model_type md = ''PFrame'' then PFrame_init env load components md PFrameModel
            else if model_type md = ''PFrameWithMotion'' then
              PFrame_init env load components md PFrameModelWithMotion
            else Inl (ValueError supported_model_types)) (\<lambda>model.
     ebind (ext (to_device env (bases model))) (\<lambda>bs.
       Inr (set_bases model bs)))"

text \<open>The end of \<^verbatim>\<open>load_model\<close>: the checkpoint, \<^verbatim>\<open>eval()\<close>, and \<^verbatim>\<open>update(force=True)\<close>.\<close>

definition finish_load ::
  "('a, 'm, 'c) env \<Rightarrow> model_data \<Rightarrow> ('a, 'm) model \<Rightarrow> py_error + ('a, 'm) model" where
  "finish_load env md model =
     (let strict = (if startswith (model_type md) ''PFrame'' then False else True) in
      ebind (ext (load_state_dict env (checkpoint md) strict (bases model))) (\<lambda>bs.
      let model = set_bases model bs;
          model = set_bases model (eval_mode env (bases model)) in
      ebind (update env model None True False) (\<lambda>(model, updated).
        Inr model)))"

text \<open>
  \<^verbatim>\<open>load_model\<close> calls itself for the keyframe model of a predictive description, and
  nothing bounds the chain of descriptions but the interpreter's recursion limit,
  which is the first argument here.
\<close>

fun load_model :: "('a, 'm, 'c) env \<Rightarrow> nat \<Rightarrow> string \<Rightarrow> py_error + ('a, 'm) model" where
  "load_model env 0 json_file = Inl RecursionError"
| "load_model env (Suc depth) json_file =
     ebind (ext (read_model_json env json_file)) (\<lambda>md.
     ebind (check_arch_args md) (\<lambda>_.
     ebind (ext (resolve_components env md)) (\<lambda>components.
     ebind (construct env (\<lambda>path. load_model env depth path) components md) (\<lambda>model.
       finish_load env md model))))"

section \<open>Conditions on the libraries, and instances for the examples\<close>

text \<open>
  The loop of the four helpers of \<^verbatim>\<open>metrics.py\<close> over the items of the batch, for the
  metric \<open>f\<close>.
\<close>

abbreviation item_loop where
  "item_loop f x y \<equiv> (\<lambda>i vals. ebind (tensor_select x i) (\<lambda>a. ebind (tensor_select y i) (\<lambda>b.
      ebind (ext (f a b)) (\<lambda>p. Inr (vals @ [p])))))"

text \<open>
  The library returned the values \<open>vals\<close> for the first items of the batch: item \<open>i\<close> of
  the input and of the target exist and the metric \<open>f\<close> returned \<open>vals ! i\<close> for them.
\<close>

definition item_values ::
  "('a tensor \<Rightarrow> 'a tensor \<Rightarrow> string + 'a tensor) \<Rightarrow> 'a tensor \<Rightarrow> 'a tensor \<Rightarrow> 'a tensor list \<Rightarrow> bool" where
  "item_values f x y vals \<longleftrightarrow>
     (\<forall>i<length vals. \<exists>a b. tensor_select x i = Inr a \<and> tensor_select y i = Inr b \<and> f a b = Inr (vals ! i))"

text \<open>The call of the metric in \<^verbatim>\<open>_ssim_images\<close> (rank 4) and in \<^verbatim>\<open>_ssim_videos\<close>.\<close>

definition ssim_item :: "'a torchmetrics \<Rightarrow> 'a tensor \<Rightarrow> 'a tensor \<Rightarrow> 'a tensor \<Rightarrow> string + 'a tensor" where
  "ssim_item tm x =
     (if length (shape x) = 4
      then (\<lambda>a b. structural_similarity_index_measure tm (unsqueeze0 a) (unsqueeze0 b))
      else structural_similarity_index_measure tm)"

text \<open>\<^verbatim>\<open>torch.mean\<close> or \<^verbatim>\<open>torch.sum\<close>, the one the aggregate asks for, returns on \<open>s\<close>.\<close>

definition aggregate_returns :: "'a torchmetrics \<Rightarrow> string \<Rightarrow> 'a tensor \<Rightarrow> bool" where
  "aggregate_returns tm aggregate s \<longleftrightarrow>
     (aggregate = ''mean'' \<longrightarrow> (\<exists>r. torch_mean tm s = Inr r)) \<and>
     (aggregate = ''sum'' \<longrightarrow> (\<exists>r. torch_sum tm s = Inr r))"

text \<open>What a model inherits from \<^verbatim>\<open>BaseModel\<close>; \<^verbatim>\<open>self.task_name\<close> is among it.\<close>

fun base_of :: "('a, 'm) model \<Rightarrow> ('a, 'm) base" where
  "base_of (IFrameModel b) = b"
| "base_of (PFrameModel b im k a) = b"
| "base_of (PFrameModelWithMotion b im k a) = b"

text \<open>
  The value a predicted frame without adaptation appends for the task at position \<open>tn\<close>
  of \<^verbatim>\<open>self.task_name\<close>, as a function of the two-frame window \<^verbatim>\<open>video[:, i - 1:i + 1]\<close>.
\<close>

definition predicted_value :: "('a, 'm) base \<Rightarrow> 'a video \<Rightarrow> nat \<Rightarrow> string \<Rightarrow> py_error + 'a pyval" where
  "predicted_value b inp tn task =
     ebind (enc_compress (encoder b) inp []) (\<lambda>s_rep.
     ebind (task_rep b s_rep tn task) (\<lambda>ss_rep.
       task_value b task ss_rep))"

text \<open>
  A model with every method taken away through which the loader obtains or uses a
  reconstruction: the \<^verbatim>\<open>decompress\<close> of the decoders, and \<^verbatim>\<open>extract_feats\<close>, \<^verbatim>\<open>decompress\<close> and
  \<^verbatim>\<open>align_features\<close> of the encoder.  A call of the loader to one of them raises; the
  \<^verbatim>\<open>compress\<close> methods of the encoder and of the decoders stay as they are.
\<close>

definition encode_only_base :: "('a, 'm) base \<Rightarrow> ('a, 'm) base" where
  "encode_only_base b =
     b\<lparr>encoder := (encoder b)\<lparr>extract_feats := (\<lambda>t. Inl AttributeError),
                               enc_decompress := (\<lambda>args. Inl AttributeError),
                               align_features := (\<lambda>f offs. Inl AttributeError)\<rparr>,
       decoders := (\<lambda>task. map_option (\<lambda>d. d\<lparr>dec_decompress := (\<lambda>args. Inl AttributeError)\<rparr>) (decoders b task))\<rparr>"

fun encode_only :: "('a, 'm) model \<Rightarrow> ('a, 'm) model" where
  "encode_only (IFrameModel b) = IFrameModel (encode_only_base b)"
| "encode_only (PFrameModel b im k a) = PFrameModel (encode_only_base b) (encode_only im) k a"
| "encode_only (PFrameModelWithMotion b im k a) = PFrameModelWithMotion (encode_only_base b) (encode_only im) k a"

text \<open>
  Modelled from the spec: the \<^verbatim>\<open>compress\<close> and \<^verbatim>\<open>compress_with_prev_recon\<close> methods of the
  predictive encoders, which are not in the source.  With adaptation the encoder is
  driven by the reconstruction of the previous frame, and the decoder decodes the
  residual against the features of that reconstruction, recomputed by the feature
  extractor the encoder used: the reference \<^verbatim>\<open>ss_rep[0]\<close> of the \<^verbatim>\<open>vc\<close> representation is
  \<^verbatim>\<open>extract_feats(prev_recon)\<close>.
\<close>

definition reference_contract :: "('a, 'm) base \<Rightarrow> bool" where
  "reference_contract b \<longleftrightarrow>
     (\<forall>inp p s_rep tn ss_rep.
        enc_compress (encoder b) inp [VTensor p] = Inr s_rep \<longrightarrow>
        task_rep b s_rep tn ''vc'' = Inr ss_rep \<longrightarrow>
        (\<exists>f. extract_feats (encoder b) p = Inr f \<and> py_getitem ss_rep 0 = Inr (VTensor f)))"

text \<open>
  Modelled from the spec: with an explicit motion bitstream the reference is the aligned
  feature, the features of the previous reconstruction warped by the motion the decoder
  decodes from the motion record of the frame.
\<close>

definition motion_reference_contract :: "('a, 'm) base \<Rightarrow> bool" where
  "motion_reference_contract b \<longleftrightarrow>
     (\<forall>inp p s_rep tn ss_rep results recon.
        enc_compress_with_prev_recon (encoder b) (VTensor p) inp = Inr s_rep \<longrightarrow>
        task_rep b s_rep tn ''vc'' = Inr ss_rep \<longrightarrow>
        compress_and_decode b ss_rep = Inr (results, recon) \<longrightarrow>
        (\<exists>f inp1 margs recon_offsets align_feat.
           extract_feats (encoder b) p = Inr f \<and>
           py_getitem results 1 = Inr inp1 \<and> py_iter inp1 = Inr margs \<and>
           enc_decompress (encoder b) margs = Inr recon_offsets \<and>
           align_features (encoder b) (VTensor f) recon_offsets = Inr align_feat \<and>
           py_getitem ss_rep 0 = Inr align_feat))"

text \<open>
  The state of the encoder and of the decoder after the same frames: the \<^verbatim>\<open>prev_recon\<close> of
  the encoder is the last reconstruction of the decoder, and the \<^verbatim>\<open>prev_feat\<close> of the
  decoder is \<^verbatim>\<open>extract_feats\<close> of it.  Before the first frame both references are \<^verbatim>\<open>None\<close>.
\<close>

definition in_step :: "('a, 'm) base \<Rightarrow> 'a tensor option \<Rightarrow> 'a tensor list \<Rightarrow> 'a tensor option \<Rightarrow> bool" where
  "in_step b prev_recon reconstructed_video prev_feat \<longleftrightarrow>
     (if reconstructed_video = [] then prev_recon = None \<and> prev_feat = None
      else prev_recon = Some (last reconstructed_video) \<and>
           (\<exists>f. prev_feat = Some f \<and> extract_feats (encoder b) (last reconstructed_video) = Inr f))"

text \<open>\<^verbatim>\<open>self.keyframe_interval\<close> of a loaded model; an \<^verbatim>\<open>IFrameModel\<close> has no such attribute.\<close>

fun interval_of :: "('a, 'm) model \<Rightarrow> int option" where
  "interval_of (IFrameModel b) = None"
| "interval_of (PFrameModel b im k a) = Some k"
| "interval_of (PFrameModelWithMotion b im k a) = Some k"

text \<open>
  An entropy module is calibrated when its tables are computed; what that means is the
  entropy coder's business, so it is a predicate \<open>P\<close> on the state of a module.
\<close>

fun module_calibrated :: "('m \<Rightarrow> bool) \<Rightarrow> 'm nn_module \<Rightarrow> bool" where
  "module_calibrated P (EntropyBottleneck st) = P st"
| "module_calibrated P (GaussianConditional st) = P st"
| "module_calibrated P OtherModule = True"

definition model_calibrated :: "('m \<Rightarrow> bool) \<Rightarrow> ('a, 'm) model \<Rightarrow> bool" where
  "model_calibrated P m = list_all (\<lambda>b. list_all (module_calibrated P) (modules b)) (bases m)"

text \<open>A forced update of an entropy module leaves it calibrated.\<close>

definition forced_update_calibrates :: "('a, 'm, 'c) env \<Rightarrow> ('m \<Rightarrow> bool) \<Rightarrow> bool" where
  "forced_update_calibrates env P \<longleftrightarrow>
     (\<forall>uq st u st'. eb_update env True uq st = Inr (u, st') \<longrightarrow> P st') \<and>
     (\<forall>t st u st'. gc_update_scale_table env t True st = Inr (u, st') \<longrightarrow> P st')"

subsection \<open>A small codec for the examples\<close>

text \<open>
  Tensors of integers.  The feature extractor adds one to every element and the
  reconstruction head takes it away; a bitstream carries its tensor as it is, and the
  residual of a predicted frame is quantised to even numbers, so that the reconstruction
  of a predicted frame differs from the frame.
\<close>

definition tmap :: "(int \<Rightarrow> int) \<Rightarrow> int tensor \<Rightarrow> int tensor" where
  "tmap f t = Tensor (shape t) (map f (elems t))"

definition tzip :: "(int \<Rightarrow> int \<Rightarrow> int) \<Rightarrow> int tensor \<Rightarrow> int tensor \<Rightarrow> int tensor" where
  "tzip f s t = Tensor (shape s) (map (\<lambda>(x, y). f x y) (zip (elems s) (elems t)))"

definition frame :: "int \<Rightarrow> int tensor" where
  "frame x = Tensor [1, 1, 1, 1] [x]"

definition feats :: "int tensor \<Rightarrow> int tensor" where
  "feats t = tmap (\<lambda>x. x + 1) t"

definition head :: "int tensor \<Rightarrow> int tensor" where
  "head t = tmap (\<lambda>x. x - 1) t"

definition no_method :: "py_error + 'r" where
  "no_method = Inl AttributeError"

text \<open>The keyframe model of the source classes: \<^verbatim>\<open>VSRVCEncoder\<close> with an \<^verbatim>\<open>ICDecoder\<close>.\<close>

definition sample_VSRVCEncoder :: "int VSRVCEncoder" where
  "sample_VSRVCEncoder = \<lparr>view_layers = (\<lambda>x. case x of [] \<Rightarrow> Inl ''no frame'' | f # _ \<Rightarrow> Inr (feats f))\<rparr>"

definition sample_ICDecoder :: "int ICDecoder" where
  "sample_ICDecoder =
     \<lparr>compressor_compress = (\<lambda>x. Inr (x, VStr [], VInt 4)),
      compressor_decompress = (\<lambda>p h s. case p of VTensor t \<Rightarrow> Inr t | _ \<Rightarrow> Inl ''not a bitstream''),
      compressor_train = (\<lambda>x. case x of VTensor t \<Rightarrow> Inr (t, VInt 8, VInt 0) | _ \<Rightarrow> Inl ''not a tensor''),
      reconstruction_head = (\<lambda>t. Inr (head t))\<rparr>"

definition sample_encoder :: "int encoder" where
  "sample_encoder =
     \<lparr>enc_forward = VSRVCEncoder_forward sample_VSRVCEncoder,
      enc_compress = (\<lambda>inp extra. no_method),
      enc_compress_with_prev_recon = (\<lambda>p inp. no_method),
      extract_feats = (\<lambda>t. no_method),
      enc_decompress = (\<lambda>args. no_method),
      align_features = (\<lambda>f offs. no_method)\<rparr>"

definition ICDecoder_module :: "'a ICDecoder \<Rightarrow> 'a decoder" where
  "ICDecoder_module dec =
     \<lparr>dec_compress = ICDecoder_compress dec,
      dec_decompress = ICDecoder_decompress dec,
      dec_forward = ICDecoder_forward dec\<rparr>"

definition sample_iframe :: "(int, bool) base" where
  "sample_iframe =
     \<lparr>task_name = [''vc''],
      multi_input = False,
      encoder = sample_encoder,
      decoders = [''vc'' \<mapsto> ICDecoder_module sample_ICDecoder],
      prepare_rep = (\<lambda>rep task same_rep. Inr rep),
      modules = [OtherModule, EntropyBottleneck False, GaussianConditional False]\<rparr>"

text \<open>
  The keyframe model a predictive model embeds: its \<^verbatim>\<open>vc\<close> decoder returns the list of
  one record that \<^verbatim>\<open>results["vc"][0]\<close> and \<^verbatim>\<open>results["vc"].append\<close> ask for.
\<close>

definition key_decoder :: "int decoder" where
  "key_decoder =
     \<lparr>dec_compress = (\<lambda>x. Inr (VList [VTuple [x, VStr [], VInt 4]])),
      dec_decompress = (\<lambda>args. case args of [VTensor t, h, s] \<Rightarrow> Inr (head t) | _ \<Rightarrow> Inl TypeError),
      dec_forward = (\<lambda>x. Inr x)\<rparr>"

definition sample_key :: "(int, bool) base" where
  "sample_key =
     \<lparr>task_name = [''vc''],
      multi_input = False,
      encoder = sample_encoder,
      decoders = [''vc'' \<mapsto> key_decoder],
      prepare_rep = (\<lambda>rep task same_rep. Inr rep),
      modules = [EntropyBottleneck False]\<rparr>"

text \<open>
  The predictive codec.  The encoder pairs the features of its reference with those of
  the current frame: the reference is \<^verbatim>\<open>prev_recon\<close> when it is given, the previous raw
  frame otherwise.  With motion the representation carries a motion record, the decoded
  motion is the zero offset, and aligning by it changes nothing.
\<close>

definition motion_record :: "int pyval" where
  "motion_record = VTuple [VStr ''m'', VStr [], VInt 1]"

definition pair_rep :: "int tensor \<Rightarrow> int tensor \<Rightarrow> int pyval" where
  "pair_rep ref cur = VList [VTuple [VTensor (feats ref), VTensor (feats cur)]]"

definition motion_rep :: "int tensor \<Rightarrow> int tensor \<Rightarrow> int pyval" where
  "motion_rep ref cur = VList [VTuple [VTensor (feats ref), VTensor (feats cur), motion_record]]"

definition predictive_encoder :: "int encoder" where
  "predictive_encoder =
     \<lparr>enc_forward = (\<lambda>x. no_method),
      enc_compress = (\<lambda>inp extra.
         case inp of
           [x0, x1] \<Rightarrow> (case extra of [VTensor p] \<Rightarrow> Inr (pair_rep p x1) | _ \<Rightarrow> Inr (pair_rep x0 x1))
         | _ \<Rightarrow> Inl AssertionError),
      enc_compress_with_prev_recon = (\<lambda>p inp. no_method),
      extract_feats = (\<lambda>t. Inr (feats t)),
      enc_decompress = (\<lambda>args. no_method),
      align_features = (\<lambda>f offs. no_method)\<rparr>"

definition motion_encoder :: "int encoder" where
  "motion_encoder =
     \<lparr>enc_forward = (\<lambda>x. no_method),
      enc_compress = (\<lambda>inp extra.
         case inp of [x0, x1] \<Rightarrow> Inr (motion_rep x0 x1) | _ \<Rightarrow> Inl AssertionError),
      enc_compress_with_prev_recon = (\<lambda>p inp.
         case inp of
           [x0, x1] \<Rightarrow> (case p of VTensor r \<Rightarrow> Inr (motion_rep r x1) | _ \<Rightarrow> Inl TypeError)
         | _ \<Rightarrow> Inl AssertionError),
      extract_feats = (\<lambda>t. Inr (feats t)),
      enc_decompress = (\<lambda>args. Inr (VInt 0)),
      align_features = (\<lambda>f offs. Inr f)\<rparr>"

definition residual :: "int tensor \<Rightarrow> int tensor \<Rightarrow> int pyval" where
  "residual ref cur = VTuple [VTensor (tzip (\<lambda>c r. 2 * ((c - r) div 2)) cur ref), VStr [], VInt 4]"

definition predictive_decoder :: "int decoder" where
  "predictive_decoder =
     \<lparr>dec_compress = (\<lambda>x.
         case x of
           VTuple [VTensor ref, VTensor cur] \<Rightarrow> Inr (VTuple [residual ref cur])
         | VTuple [VTensor ref, VTensor cur, m] \<Rightarrow> Inr (VTuple [residual ref cur, m])
         | _ \<Rightarrow> Inl TypeError),
      dec_decompress = (\<lambda>args.
         case args of [VTensor ref, VTensor res, h, s] \<Rightarrow> Inr (head (tzip (+) res ref)) | _ \<Rightarrow> Inl TypeError),
      dec_forward = (\<lambda>x. Inr x)\<rparr>"

definition sample_predictive :: "(int, bool) base" where
  "sample_predictive =
     \<lparr>task_name = [''vc''],
      multi_input = False,
      encoder = predictive_encoder,
      decoders = [''vc'' \<mapsto> predictive_decoder],
      prepare_rep = (\<lambda>rep task same_rep. Inr rep),
      modules = [GaussianConditional False, OtherModule]\<rparr>"

definition sample_motion :: "(int, bool) base" where
  "sample_motion =
     \<lparr>task_name = [''vc''],
      multi_input = False,
      encoder = motion_encoder,
      decoders = [''vc'' \<mapsto> predictive_decoder],
      prepare_rep = (\<lambda>rep task same_rep. Inr rep),
      modules = [GaussianConditional False, OtherModule]\<rparr>"

definition sample_video :: "int video" where
  "sample_video = [frame 10, frame 13, frame 17, frame 20]"

text \<open>A video that agrees with it on the frames 1 and 2 only.\<close>

definition other_video :: "int video" where
  "other_video = [frame 50, frame 13, frame 17, frame 99]"

subsection \<open>A metrics library for the examples\<close>

text \<open>
  A library that refuses what the real one refuses: both metrics want inputs of one
  shape, the structural similarity a batch of images no smaller than its kernel of
  11 by 11, and the mean a tensor with an element.
\<close>

definition sample_metrics :: "int torchmetrics" where
  "sample_metrics =
     \<lparr>peak_signal_noise_ratio = (\<lambda>a b. if shape a = shape b then Inr (Tensor [] [0]) else Inl ''shapes differ''),
      structural_similarity_index_measure = (\<lambda>a b.
         if shape a \<noteq> shape b then Inl ''shapes differ''
         else if length (shape a) = 4 \<and> 11 \<le> shape a ! 2 \<and> 11 \<le> shape a ! 3 then Inr (Tensor [] [1])
         else Inl ''smaller than the kernel''),
      torch_mean = (\<lambda>t. if elems t = [] then Inl ''empty'' else Inr (Tensor [] [sum_list (elems t) div int (length (elems t))])),
      torch_sum = (\<lambda>t. Inr (Tensor [] [sum_list (elems t)]))\<rparr>"

text \<open>A batch of \<open>b\<close> images of one channel, 11 by 11, every pixel \<open>v\<close>.\<close>

definition images :: "nat \<Rightarrow> int \<Rightarrow> int tensor" where
  "images b v = Tensor [b, 1, 11, 11] (replicate (b * 121) v)"

subsection \<open>A small file system for the examples\<close>

definition description :: "string \<Rightarrow> arch_args \<Rightarrow> model_data" where
  "description t args =
     \<lparr>model_type = t, arch_args = args, checkpoint = ''model.pth'', encoder_class = ''Encoder'',
      decoder_modules = [(''vc'', ''Decoder'')], weighting = ''EW'', architecture = ''HPS''\<rparr>"

definition no_args :: arch_args where
  "no_args = \<lparr>iframe_model_path = None, keyframe_interval = None, adaptation = None\<rparr>"

definition sample_files :: "string \<Rightarrow> string + model_data" where
  "sample_files json_file =
     (if json_file = ''iframe.json'' then Inr (description ''IFrame'' no_args)
      else if json_file = ''pframe.json'' then
        Inr (description ''PFrame''
          \<lparr>iframe_model_path = Some ''iframe.json'', keyframe_interval = Some 2, adaptation = Some True\<rparr>)
      else if json_file = ''zero.json'' then
        Inr (description ''PFrameWithMotion''
          \<lparr>iframe_model_path = Some ''iframe.json'', keyframe_interval = Some 0, adaptation = Some False\<rparr>)
      else if json_file = ''no_adaptation.json'' then
        Inr (description ''PFrame''
          \<lparr>iframe_model_path = Some ''iframe.json'', keyframe_interval = Some 2, adaptation = None\<rparr>)
      else if json_file = ''pframe2.json'' then Inr (description ''PFrame2'' no_args)
      else if json_file = ''bframe.json'' then Inr (description ''BFrame'' no_args)
      else Inl ''No such file or directory'')"

text \<open>
  Every library call returns: the registry resolves, the checkpoint loads, and an
  entropy module reports a change when it is forced or was not calibrated.
\<close>

definition sample_env :: "(int, bool, unit) env" where
  "sample_env =
     \<lparr>read_model_json = sample_files,
      resolve_components = (\<lambda>md. Inr ()),
      arch_init = (\<lambda>c md.
         Inr (if model_type md = ''IFrame'' then sample_key
              else if model_type md = ''PFrame'' then sample_predictive else sample_motion)),
      to_device = (\<lambda>bs. Inr bs),
      load_state_dict = (\<lambda>ckpt strict bs. Inr bs),
      eval_mode = (\<lambda>bs. bs),
      get_scale_table = Tensor [1] [0],
      eb_update = (\<lambda>force uq st. Inr (force \<or> \<not> st, True)),
      gc_update_scale_table = (\<lambda>t force st. Inr (force \<or> \<not> st, True))\<rparr>"

text \<open>The record of the sample keyframe codec for a frame with features \<open>x\<close>.\<close>

definition sample_record :: "int \<Rightarrow> int pyval" where
  "sample_record x = VTuple [VTensor (frame x), VStr [], VInt 4]"

text \<open>The models \<^verbatim>\<open>load_model\<close> returns for the sample files.\<close>

definition loaded_key :: "(int, bool) model" where
  "loaded_key = IFrameModel (sample_key\<lparr>modules := [EntropyBottleneck True]\<rparr>)"

definition loaded_pframe :: "(int, bool) model" where
  "loaded_pframe =
     PFrameModel (sample_predictive\<lparr>modules := [GaussianConditional True, OtherModule]\<rparr>) loaded_key 2 True"


section \<open>Basic facts about the error monad\<close>

lemma ebind_Inl [simp]: "ebind (Inl e) f = Inl e"
  by (simp add: ebind_def)

lemma ebind_Inr [simp]: "ebind (Inr x) f = f x"
  by (simp add: ebind_def)

lemma ebind_eq_Inr: "ebind m f = Inr y \<longleftrightarrow> (\<exists>x. m = Inr x \<and> f x = Inr y)"
  by (cases m) simp_all

lemma ebind_eq_Inl: "ebind m f = Inl e \<longleftrightarrow> m = Inl e \<or> (\<exists>x. m = Inr x \<and> f x = Inl e)"
  by (cases m) simp_all

lemma ext_Inr [simp]: "ext (Inr x) = Inr x"
  by (simp add: ext_def)

lemma ext_Inl [simp]: "ext (Inl s) = Inl (External s)"
  by (simp add: ext_def)

lemma ext_eq_Inr [simp]: "ext r = Inr x \<longleftrightarrow> r = Inr x"
  by (cases r) simp_all

lemma ext_eq_Inl: "ext r = Inl e \<longleftrightarrow> (\<exists>s. r = Inl s \<and> e = External s)"
  by (cases r) auto

lemma for_each_append:
  "for_each body (xs @ ys) s = ebind (for_each body xs s) (for_each body ys)"
  by (induction xs arbitrary: s) (auto split: sum.splits)

lemma for_each_snoc:
  "for_each body (xs @ [x]) s = ebind (for_each body xs s) (body x)"
  by (simp add: for_each_append ebind_def split: sum.splits)

lemma for_each_Cons_Inr:
  "for_each body (x # xs) s = Inr s' \<longleftrightarrow> (\<exists>s1. body x s = Inr s1 \<and> for_each body xs s1 = Inr s')"
  by (auto split: sum.splits)

lemma for_each_append_Inr:
  "for_each body (xs @ ys) s = Inr s' \<longleftrightarrow> (\<exists>s1. for_each body xs s = Inr s1 \<and> for_each body ys s1 = Inr s')"
  by (simp add: for_each_append ebind_eq_Inr)

lemma for_each_upt_Suc:
  "for_each body [0..<Suc n] s = ebind (for_each body [0..<n] s) (body n)"
  by (simp add: for_each_snoc)

lemma enumerate_take_Suc:
  "i < length xs \<Longrightarrow> enumerate 0 (take (Suc i) xs) = enumerate 0 (take i xs) @ [(i, xs ! i)]"
  by (simp add: take_Suc_conv_app_nth enumerate_append_eq)

lemma for_each_error:
  "for_each body xs s = Inl e \<Longrightarrow> \<exists>x s'. x \<in> set xs \<and> body x s' = Inl e"
proof (induction xs arbitrary: s)
  case Nil
  then show ?case by simp
next
  case (Cons a xs)
  show ?case
  proof (cases "body a s")
    case (Inl e')
    with Cons.prems show ?thesis by auto
  next
    case (Inr s')
    with Cons.prems have "for_each body xs s' = Inl e" by simp
    from Cons.IH [OF this] show ?thesis by auto
  qed
qed


section \<open>The two-frame window of the encoders\<close>

lemma residual_body_no_assert: "VSRVCResidualEncoder_body enc a b c \<noteq> Inl AssertionError"
  by (auto simp: VSRVCResidualEncoder_body_def ebind_eq_Inl ext_eq_Inl)

lemma motion_body_no_assert: "VSRVCMotionResidualEncoder_body enc a b c \<noteq> Inl AssertionError"
  by (auto simp: VSRVCMotionResidualEncoder_body_def ebind_eq_Inl ext_eq_Inl split: prod.splits)

text \<open>
  Claim C8.  On a 5-dimensional input with \<open>N\<close> frames, the forward passes of
  \<^verbatim>\<open>VSRVCMotionResidualEncoder\<close> and \<^verbatim>\<open>VSRVCResidualEncoder\<close> raise \<^verbatim>\<open>AssertionError\<close>
  exactly when \<open>N \<noteq> 2\<close>; on a two-frame window they go past the check and run the body
  on the two frames.
\<close>

theorem two_frame_window_assertion:
  "(VSRVCMotionResidualEncoder_forward menc x = Inl AssertionError) = (length x \<noteq> 2) \<and>
   (VSRVCResidualEncoder_forward renc x = Inl AssertionError) = (length x \<noteq> 2) \<and>
   VSRVCMotionResidualEncoder_forward menc [x0, x1] = VSRVCMotionResidualEncoder_body menc x0 x1 x1 \<and>
   VSRVCResidualEncoder_forward renc [x0, x1] = VSRVCResidualEncoder_body renc x0 x1 x1"
  by (simp add: VSRVCMotionResidualEncoder_forward_def VSRVCResidualEncoder_forward_def
      residual_body_no_assert motion_body_no_assert)

section \<open>The errors of psnr and ssim\<close>

lemma tensor_select_error: "tensor_select t i = Inl e \<Longrightarrow> e = IndexError"
  by (auto simp: tensor_select_def split: list.splits if_splits)

lemma torch_stack0_error: "torch_stack0 ts = Inl e \<Longrightarrow> e = RuntimeError"
  by (auto simp: torch_stack0_def split: list.splits if_splits)

lemma aggregate_values_error:
  "valid_aggregate aggregate \<Longrightarrow> aggregate_values tm aggregate vals \<noteq> Inl (NotImplementedError w)"
  by (auto simp: aggregate_values_def valid_aggregate_def ebind_eq_Inl ext_eq_Inl dest: torch_stack0_error)

lemma size0_error: "size0 t = Inl e \<Longrightarrow> e = IndexError"
  by (auto simp: size0_def split: list.splits)

lemma item_loop_error:
  "for_each (\<lambda>i vals. ebind (tensor_select x i) (\<lambda>a. ebind (tensor_select y i) (\<lambda>b.
      ebind (ext (f a b)) (\<lambda>p. Inr (vals @ [p]))))) is acc \<noteq> Inl (NotImplementedError w)"
proof
  assume "for_each (\<lambda>i vals. ebind (tensor_select x i) (\<lambda>a. ebind (tensor_select y i) (\<lambda>b.
      ebind (ext (f a b)) (\<lambda>p. Inr (vals @ [p]))))) is acc = Inl (NotImplementedError w)"
  from for_each_error [OF this] show False
    by (auto simp: ebind_eq_Inl ext_eq_Inl dest: tensor_select_error)
qed

lemma psnr_images_error:
  "valid_aggregate aggregate \<Longrightarrow> length (shape x) = 4 \<Longrightarrow>
   psnr_images tm x y aggregate \<noteq> Inl (NotImplementedError w)"
  by (auto simp: psnr_images_def ebind_eq_Inl item_loop_error aggregate_values_error dest: size0_error)

lemma psnr_videos_error:
  "valid_aggregate aggregate \<Longrightarrow> length (shape x) = 5 \<Longrightarrow>
   psnr_videos tm x y aggregate \<noteq> Inl (NotImplementedError w)"
  by (auto simp: psnr_videos_def ebind_eq_Inl item_loop_error aggregate_values_error dest: size0_error)

lemma ssim_images_error:
  "valid_aggregate aggregate \<Longrightarrow> length (shape x) = 4 \<Longrightarrow>
   ssim_images tm x y aggregate \<noteq> Inl (NotImplementedError w)"
  by (auto simp: ssim_images_def ebind_eq_Inl
      item_loop_error [where f = "\<lambda>a b. structural_similarity_index_measure tm (unsqueeze0 a) (unsqueeze0 b)"]
      aggregate_values_error dest: size0_error)

lemma ssim_videos_error:
  "valid_aggregate aggregate \<Longrightarrow> length (shape x) = 5 \<Longrightarrow>
   ssim_videos tm x y aggregate \<noteq> Inl (NotImplementedError w)"
  by (auto simp: ssim_videos_def ebind_eq_Inl item_loop_error aggregate_values_error dest: size0_error)

lemma psnr_not_implemented:
  "(\<exists>w. psnr tm x y aggregate = Inl (NotImplementedError w)) \<longleftrightarrow>
     \<not> valid_aggregate aggregate \<or> length (shape x) \<notin> {4, 5}"
  by (auto simp: psnr_def psnr_images_error psnr_videos_error)

lemma ssim_not_implemented:
  "(\<exists>w. ssim tm x y aggregate = Inl (NotImplementedError w)) \<longleftrightarrow>
     \<not> valid_aggregate aggregate \<or> length (shape x) \<notin> {4, 5}"
  by (auto simp: ssim_def ssim_images_error ssim_videos_error)

lemma item_loop_values:
  assumes "item_values f x y vals" "n \<le> length vals"
  shows "for_each (item_loop f x y) [0..<n] [] = Inr (take n vals)"
  using assms(2)
proof (induction n)
  case 0
  then show ?case by simp
next
  case (Suc n)
  then have ih: "for_each (item_loop f x y) [0..<n] [] = Inr (take n vals)" and n: "n < length vals"
    by simp_all
  from assms(1) n obtain a b where "tensor_select x n = Inr a" "tensor_select y n = Inr b"
    "f a b = Inr (vals ! n)"
    by (auto simp: item_values_def)
  with ih n show ?case by (simp add: for_each_snoc take_Suc_conv_app_nth)
qed

lemma item_loop_index_error:
  assumes v: "item_values f x y vals" and x: "shape x = length vals # xs" and n: "length vals < n"
  shows "for_each (item_loop f x y) [0..<n] [] = Inl IndexError"
proof -
  have sp: "[0..<n] = [0..<length vals] @ length vals # [Suc (length vals)..<n]"
    using n by (metis less_imp_le_nat upt_add_eq_append upt_conv_Cons le0 add_diff_inverse_nat not_less)
  have "tensor_select x (length vals) = Inl IndexError" by (simp add: tensor_select_def x)
  then show ?thesis
    unfolding sp for_each_append by (simp add: item_loop_values [OF v le_refl])
qed

lemma torch_stack0_same:
  "vals \<noteq> [] \<Longrightarrow> \<forall>v \<in> set vals. shape v = sh \<Longrightarrow>
   torch_stack0 vals = Inr (Tensor (length vals # sh) (concat (map elems vals)))"
  by (cases vals) (auto simp: torch_stack0_def list_all_iff)

lemma aggregate_values_returns:
  assumes "valid_aggregate aggregate" "vals \<noteq> []" "\<forall>v \<in> set vals. shape v = sh"
    "aggregate_returns tm aggregate (Tensor (length vals # sh) (concat (map elems vals)))"
  shows "\<exists>t. aggregate_values tm aggregate vals = Inr t"
  using assms(1,4) torch_stack0_same [OF assms(2,3)]
  by (auto simp: aggregate_values_def valid_aggregate_def aggregate_returns_def)

lemma helper_unfold:
  assumes "valid_aggregate aggregate" "length (shape x) \<in> {4, 5}" "shape y = n # ys"
  shows "psnr tm x y aggregate =
           ebind (for_each (item_loop (peak_signal_noise_ratio tm) x y) [0..<n] []) (aggregate_values tm aggregate)"
    and "ssim tm x y aggregate =
           ebind (for_each (item_loop (ssim_item tm x) x y) [0..<n] []) (aggregate_values tm aggregate)"
  using assms
  by (auto simp: psnr_def ssim_def psnr_images_def psnr_videos_def ssim_images_def ssim_videos_def
      size0_def ssim_item_def)

lemma metric_returns:
  assumes agg: "valid_aggregate aggregate" and rank: "length (shape x) \<in> {4, 5}"
    and y: "shape y = n # ys" and n: "1 \<le> n" "length vals = n"
    and same: "\<forall>v \<in> set vals. shape v = sh"
    and ar: "aggregate_returns tm aggregate (Tensor (n # sh) (concat (map elems vals)))"
  shows "item_values (peak_signal_noise_ratio tm) x y vals \<Longrightarrow> \<exists>t. psnr tm x y aggregate = Inr t"
    and "item_values (ssim_item tm x) x y vals \<Longrightarrow> \<exists>t. ssim tm x y aggregate = Inr t"
proof -
  from n have ne: "vals \<noteq> []" by auto
  from ar n have ar': "aggregate_returns tm aggregate (Tensor (length vals # sh) (concat (map elems vals)))"
    by simp
  note a = aggregate_values_returns [OF agg ne same ar']
  show "\<exists>t. psnr tm x y aggregate = Inr t" if "item_values (peak_signal_noise_ratio tm) x y vals"
    using item_loop_values [OF that, of n] n a by (simp add: helper_unfold(1) [OF agg rank y])
  show "\<exists>t. ssim tm x y aggregate = Inr t" if "item_values (ssim_item tm x) x y vals"
    using item_loop_values [OF that, of n] n a by (simp add: helper_unfold(2) [OF agg rank y])
qed

lemma metric_index_error:
  assumes agg: "valid_aggregate aggregate" and rank: "length (shape x) \<in> {4, 5}"
    and x: "shape x = m # xs" and y: "shape y = n # ys" and n: "m < n" "length vals = m"
  shows "item_values (peak_signal_noise_ratio tm) x y vals \<Longrightarrow> psnr tm x y aggregate = Inl IndexError"
    and "item_values (ssim_item tm x) x y vals \<Longrightarrow> ssim tm x y aggregate = Inl IndexError"
proof -
  from x n have x': "shape x = length vals # xs" and n': "length vals < n" by simp_all
  show "psnr tm x y aggregate = Inl IndexError" if "item_values (peak_signal_noise_ratio tm) x y vals"
    by (simp add: helper_unfold(1) [OF agg rank y] item_loop_index_error [OF that x' n'])
  show "ssim tm x y aggregate = Inl IndexError" if "item_values (ssim_item tm x) x y vals"
    by (simp add: helper_unfold(2) [OF agg rank y] item_loop_index_error [OF that x' n'])
qed

lemma metric_empty_batch:
  assumes agg: "valid_aggregate aggregate" and rank: "length (shape x) \<in> {4, 5}" and y: "shape y = 0 # ys"
  shows "psnr tm x y aggregate = Inl RuntimeError" "ssim tm x y aggregate = Inl RuntimeError"
  using agg
  by (auto simp: helper_unfold [OF agg rank y] aggregate_values_def valid_aggregate_def torch_stack0_def)

lemma item_loop_errors:
  "for_each (item_loop f x y) is acc = Inl e \<Longrightarrow> e = IndexError \<or> (\<exists>s. e = External s)"
  by (drule for_each_error) (auto simp: ebind_eq_Inl ext_eq_Inl dest: tensor_select_error)

lemma aggregate_values_errors:
  "valid_aggregate aggregate \<Longrightarrow> aggregate_values tm aggregate vals = Inl e \<Longrightarrow>
   e = RuntimeError \<or> (\<exists>s. e = External s)"
  by (auto simp: aggregate_values_def valid_aggregate_def ebind_eq_Inl ext_eq_Inl dest: torch_stack0_error)

lemma metric_error_kinds:
  assumes agg: "valid_aggregate aggregate" and rank: "length (shape x) \<in> {4, 5}" and y: "shape y = n # ys"
  shows "psnr tm x y aggregate = Inl e \<Longrightarrow> e = IndexError \<or> e = RuntimeError \<or> (\<exists>s. e = External s)"
    and "ssim tm x y aggregate = Inl e \<Longrightarrow> e = IndexError \<or> e = RuntimeError \<or> (\<exists>s. e = External s)"
  by (auto simp: helper_unfold [OF agg rank y] ebind_eq_Inl
      dest: item_loop_errors aggregate_values_errors [OF agg])

lemma metric_error_kinds':
  assumes agg: "valid_aggregate aggregate" and rank: "length (shape x) \<in> {4, 5}"
  shows "psnr tm x y aggregate = Inl e \<Longrightarrow> e = IndexError \<or> e = RuntimeError \<or> (\<exists>s. e = External s)"
    and "ssim tm x y aggregate = Inl e \<Longrightarrow> e = IndexError \<or> e = RuntimeError \<or> (\<exists>s. e = External s)"
proof -
  show "e = IndexError \<or> e = RuntimeError \<or> (\<exists>s. e = External s)" if "psnr tm x y aggregate = Inl e"
  proof (cases "shape y")
    case Nil
    with that agg rank show ?thesis
      by (auto simp: psnr_def psnr_images_def psnr_videos_def size0_def)
  next
    case (Cons n ys)
    from metric_error_kinds(1) [OF agg rank Cons that] show ?thesis .
  qed
  show "e = IndexError \<or> e = RuntimeError \<or> (\<exists>s. e = External s)" if "ssim tm x y aggregate = Inl e"
  proof (cases "shape y")
    case Nil
    with that agg rank show ?thesis
      by (auto simp: ssim_def ssim_images_def ssim_videos_def size0_def)
  next
    case (Cons n ys)
    from metric_error_kinds(2) [OF agg rank Cons that] show ?thesis .
  qed
qed

lemma tensor_select_images:
  "i < b \<Longrightarrow> \<exists>a. tensor_select (images b v) i = Inr a \<and> shape a = [1, 11, 11]"
  by (simp add: tensor_select_def images_def)

lemma sample_item_values:
  "m \<le> b \<Longrightarrow> m \<le> c \<Longrightarrow>
   item_values (peak_signal_noise_ratio sample_metrics) (images b v) (images c w) (replicate m (Tensor [] [0]))"
  "m \<le> b \<Longrightarrow> m \<le> c \<Longrightarrow>
   item_values (ssim_item sample_metrics (images b v)) (images b v) (images c w) (replicate m (Tensor [] [1]))"
proof -
  assume m: "m \<le> b" "m \<le> c"
  show "item_values (peak_signal_noise_ratio sample_metrics) (images b v) (images c w) (replicate m (Tensor [] [0]))"
    unfolding item_values_def
  proof (intro allI impI)
    fix i assume "i < length (replicate m (Tensor [] [0::int]))"
    with m have i: "i < b" "i < c" "i < m" by simp_all
    from tensor_select_images [OF i(1), of v] obtain a where
      a: "tensor_select (images b v) i = Inr a" "shape a = [1, 11, 11]" by blast
    from tensor_select_images [OF i(2), of w] obtain ba where
      ba: "tensor_select (images c w) i = Inr ba" "shape ba = [1, 11, 11]" by blast
    from a(2) ba(2) i(3)
    have "peak_signal_noise_ratio sample_metrics a ba = Inr (replicate m (Tensor [] [0]) ! i)"
      by (simp add: sample_metrics_def)
    with a(1) ba(1)
    show "\<exists>a ba. tensor_select (images b v) i = Inr a \<and> tensor_select (images c w) i = Inr ba \<and>
        peak_signal_noise_ratio sample_metrics a ba = Inr (replicate m (Tensor [] [0]) ! i)"
      by blast
  qed
  show "item_values (ssim_item sample_metrics (images b v)) (images b v) (images c w) (replicate m (Tensor [] [1]))"
    unfolding item_values_def
  proof (intro allI impI)
    fix i assume "i < length (replicate m (Tensor [] [1::int]))"
    with m have i: "i < b" "i < c" "i < m" by simp_all
    from tensor_select_images [OF i(1), of v] obtain a where
      a: "tensor_select (images b v) i = Inr a" "shape a = [1, 11, 11]" by blast
    from tensor_select_images [OF i(2), of w] obtain ba where
      ba: "tensor_select (images c w) i = Inr ba" "shape ba = [1, 11, 11]" by blast
    from a(2) ba(2) i(3)
    have "ssim_item sample_metrics (images b v) a ba = Inr (replicate m (Tensor [] [1]) ! i)"
      by (simp add: sample_metrics_def ssim_item_def images_def unsqueeze0_def)
    with a(1) ba(1)
    show "\<exists>a ba. tensor_select (images b v) i = Inr a \<and> tensor_select (images c w) i = Inr ba \<and>
        ssim_item sample_metrics (images b v) a ba = Inr (replicate m (Tensor [] [1]) ! i)"
      by blast
  qed
qed

text \<open>
  Claim C10, amended.  \<^verbatim>\<open>psnr\<close> and \<^verbatim>\<open>ssim\<close> raise \<^verbatim>\<open>NotImplementedError\<close> exactly when the
  aggregate is not one of mean, sum, none or the rank of the input is neither 4 nor 5,
  and an invalid aggregate is reported whatever the rank.  With a valid aggregate and an
  input of rank 4 or 5 they return a tensor when the target has \<open>n \<ge> 1\<close> items, the input
  has these items too, the metric returns for each of the \<open>n\<close> pairs a value of one shape,
  and \<^verbatim>\<open>torch.mean\<close> or \<^verbatim>\<open>torch.sum\<close> returns on the stacked values.  Otherwise the error is
  \<^verbatim>\<open>IndexError\<close>, \<^verbatim>\<open>RuntimeError\<close> or the error of a library call: \<^verbatim>\<open>IndexError\<close> when the target has
  more items than the input and the metric returned for the items of the input,
  \<^verbatim>\<open>RuntimeError\<close> when the target has no item.
\<close>

theorem metric_errors:
  "((\<exists>w. psnr tm x y aggregate = Inl (NotImplementedError w)) \<longleftrightarrow>
      \<not> valid_aggregate aggregate \<or> length (shape x) \<notin> {4, 5}) \<and>
   ((\<exists>w. ssim tm x y aggregate = Inl (NotImplementedError w)) \<longleftrightarrow>
      \<not> valid_aggregate aggregate \<or> length (shape x) \<notin> {4, 5}) \<and>
   (\<not> valid_aggregate aggregate \<longrightarrow>
      psnr tm x y aggregate = Inl (NotImplementedError (UnrecognizedAggregation aggregate)) \<and>
      ssim tm x y aggregate = Inl (NotImplementedError (UnrecognizedAggregation aggregate))) \<and>
   (valid_aggregate aggregate \<and> length (shape x) \<in> {4, 5} \<longrightarrow>
      (shape y = n # ys \<and> 1 \<le> n \<and> length vals = n \<and> (\<forall>v \<in> set vals. shape v = sh) \<and>
       aggregate_returns tm aggregate (Tensor (n # sh) (concat (map elems vals))) \<longrightarrow>
         (item_values (peak_signal_noise_ratio tm) x y vals \<longrightarrow> (\<exists>t. psnr tm x y aggregate = Inr t)) \<and>
         (item_values (ssim_item tm x) x y vals \<longrightarrow> (\<exists>t. ssim tm x y aggregate = Inr t))) \<and>
      (\<forall>e. psnr tm x y aggregate = Inl e \<or> ssim tm x y aggregate = Inl e \<longrightarrow>
         e = IndexError \<or> e = RuntimeError \<or> (\<exists>s. e = External s)) \<and>
      (shape x = m # xs \<and> shape y = n # ys \<and> m < n \<and> length vals = m \<longrightarrow>
         (item_values (peak_signal_noise_ratio tm) x y vals \<longrightarrow> psnr tm x y aggregate = Inl IndexError) \<and>
         (item_values (ssim_item tm x) x y vals \<longrightarrow> ssim tm x y aggregate = Inl IndexError)) \<and>
      (shape y = 0 # ys \<longrightarrow>
         psnr tm x y aggregate = Inl RuntimeError \<and> ssim tm x y aggregate = Inl RuntimeError))"
proof (intro conjI impI allI)
  show "(\<exists>w. psnr tm x y aggregate = Inl (NotImplementedError w)) \<longleftrightarrow>
      \<not> valid_aggregate aggregate \<or> length (shape x) \<notin> {4, 5}"
    by (rule psnr_not_implemented)
  show "(\<exists>w. ssim tm x y aggregate = Inl (NotImplementedError w)) \<longleftrightarrow>
      \<not> valid_aggregate aggregate \<or> length (shape x) \<notin> {4, 5}"
    by (rule ssim_not_implemented)
  show "psnr tm x y aggregate = Inl (NotImplementedError (UnrecognizedAggregation aggregate))"
    if "\<not> valid_aggregate aggregate" using that by (simp add: psnr_def)
  show "ssim tm x y aggregate = Inl (NotImplementedError (UnrecognizedAggregation aggregate))"
    if "\<not> valid_aggregate aggregate" using that by (simp add: ssim_def)
next
  assume a: "valid_aggregate aggregate \<and> length (shape x) \<in> {4, 5}"
    and b: "shape y = n # ys \<and> 1 \<le> n \<and> length vals = n \<and> (\<forall>v \<in> set vals. shape v = sh) \<and>
       aggregate_returns tm aggregate (Tensor (n # sh) (concat (map elems vals)))"
  show "\<exists>t. psnr tm x y aggregate = Inr t" if "item_values (peak_signal_noise_ratio tm) x y vals"
    using a b by (intro metric_returns(1) [OF _ _ _ _ _ _ _ that]) auto
  show "\<exists>t. ssim tm x y aggregate = Inr t" if "item_values (ssim_item tm x) x y vals"
    using a b by (intro metric_returns(2) [OF _ _ _ _ _ _ _ that]) auto
next
  fix e
  assume a: "valid_aggregate aggregate \<and> length (shape x) \<in> {4, 5}"
    and e: "psnr tm x y aggregate = Inl e \<or> ssim tm x y aggregate = Inl e"
  from a have agg: "valid_aggregate aggregate" and rank: "length (shape x) \<in> {4, 5}" by simp_all
  from e metric_error_kinds' [OF agg rank]
  show "e = IndexError \<or> e = RuntimeError \<or> (\<exists>s. e = External s)" by blast
next
  assume a: "valid_aggregate aggregate \<and> length (shape x) \<in> {4, 5}"
    and b: "shape x = m # xs \<and> shape y = n # ys \<and> m < n \<and> length vals = m"
  show "psnr tm x y aggregate = Inl IndexError" if "item_values (peak_signal_noise_ratio tm) x y vals"
    using a b by (intro metric_index_error(1) [OF _ _ _ _ _ _ that]) auto
  show "ssim tm x y aggregate = Inl IndexError" if "item_values (ssim_item tm x) x y vals"
    using a b by (intro metric_index_error(2) [OF _ _ _ _ _ _ that]) auto
next
  assume a: "valid_aggregate aggregate \<and> length (shape x) \<in> {4, 5}" and b: "shape y = 0 # ys"
  from a have agg: "valid_aggregate aggregate" and rank: "length (shape x) \<in> {4, 5}" by simp_all
  show "psnr tm x y aggregate = Inl RuntimeError" by (rule metric_empty_batch(1) [OF agg rank b])
  show "ssim tm x y aggregate = Inl RuntimeError" by (rule metric_empty_batch(2) [OF agg rank b])
qed

text \<open>
  The theorem at two images per batch with \<^verbatim>\<open>mean\<close>, at a target longer than the input
  with \<^verbatim>\<open>sum\<close>, and with the unknown \<^verbatim>\<open>max\<close>.
\<close>

theorem metric_errors_witness:
  "(\<exists>t. psnr sample_metrics (images 2 3) (images 2 5) ''mean'' = Inr t) \<and>
   (\<exists>t. ssim sample_metrics (images 2 3) (images 2 5) ''mean'' = Inr t) \<and>
   psnr sample_metrics (images 1 3) (images 2 5) ''sum'' = Inl IndexError \<and>
   ssim sample_metrics (images 1 3) (images 2 5) ''sum'' = Inl IndexError \<and>
   psnr sample_metrics (images 2 3) (images 2 5) ''max'' =
     Inl (NotImplementedError (UnrecognizedAggregation ''max''))"
proof -
  have v: "valid_aggregate ''mean''" "valid_aggregate ''sum''" "\<not> valid_aggregate ''max''"
    by (simp_all add: valid_aggregate_def)
  have s: "shape (images b v) = [b, 1, 11, 11]" for b v by (simp add: images_def)
  have ar: "aggregate_returns sample_metrics ''mean''
      (Tensor (2 # []) (concat (map elems (replicate 2 (Tensor [] [c])))))" for c :: int
    by (simp add: aggregate_returns_def sample_metrics_def numeral_2_eq_2)
  note t1 = metric_errors [where tm = sample_metrics and x = "images 2 3" and y = "images 2 5"
      and aggregate = "''mean''" and n = 2 and ys = "[1, 11, 11]" and sh = "[]"
      and vals = "replicate 2 (Tensor [] [0])"]
  note t2 = metric_errors [where tm = sample_metrics and x = "images 2 3" and y = "images 2 5"
      and aggregate = "''mean''" and n = 2 and ys = "[1, 11, 11]" and sh = "[]"
      and vals = "replicate 2 (Tensor [] [1])"]
  note t3 = metric_errors [where tm = sample_metrics and x = "images 1 3" and y = "images 2 5"
      and aggregate = "''sum''" and n = 2 and ys = "[1, 11, 11]" and m = 1 and xs = "[1, 11, 11]"
      and vals = "replicate 1 (Tensor [] [0])"]
  note t4 = metric_errors [where tm = sample_metrics and x = "images 1 3" and y = "images 2 5"
      and aggregate = "''sum''" and n = 2 and ys = "[1, 11, 11]" and m = 1 and xs = "[1, 11, 11]"
      and vals = "replicate 1 (Tensor [] [1])"]
  note t5 = metric_errors [where tm = sample_metrics and x = "images 2 3" and y = "images 2 5"
      and aggregate = "''max''"]
  from t1 v s ar sample_item_values(1) [of 2 2 2 3 5]
  have "\<exists>t. psnr sample_metrics (images 2 3) (images 2 5) ''mean'' = Inr t" by simp
  moreover from t2 v s ar sample_item_values(2) [of 2 2 2 3 5]
  have "\<exists>t. ssim sample_metrics (images 2 3) (images 2 5) ''mean'' = Inr t" by simp
  moreover from t3 v s sample_item_values(1) [of 1 1 2 3 5]
  have "psnr sample_metrics (images 1 3) (images 2 5) ''sum'' = Inl IndexError" by simp
  moreover from t4 v s sample_item_values(2) [of 1 1 2 3 5]
  have "ssim sample_metrics (images 1 3) (images 2 5) ''sum'' = Inl IndexError" by simp
  moreover from t5 v
  have "psnr sample_metrics (images 2 3) (images 2 5) ''max'' =
     Inl (NotImplementedError (UnrecognizedAggregation ''max''))" by simp
  ultimately show ?thesis by blast
qed

text \<open>
  Claim C10 as stated fails: with a valid aggregate and an input of rank 4, no tensor is
  returned when the target has more items than the input (\<^verbatim>\<open>input_images[1]\<close> raises
  \<^verbatim>\<open>IndexError\<close>) or when the batch is empty (\<^verbatim>\<open>torch.stack\<close> of no values raises
  \<^verbatim>\<open>RuntimeError\<close>), although every call of a metric returns.
\<close>

theorem metric_returns_counterexample:
  "valid_aggregate ''mean'' \<and> length (shape (images 1 3)) = 4 \<and> length (shape (images 0 3)) = 4 \<and>
   psnr sample_metrics (images 1 3) (images 2 5) ''mean'' = Inl IndexError \<and>
   ssim sample_metrics (images 1 3) (images 2 5) ''mean'' = Inl IndexError \<and>
   psnr sample_metrics (images 0 3) (images 0 5) ''mean'' = Inl RuntimeError \<and>
   ssim sample_metrics (images 0 3) (images 0 5) ''mean'' = Inl RuntimeError"
  by (simp add: valid_aggregate_def psnr_def ssim_def psnr_images_def ssim_images_def size0_def
      tensor_select_def sample_metrics_def aggregate_values_def torch_stack0_def upt_rec images_def
      unsqueeze0_def)

section \<open>Keyframes and predicted frames\<close>

text \<open>
  Claim C2.  With \<open>keyframe_interval \<ge> 1\<close>, the round of frame \<open>i\<close> in each loop of the two
  predictive classes (compress without and with adaptation, decompress) is the keyframe
  branch, through \<^verbatim>\<open>self.iframe_model\<close>, when \<open>i mod keyframe_interval = 0\<close> and the predicted
  branch otherwise; each loop after \<open>i + 1\<close> frames is the loop after \<open>i\<close> frames followed by
  that round; frame 0 takes the keyframe branch; and with \<open>keyframe_interval = 1\<close> every
  frame does.
\<close>

theorem keyframe_routing:
  assumes k: "1 \<le> k" and i: "i < length recs"
  shows
   "PFrameModel_plain_frame b im k video i out =
      (if int i mod k = 0 then PFrameModel_keyframe im video i out else predicted_no_adaptation b video i out) \<and>
    PFrameModel_adapt_frame b im k video i st =
      (if int i mod k = 0 then PFrameModel_keyframe_adapt im video i (fst st)
       else PFrameModel_predicted_adapt b video i st) \<and>
    PFrameModel_decompress_frame b im k (i, inp) (rv, pf) =
      ebind (if int i mod k = 0 then decode_keyframe im inp else PFrameModel_decode_predicted b pf inp)
        (\<lambda>recon. ebind (extract_feats (encoder b) recon) (\<lambda>feat. Inr (rv @ [recon], Some feat))) \<and>
    PFrameModelWithMotion_plain_frame b im k video i out =
      (if int i mod k = 0 then PFrameModelWithMotion_keyframe im video i out
       else predicted_no_adaptation b video i out) \<and>
    PFrameModelWithMotion_adapt_frame b im k video i st =
      (if int i mod k = 0 then PFrameModelWithMotion_keyframe_adapt im video i (fst st)
       else PFrameModelWithMotion_predicted_adapt b video i st) \<and>
    PFrameModelWithMotion_decompress_frame b im k (i, inp) (rv, pf) =
      ebind (if int i mod k = 0 then decode_keyframe im inp else PFrameModelWithMotion_decode_predicted b pf inp)
        (\<lambda>recon. ebind (extract_feats (encoder b) recon) (\<lambda>feat. Inr (rv @ [recon], Some feat))) \<and>
    PFrameModel_plain_upto b im k video (Suc i) =
      ebind (PFrameModel_plain_upto b im k video i) (PFrameModel_plain_frame b im k video i) \<and>
    PFrameModel_adapt_upto b im k video (Suc i) =
      ebind (PFrameModel_adapt_upto b im k video i) (PFrameModel_adapt_frame b im k video i) \<and>
    PFrameModel_decompress_loop b im k (take (Suc i) recs) =
      ebind (PFrameModel_decompress_loop b im k (take i recs)) (PFrameModel_decompress_frame b im k (i, recs ! i)) \<and>
    PFrameModelWithMotion_plain_upto b im k video (Suc i) =
      ebind (PFrameModelWithMotion_plain_upto b im k video i) (PFrameModelWithMotion_plain_frame b im k video i) \<and>
    PFrameModelWithMotion_adapt_upto b im k video (Suc i) =
      ebind (PFrameModelWithMotion_adapt_upto b im k video i) (PFrameModelWithMotion_adapt_frame b im k video i) \<and>
    PFrameModelWithMotion_decompress_loop b im k (take (Suc i) recs) =
      ebind (PFrameModelWithMotion_decompress_loop b im k (take i recs))
        (PFrameModelWithMotion_decompress_frame b im k (i, recs ! i)) \<and>
    PFrameModel_plain_frame b im k video 0 out = PFrameModel_keyframe im video 0 out \<and>
    PFrameModel_adapt_frame b im k video 0 st = PFrameModel_keyframe_adapt im video 0 (fst st) \<and>
    PFrameModel_decompress_frame b im k (0, inp) (rv, pf) =
      ebind (decode_keyframe im inp)
        (\<lambda>recon. ebind (extract_feats (encoder b) recon) (\<lambda>feat. Inr (rv @ [recon], Some feat))) \<and>
    PFrameModelWithMotion_plain_frame b im k video 0 out = PFrameModelWithMotion_keyframe im video 0 out \<and>
    PFrameModelWithMotion_adapt_frame b im k video 0 st = PFrameModelWithMotion_keyframe_adapt im video 0 (fst st) \<and>
    PFrameModelWithMotion_decompress_frame b im k (0, inp) (rv, pf) =
      ebind (decode_keyframe im inp)
        (\<lambda>recon. ebind (extract_feats (encoder b) recon) (\<lambda>feat. Inr (rv @ [recon], Some feat))) \<and>
    PFrameModel_plain_frame b im 1 video i out = PFrameModel_keyframe im video i out \<and>
    PFrameModel_adapt_frame b im 1 video i st = PFrameModel_keyframe_adapt im video i (fst st) \<and>
    PFrameModel_decompress_frame b im 1 (i, inp) (rv, pf) =
      ebind (decode_keyframe im inp)
        (\<lambda>recon. ebind (extract_feats (encoder b) recon) (\<lambda>feat. Inr (rv @ [recon], Some feat))) \<and>
    PFrameModelWithMotion_plain_frame b im 1 video i out = PFrameModelWithMotion_keyframe im video i out \<and>
    PFrameModelWithMotion_adapt_frame b im 1 video i st = PFrameModelWithMotion_keyframe_adapt im video i (fst st) \<and>
    PFrameModelWithMotion_decompress_frame b im 1 (i, inp) (rv, pf) =
      ebind (decode_keyframe im inp)
        (\<lambda>recon. ebind (extract_feats (encoder b) recon) (\<lambda>feat. Inr (rv @ [recon], Some feat)))"
proof -
  have m: "py_mod i k = Inr (int i mod k)" "py_mod 0 k = Inr 0" "py_mod i 1 = Inr 0"
    using k by (simp_all add: py_mod_def)
  have frames:
    "PFrameModel_plain_frame b im k video i out =
      (if int i mod k = 0 then PFrameModel_keyframe im video i out else predicted_no_adaptation b video i out)"
    "PFrameModel_adapt_frame b im k video i st =
      (if int i mod k = 0 then PFrameModel_keyframe_adapt im video i (fst st)
       else PFrameModel_predicted_adapt b video i st)"
    "PFrameModel_decompress_frame b im k (i, inp) (rv, pf) =
      ebind (if int i mod k = 0 then decode_keyframe im inp else PFrameModel_decode_predicted b pf inp)
        (\<lambda>recon. ebind (extract_feats (encoder b) recon) (\<lambda>feat. Inr (rv @ [recon], Some feat)))"
    "PFrameModelWithMotion_plain_frame b im k video i out =
      (if int i mod k = 0 then PFrameModelWithMotion_keyframe im video i out
       else predicted_no_adaptation b video i out)"
    "PFrameModelWithMotion_adapt_frame b im k video i st =
      (if int i mod k = 0 then PFrameModelWithMotion_keyframe_adapt im video i (fst st)
       else PFrameModelWithMotion_predicted_adapt b video i st)"
    "PFrameModelWithMotion_decompress_frame b im k (i, inp) (rv, pf) =
      ebind (if int i mod k = 0 then decode_keyframe im inp else PFrameModelWithMotion_decode_predicted b pf inp)
        (\<lambda>recon. ebind (extract_feats (encoder b) recon) (\<lambda>feat. Inr (rv @ [recon], Some feat)))"
    by (simp_all add: PFrameModel_plain_frame_def PFrameModel_adapt_frame_def PFrameModel_decompress_frame_def
        PFrameModelWithMotion_plain_frame_def PFrameModelWithMotion_adapt_frame_def
        PFrameModelWithMotion_decompress_frame_def m)
  have loops:
    "PFrameModel_plain_upto b im k video (Suc i) =
      ebind (PFrameModel_plain_upto b im k video i) (PFrameModel_plain_frame b im k video i)"
    "PFrameModel_adapt_upto b im k video (Suc i) =
      ebind (PFrameModel_adapt_upto b im k video i) (PFrameModel_adapt_frame b im k video i)"
    "PFrameModel_decompress_loop b im k (take (Suc i) recs) =
      ebind (PFrameModel_decompress_loop b im k (take i recs)) (PFrameModel_decompress_frame b im k (i, recs ! i))"
    "PFrameModelWithMotion_plain_upto b im k video (Suc i) =
      ebind (PFrameModelWithMotion_plain_upto b im k video i) (PFrameModelWithMotion_plain_frame b im k video i)"
    "PFrameModelWithMotion_adapt_upto b im k video (Suc i) =
      ebind (PFrameModelWithMotion_adapt_upto b im k video i) (PFrameModelWithMotion_adapt_frame b im k video i)"
    "PFrameModelWithMotion_decompress_loop b im k (take (Suc i) recs) =
      ebind (PFrameModelWithMotion_decompress_loop b im k (take i recs))
        (PFrameModelWithMotion_decompress_frame b im k (i, recs ! i))"
    using i
    by (simp_all only: PFrameModel_plain_upto_def PFrameModel_adapt_upto_def PFrameModel_decompress_loop_def
        PFrameModelWithMotion_plain_upto_def PFrameModelWithMotion_adapt_upto_def
        PFrameModelWithMotion_decompress_loop_def for_each_upt_Suc enumerate_take_Suc for_each_snoc)
  have first:
    "PFrameModel_plain_frame b im k video 0 out = PFrameModel_keyframe im video 0 out"
    "PFrameModel_adapt_frame b im k video 0 st = PFrameModel_keyframe_adapt im video 0 (fst st)"
    "PFrameModel_decompress_frame b im k (0, inp) (rv, pf) =
      ebind (decode_keyframe im inp)
        (\<lambda>recon. ebind (extract_feats (encoder b) recon) (\<lambda>feat. Inr (rv @ [recon], Some feat)))"
    "PFrameModelWithMotion_plain_frame b im k video 0 out = PFrameModelWithMotion_keyframe im video 0 out"
    "PFrameModelWithMotion_adapt_frame b im k video 0 st = PFrameModelWithMotion_keyframe_adapt im video 0 (fst st)"
    "PFrameModelWithMotion_decompress_frame b im k (0, inp) (rv, pf) =
      ebind (decode_keyframe im inp)
        (\<lambda>recon. ebind (extract_feats (encoder b) recon) (\<lambda>feat. Inr (rv @ [recon], Some feat)))"
    by (simp_all add: PFrameModel_plain_frame_def PFrameModel_adapt_frame_def PFrameModel_decompress_frame_def
        PFrameModelWithMotion_plain_frame_def PFrameModelWithMotion_adapt_frame_def
        PFrameModelWithMotion_decompress_frame_def m)
  have one:
    "PFrameModel_plain_frame b im 1 video i out = PFrameModel_keyframe im video i out"
    "PFrameModel_adapt_frame b im 1 video i st = PFrameModel_keyframe_adapt im video i (fst st)"
    "PFrameModel_decompress_frame b im 1 (i, inp) (rv, pf) =
      ebind (decode_keyframe im inp)
        (\<lambda>recon. ebind (extract_feats (encoder b) recon) (\<lambda>feat. Inr (rv @ [recon], Some feat)))"
    "PFrameModelWithMotion_plain_frame b im 1 video i out = PFrameModelWithMotion_keyframe im video i out"
    "PFrameModelWithMotion_adapt_frame b im 1 video i st = PFrameModelWithMotion_keyframe_adapt im video i (fst st)"
    "PFrameModelWithMotion_decompress_frame b im 1 (i, inp) (rv, pf) =
      ebind (decode_keyframe im inp)
        (\<lambda>recon. ebind (extract_feats (encoder b) recon) (\<lambda>feat. Inr (rv @ [recon], Some feat)))"
    by (simp_all add: PFrameModel_plain_frame_def PFrameModel_adapt_frame_def PFrameModel_decompress_frame_def
        PFrameModelWithMotion_plain_frame_def PFrameModelWithMotion_adapt_frame_def
        PFrameModelWithMotion_decompress_frame_def m)
  show ?thesis
    using frames loops first one by (intro conjI)
qed

text \<open>The theorem at interval 2 and frames 2 and 3 of a video of four frames.\<close>

theorem keyframe_routing_witness:
  "PFrameModel_plain_frame sample_predictive (IFrameModel sample_key) 2 sample_video 2 [] =
     PFrameModel_keyframe (IFrameModel sample_key) sample_video 2 [] \<and>
   PFrameModel_plain_frame sample_predictive (IFrameModel sample_key) 2 sample_video 3 [] =
     predicted_no_adaptation sample_predictive sample_video 3 [] \<and>
   PFrameModel_decompress_frame sample_predictive (IFrameModel sample_key) 2 (2, VNone) ([], None) =
     ebind (decode_keyframe (IFrameModel sample_key) VNone)
       (\<lambda>recon. ebind (extract_feats (encoder sample_predictive) recon) (\<lambda>feat. Inr ([] @ [recon], Some feat))) \<and>
   PFrameModel_decompress_frame sample_predictive (IFrameModel sample_key) 2 (3, VNone) ([], None) =
     ebind (PFrameModel_decode_predicted sample_predictive None VNone)
       (\<lambda>recon. ebind (extract_feats (encoder sample_predictive) recon) (\<lambda>feat. Inr ([] @ [recon], Some feat)))"
  using keyframe_routing [of 2 2 "[VNone, VNone, VNone, VNone]" sample_predictive "IFrameModel sample_key"
      sample_video "[]" _ VNone "[]" None]
    keyframe_routing [of 2 3 "[VNone, VNone, VNone, VNone]" sample_predictive "IFrameModel sample_key"
      sample_video "[]" _ VNone "[]" None]
  by simp

section \<open>The errors of load_model\<close>

text \<open>Loading the sample files.\<close>

lemmas sample_env_defs =
  sample_env_def sample_files_def description_def no_args_def check_arch_args_def
  startswith_def construct_def PFrame_init_def kwarg_def finish_load_def update_def update_base_def
  update_module_def sample_predictive_def sample_motion_def loaded_key_def sample_key_def
  supported_model_types_def

lemma load_iframe: "load_model sample_env 1 ''iframe.json'' = Inr loaded_key"
  by (simp add: sample_env_defs)

lemma load_pframe: "load_model sample_env 2 ''pframe.json'' = Inr loaded_pframe"
  using load_iframe by (simp add: numeral_2_eq_2 loaded_pframe_def sample_env_defs)



lemma check_arch_args_cases:
  "check_arch_args md = Inr () \<or> (\<exists>msg. check_arch_args md = Inl (KeyError (Name msg)))"
  by (auto simp: check_arch_args_def)





section \<open>A keyframe interval of zero\<close>

lemma interval_of_set_bases [simp]: "interval_of (set_bases m bs) = interval_of m"
  by (induction m bs rule: set_bases.induct) simp_all












section \<open>The forced update of load_model\<close>

lemma length_bases_set_bases [simp]: "length (bases (set_bases m bs)) = length (bases m)"
  by (induction m bs rule: set_bases.induct) simp_all

lemma bases_set_bases: "length bs = length (bases m) \<Longrightarrow> bases (set_bases m bs) = bs"
  by (induction m bs rule: set_bases.induct) auto

lemma update_module_calibrates:
  assumes "forced_update_calibrates env P"
    and "update_module env t True uq module (seen, upd) = Inr (ms, u)"
  shows "\<exists>module'. ms = seen @ [module'] \<and> module_calibrated P module'"
  using assms
  by (cases module)
    (auto simp: update_module_def forced_update_calibrates_def ebind_eq_Inr split: prod.splits)

lemma update_modules_calibrate:
  assumes "forced_update_calibrates env P"
  shows "for_each (update_module env t True uq) xs (seen, upd) = Inr (ms, u) \<Longrightarrow>
         \<exists>new. ms = seen @ new \<and> length new = length xs \<and> list_all (module_calibrated P) new"
proof (induction xs arbitrary: seen upd)
  case Nil
  then show ?case by simp
next
  case (Cons x xs)
  from Cons.prems obtain s1 u1 where
    s1: "update_module env t True uq x (seen, upd) = Inr (s1, u1)"
    and rest: "for_each (update_module env t True uq) xs (s1, u1) = Inr (ms, u)"
    by (auto split: sum.splits)
  from update_module_calibrates [OF assms s1] obtain x' where
    x': "s1 = seen @ [x']" "module_calibrated P x'" by blast
  from Cons.IH [OF rest] obtain new where
    new: "ms = s1 @ new" "length new = length xs" "list_all (module_calibrated P) new" by blast
  show ?case
    by (rule exI [of _ "x' # new"]) (simp add: x' new)
qed

lemma update_base_calibrates:
  assumes "forced_update_calibrates env P"
    and "update_base env t True uq b (seen, upd) = Inr (bs, u)"
  shows "\<exists>b'. bs = seen @ [b'] \<and> list_all (module_calibrated P) (modules b')"
proof -
  from assms(2) obtain ms u' where
    ms: "for_each (update_module env t True uq) (modules b) ([], upd) = Inr (ms, u')"
    and bs: "bs = seen @ [b\<lparr>modules := ms\<rparr>]"
    by (auto simp: update_base_def ebind_eq_Inr)
  from update_modules_calibrate [OF assms(1) ms] have "list_all (module_calibrated P) ms"
    by auto
  with bs show ?thesis by simp
qed

lemma update_bases_calibrate:
  assumes "forced_update_calibrates env P"
  shows "for_each (update_base env t True uq) xs (seen, upd) = Inr (bs, u) \<Longrightarrow>
         \<exists>new. bs = seen @ new \<and> length new = length xs \<and>
           list_all (\<lambda>b. list_all (module_calibrated P) (modules b)) new"
proof (induction xs arbitrary: seen upd)
  case Nil
  then show ?case by simp
next
  case (Cons x xs)
  from Cons.prems obtain s1 u1 where
    s1: "update_base env t True uq x (seen, upd) = Inr (s1, u1)"
    and rest: "for_each (update_base env t True uq) xs (s1, u1) = Inr (bs, u)"
    by (auto split: sum.splits)
  from update_base_calibrates [OF assms s1] obtain x' where
    x': "s1 = seen @ [x']" "list_all (module_calibrated P) (modules x')" by blast
  from Cons.IH [OF rest] obtain new where
    new: "bs = s1 @ new" "length new = length xs"
      "list_all (\<lambda>b. list_all (module_calibrated P) (modules b)) new" by blast
  show ?case
    by (rule exI [of _ "x' # new"]) (simp add: x' new)
qed

lemma forced_update_calibrated:
  assumes "forced_update_calibrates env P" and "update env m st True uq = Inr (m', u)"
  shows "model_calibrated P m'"
proof -
  from assms(2) obtain t bs where
    bs: "for_each (update_base env t True uq) (bases m) ([], False) = Inr (bs, u)"
    and m': "m' = set_bases m bs"
    by (auto simp: update_def Let_def ebind_eq_Inr)
  from update_bases_calibrate [OF assms(1) bs] have
    "length bs = length (bases m)" "list_all (\<lambda>b. list_all (module_calibrated P) (modules b)) bs"
    by auto
  then show ?thesis
    by (simp add: model_calibrated_def m' bases_set_bases)
qed

lemma if_not: "(if c then False else True) = (\<not> c)"
  by simp

text \<open>
  Claim C6.  A model that \<^verbatim>\<open>load_model\<close> returns is the result of one
  \<^verbatim>\<open>update(force=True)\<close> on the model as it is after the checkpoint was loaded and \<^verbatim>\<open>eval()\<close>
  was called; so, when a forced update calibrates an entropy module, every entropy module
  of the returned model, those of its embedded keyframe model too, is calibrated.
\<close>

theorem load_model_forces_update:
  assumes "load_model env depth json_file = Inr model"
  shows "\<exists>md components constructed bs updated.
           read_model_json env json_file = Inr md \<and>
           resolve_components env md = Inr components \<and>
           construct env (load_model env (depth - 1)) components md = Inr constructed \<and>
           load_state_dict env (checkpoint md) (\<not> startswith (model_type md) ''PFrame'') (bases constructed) = Inr bs \<and>
           update env (set_bases (set_bases constructed bs) (eval_mode env (bases (set_bases constructed bs))))
             None True False = Inr (model, updated) \<and>
           (forced_update_calibrates env P \<longrightarrow> model_calibrated P model)"
proof (cases depth)
  case 0
  with assms show ?thesis by simp
next
  case (Suc d)
  with assms obtain md components constructed where
    rd: "read_model_json env json_file = Inr md"
    and rs: "resolve_components env md = Inr components"
    and cs: "construct env (load_model env d) components md = Inr constructed"
    and fl: "finish_load env md constructed = Inr model"
    by (auto simp: ebind_eq_Inr)
  from fl obtain bs updated where
    ld: "load_state_dict env (checkpoint md) (\<not> startswith (model_type md) ''PFrame'') (bases constructed) = Inr bs"
    and up: "update env (set_bases (set_bases constructed bs) (eval_mode env (bases (set_bases constructed bs))))
             None True False = Inr (model, updated)"
    by (auto simp: finish_load_def Let_def ebind_eq_Inr if_not)
  have "forced_update_calibrates env P \<longrightarrow> model_calibrated P model"
    using forced_update_calibrated [OF _ up] by blast
  with rd rs cs ld up Suc show ?thesis by auto
qed

text \<open>The theorem at the sample predictive description.\<close>

theorem load_model_forces_update_witness:
  "load_model sample_env 2 ''pframe.json'' = Inr loaded_pframe \<and> model_calibrated (\<lambda>st. st) loaded_pframe"
  using load_pframe load_model_forces_update [OF load_pframe, of "\<lambda>st. st"]
  by (auto simp: forced_update_calibrates_def sample_env_def)

section \<open>The per-task lists of compress\<close>

lemma out_append_Inr:
  "out_append task e out = Inr out' \<longleftrightarrow>
     (\<exists>l v. map_of out task = Some l \<and> e = Inr v \<and> out' = AList.update task (l @ [v]) out)"
  by (auto simp: out_append_def ebind_eq_Inr split: option.splits)

lemma map_of_out_append:
  assumes "out_append task (Inr v) out = Inr out'"
  shows "map_of out' t = (if t = task then map_option (\<lambda>l. l @ [v]) (map_of out t) else map_of out t)"
  using assms by (auto simp: out_append_Inr update_conv')

lemma map_of_out_append_other:
  "out_append task e out = Inr out' \<Longrightarrow> t \<noteq> task \<Longrightarrow> map_of out' t = map_of out t"
  by (auto simp: out_append_Inr update_conv')

lemma append_results_map_of:
  "distinct (map fst results) \<Longrightarrow> append_results results out = Inr out' \<Longrightarrow>
   map_of out' t =
     (case map_of results t of None \<Rightarrow> map_of out t | Some v \<Rightarrow> map_option (\<lambda>l. l @ [v]) (map_of out t))"
proof (induction results arbitrary: out)
  case Nil
  then show ?case by (simp add: append_results_def)
next
  case (Cons kv rs)
  obtain k v where kv: "kv = (k, v)" by (cases kv)
  from Cons.prems(2) obtain out1 where
    o1: "out_append k (Inr v) out = Inr out1" and rest: "append_results rs out1 = Inr out'"
    by (auto simp: append_results_def kv split: sum.splits)
  from Cons.prems(1) have d: "distinct (map fst rs)" and nk: "map_of rs k = None"
    by (auto simp: kv map_of_eq_None_iff)
  note ih = Cons.IH [OF d rest]
  show ?case
  proof (cases "t = k")
    case True
    with ih nk map_of_out_append [OF o1, of t] show ?thesis by (simp add: kv)
  next
    case False
    with ih map_of_out_append [OF o1, of t] show ?thesis by (simp add: kv split: option.splits)
  qed
qed

lemma map_of_init_out:
  "map_of (init_out tasks :: 'a out) t = (if t \<in> set tasks then Some [] else None)"
proof -
  have "map_of (fold (\<lambda>task. AList.update task []) tasks acc) t =
        (if t \<in> set tasks then Some [] else map_of acc t)" for acc :: "'a out"
    by (induction tasks arbitrary: acc) (auto simp: update_conv')
  from this [of "[]"] show ?thesis by (simp add: init_out_def)
qed

lemma snd_set_enumerate: "snd ` set (enumerate n xs) = set xs"
  by (metis map_snd_enumerate set_map)


lemma update_loop_keys:
  assumes step: "\<And>x acc acc'. body x acc = Inr acc' \<Longrightarrow> \<exists>v. acc' = AList.update (snd x) v acc"
  shows "for_each body xs acc = Inr acc' \<Longrightarrow> distinct (map fst acc) \<Longrightarrow>
         distinct (map fst acc') \<and> fst ` set acc' = fst ` set acc \<union> snd ` set xs"
proof (induction xs arbitrary: acc)
  case Nil
  then show ?case by simp
next
  case (Cons x xs)
  from Cons.prems(1) obtain acc1 where
    a1: "body x acc = Inr acc1" and rest: "for_each body xs acc1 = Inr acc'"
    by (auto split: sum.splits)
  from step [OF a1] obtain v where v: "acc1 = AList.update (snd x) v acc" by blast
  from Cons.IH [OF rest] distinct_update [OF Cons.prems(2)] show ?case
    by (auto simp: v dom_update)
qed

lemma compress_one_keys:
  assumes "IFrameModel_compress_one b inp = Inr results"
  shows "distinct (map fst results) \<and> fst ` set results = set (task_name b)"
proof -
  from assms obtain s_rep where
    l: "for_each (\<lambda>(tn, task) out.
           ebind (task_rep b s_rep tn task) (\<lambda>ss_rep.
           ebind (task_value b task ss_rep) (\<lambda>v.
             Inr (AList.update task v out))))
         (enumerate 0 (task_name b)) [] = Inr results"
    by (auto simp: IFrameModel_compress_one_def ebind_eq_Inr)
  have "distinct (map fst results) \<and>
        fst ` set results = fst ` set ([] :: 'a results) \<union> snd ` set (enumerate 0 (task_name b))"
  proof (rule update_loop_keys [OF _ l])
    show "distinct (map fst ([] :: 'a results))" by simp
  qed (auto simp: ebind_eq_Inr)
  then show ?thesis
    by (simp add: snd_set_enumerate)
qed

lemma slice_frames_single: "n < length v \<Longrightarrow> slice_frames v (int n) (int n + 1) = [v ! n]"
proof -
  assume n: "n < length v"
  have "slice_bound (length v) (int n) = n" "slice_bound (length v) (int n + 1) = Suc n"
    using n by (auto simp: slice_bound_def nat_add_distrib)
  then show ?thesis
    using n by (simp add: slice_frames_def take_Suc_conv_app_nth Cons_nth_drop_Suc [symmetric])
qed

lemma out_append_dom:
  "out_append task e out = Inr out' \<Longrightarrow> dom (map_of out') = dom (map_of out)"
  by (auto simp: out_append_Inr update_conv' split: if_splits)

lemma append_results_ok:
  "fst ` set results \<subseteq> dom (map_of out) \<Longrightarrow> \<exists>out'. append_results results out = Inr out'"
proof (induction results arbitrary: out)
  case Nil
  then show ?case by (simp add: append_results_def)
next
  case (Cons kv rs)
  obtain k v where kv: "kv = (k, v)" by (cases kv)
  from Cons.prems obtain l where l: "map_of out k = Some l" by (auto simp: kv)
  then have o1: "out_append k (Inr v) out = Inr (AList.update k (l @ [v]) out)"
    by (simp add: out_append_def)
  from Cons.prems have "fst ` set rs \<subseteq> dom (map_of (AList.update k (l @ [v]) out))"
    by (auto simp: update_conv')
  from Cons.IH [OF this] obtain out' where "append_results rs (AList.update k (l @ [v]) out) = Inr out'"
    by blast
  then show ?case
    using o1 by (simp add: append_results_def kv)
qed

lemma append_results_dom:
  "distinct (map fst results) \<Longrightarrow> append_results results out = Inr out' \<Longrightarrow>
   dom (map_of out') = dom (map_of out)"
  by (auto simp: append_results_map_of dom_def split: option.splits)

lemma dom_init_out: "dom (map_of (init_out tasks :: 'a out)) = set tasks"
  by (auto simp: map_of_init_out dom_def split: if_splits)

section \<open>The round trip of the Independent policy\<close>

lemma IFrameModel_compress_upto_Suc:
  "IFrameModel_compress_upto b video (Suc n) =
     ebind (IFrameModel_compress_upto b video n) (\<lambda>out.
       ebind (IFrameModel_compress_one b (slice_frames video (int n) (int n + 1))) (\<lambda>results.
         append_results results out))"
  by (simp add: IFrameModel_compress_upto_def for_each_snoc)

lemma iframe_prefix:
  assumes sh: "\<forall>f \<in> set video. shape f = sh"
    and codec: "\<forall>f \<in> set video. \<exists>results vc t. IFrameModel_compress_one b [f] = Inr results \<and>
        map_of results ''vc'' = Some vc \<and> IFrameModel_decompress_one b vc = Inr t \<and> shape t = shape f"
  shows "n \<le> length video \<Longrightarrow>
    \<exists>out recs rv. IFrameModel_compress_upto b video n = Inr out \<and> dom (map_of out) = set (task_name b) \<and>
      map_of out ''vc'' = (if ''vc'' \<in> set (task_name b) then Some recs else None) \<and> length recs = n \<and>
      for_each (\<lambda>inp reconstructed_video.
          ebind (IFrameModel_decompress_one b inp) (\<lambda>r. Inr (reconstructed_video @ [r]))) recs [] = Inr rv \<and>
      length rv = n \<and> (\<forall>t \<in> set rv. shape t = sh)"
proof (induction n)
  case 0
  show ?case
    by (rule exI [of _ "init_out (task_name b)"], rule exI [of _ "[]"], rule exI [of _ "[]"])
      (auto simp: IFrameModel_compress_upto_def map_of_init_out dom_def split: if_splits)
next
  case (Suc n)
  then obtain out recs rv where
    up: "IFrameModel_compress_upto b video n = Inr out" and d: "dom (map_of out) = set (task_name b)"
    and m: "map_of out ''vc'' = (if ''vc'' \<in> set (task_name b) then Some recs else None)"
    and lr: "length recs = n"
    and dec: "for_each (\<lambda>inp reconstructed_video.
          ebind (IFrameModel_decompress_one b inp) (\<lambda>r. Inr (reconstructed_video @ [r]))) recs [] = Inr rv"
    and lv: "length rv = n" and shv: "\<forall>t \<in> set rv. shape t = sh"
    by auto
  from Suc.prems have n: "n < length video" by simp
  then have mem: "video ! n \<in> set video" by simp
  from codec mem obtain results vc t where
    c1: "IFrameModel_compress_one b [video ! n] = Inr results" and vc: "map_of results ''vc'' = Some vc"
    and d1: "IFrameModel_decompress_one b vc = Inr t" and st: "shape t = shape (video ! n)"
    by blast
  from compress_one_keys [OF c1] have keys: "distinct (map fst results)" "fst ` set results = set (task_name b)"
    by auto
  from vc have "''vc'' \<in> fst ` set results"
    by (meson domI dom_map_of_conv_image_fst [THEN equalityD1, THEN subsetD] map_of_SomeD)
  with keys have vcin: "''vc'' \<in> set (task_name b)" by simp
  from append_results_ok [of results out] keys d obtain out' where
    ap: "append_results results out = Inr out'" by auto
  have up': "IFrameModel_compress_upto b video (Suc n) = Inr out'"
    by (simp add: IFrameModel_compress_upto_Suc up slice_frames_single [OF n] c1 ap)
  have d': "dom (map_of out') = set (task_name b)"
    using append_results_dom [OF keys(1) ap] d by simp
  have m': "map_of out' ''vc'' = Some (recs @ [vc])"
    using append_results_map_of [OF keys(1) ap, of "''vc''"] vc m vcin by simp
  have dec': "for_each (\<lambda>inp reconstructed_video.
          ebind (IFrameModel_decompress_one b inp) (\<lambda>r. Inr (reconstructed_video @ [r]))) (recs @ [vc]) [] =
        Inr (rv @ [t])"
    by (simp add: for_each_snoc dec d1)
  have "shape t = sh" using st sh mem by simp
  with shv have shv': "\<forall>t \<in> set (rv @ [t]). shape t = sh" by simp
  show ?case
    by (rule exI [of _ out'], rule exI [of _ "recs @ [vc]"], rule exI [of _ "rv @ [t]"])
      (use up' d' m' vcin lr dec' lv shv' in simp)
qed

lemma torch_stack1_ok:
  "ts \<noteq> [] \<Longrightarrow> \<forall>t \<in> set ts. shape t = sh \<Longrightarrow> sh \<noteq> [] \<Longrightarrow> torch_stack1 ts = Inr ts"
  by (cases ts) (auto simp: torch_stack1_def list_all_iff)

lemma video_size_eq:
  "v \<noteq> [] \<Longrightarrow> \<forall>t \<in> set v. shape t = sh \<Longrightarrow> video_size v = (case sh of [] \<Rightarrow> [] | b # rest \<Rightarrow> b # length v # rest)"
  by (cases v) (auto simp: video_size_def)

text \<open>
  Claim C3, amended.  For the Independent policy and a video with at least one frame,
  whose frames every one the frame codec takes to a record and back to a tensor of the
  shape of the frame: \<^verbatim>\<open>compress\<close> returns, and \<^verbatim>\<open>decompress\<close> applied to the \<^verbatim>\<open>vc\<close> list of its
  output returns a stacked tensor with the frame count and the size of the video.
\<close>

theorem iframe_round_trip:
  assumes ne: "video \<noteq> []" and sh: "\<forall>f \<in> set video. shape f = sh" and rank: "sh \<noteq> []"
    and codec: "\<forall>f \<in> set video. \<exists>results vc t. IFrameModel_compress_one b [f] = Inr results \<and>
        map_of results ''vc'' = Some vc \<and> IFrameModel_decompress_one b vc = Inr t \<and> shape t = shape f"
  shows "\<exists>out recs v'. compress (IFrameModel b) video = Inr out \<and> map_of out ''vc'' = Some recs \<and>
           decompress (IFrameModel b) (VList recs) = Inr v' \<and> length v' = length video \<and>
           video_size v' = video_size video"
proof -
  from iframe_prefix [OF sh codec, of "length video"] obtain out recs rv where
    up: "IFrameModel_compress_upto b video (length video) = Inr out"
    and m: "map_of out ''vc'' = (if ''vc'' \<in> set (task_name b) then Some recs else None)"
    and lr: "length recs = length video"
    and dec: "for_each (\<lambda>inp reconstructed_video.
          ebind (IFrameModel_decompress_one b inp) (\<lambda>r. Inr (reconstructed_video @ [r]))) recs [] = Inr rv"
    and lv: "length rv = length video" and shv: "\<forall>t \<in> set rv. shape t = sh"
    by auto
  from ne obtain f where f: "f \<in> set video" by (cases video) auto
  with codec obtain results vc where "IFrameModel_compress_one b [f] = Inr results"
    "map_of results ''vc'' = Some vc" by blast
  with compress_one_keys [of b "[f]" results] have "''vc'' \<in> set (task_name b)"
    by (metis domI dom_map_of_conv_image_fst)
  with m have m': "map_of out ''vc'' = Some recs" by simp
  from ne lv have rne: "rv \<noteq> []" by auto
  have st: "torch_stack1 rv = Inr rv" by (rule torch_stack1_ok [OF rne shv rank])
  have "decompress (IFrameModel b) (VList recs) = Inr rv"
    by (simp add: decompress_def IFrameModel_decompress_def py_iter_def dec st)
  moreover have "video_size rv = video_size video"
    using video_size_eq [OF rne shv] video_size_eq [OF ne sh] lv by (simp split: list.splits)
  ultimately show ?thesis
    using up m' lv by (auto simp: compress_def IFrameModel_compress_def)
qed

lemma sample_codec:
  "\<forall>f \<in> set sample_video. \<exists>results vc t. IFrameModel_compress_one sample_iframe [f] = Inr results \<and>
        map_of results ''vc'' = Some vc \<and> IFrameModel_decompress_one sample_iframe vc = Inr t \<and> shape t = shape f"
  by (simp add: sample_video_def IFrameModel_compress_one_def IFrameModel_decompress_one_def sample_iframe_def
      sample_encoder_def VSRVCEncoder_forward_def sample_VSRVCEncoder_def task_rep_def is_list_def py_getitem_def
      task_value_def get_decoder_def ICDecoder_module_def ICDecoder_compress_def ICDecoder_decompress_def
      sample_ICDecoder_def py_iter_def frame_def feats_def head_def tmap_def enumerate_eq_zip)

text \<open>The theorem at the sample model of the source classes and a video of four frames.\<close>

theorem iframe_round_trip_witness:
  "\<exists>out recs v'. compress (IFrameModel sample_iframe) sample_video = Inr out \<and> map_of out ''vc'' = Some recs \<and>
     decompress (IFrameModel sample_iframe) (VList recs) = Inr v' \<and> length v' = length sample_video \<and>
     video_size v' = video_size sample_video"
proof (rule iframe_round_trip [OF _ _ _ sample_codec])
  show "sample_video \<noteq> []" by (simp add: sample_video_def)
  show "\<forall>f \<in> set sample_video. shape f = [1, 1, 1, 1]" by (simp add: sample_video_def frame_def)
  show "[1, 1, 1, 1] \<noteq> ([] :: nat list)" by simp
qed

text \<open>
  Claim C3 as stated fails: the output of \<^verbatim>\<open>compress\<close> is a dictionary from task names to
  lists, and \<^verbatim>\<open>decompress\<close> iterates over its argument, so given the dictionary it takes
  the task name \<^verbatim>\<open>vc\<close> for a record and calls \<^verbatim>\<open>ICDecoder.decompress\<close> with the two characters.
\<close>

theorem iframe_round_trip_counterexample:
  "compress (IFrameModel sample_iframe) sample_video = Inr [(''vc'', [sample_record 11, sample_record 14, sample_record 18, sample_record 21])] \<and>
   decompress (IFrameModel sample_iframe) (out_val [(''vc'', [sample_record 11, sample_record 14, sample_record 18, sample_record 21])]) = Inl TypeError"
  by code_simp

section \<open>The records of the predictive models\<close>

subsection \<open>The task loops of a predicted frame\<close>

lemma plain_task_Inr:
  "plain_task b s_rep (tn, task) out = Inr out' \<longleftrightarrow>
     (\<exists>ss_rep l v. task_rep b s_rep tn task = Inr ss_rep \<and> map_of out task = Some l \<and>
        task_value b task ss_rep = Inr v \<and> out' = AList.update task (l @ [v]) out)"
  by (auto simp: plain_task_def ebind_eq_Inr out_append_Inr)

lemma plain_tasks_other:
  "t \<notin> snd ` set xs \<Longrightarrow> for_each (plain_task b s_rep) xs out = Inr out' \<Longrightarrow> map_of out' t = map_of out t"
proof (induction xs arbitrary: out)
  case Nil
  then show ?case by simp
next
  case (Cons x xs)
  obtain tn task where x: "x = (tn, task)" by (cases x)
  from Cons.prems(2) obtain out1 where
    o1: "plain_task b s_rep (tn, task) out = Inr out1" and rest: "for_each (plain_task b s_rep) xs out1 = Inr out'"
    by (auto simp: x split: sum.splits)
  from Cons.prems(1) have ne: "t \<noteq> task" and nin: "t \<notin> snd ` set xs" by (auto simp: x)
  from o1 ne have "map_of out1 t = map_of out t"
    by (auto simp: plain_task_Inr update_conv')
  with Cons.IH [OF nin rest] show ?case by simp
qed

lemma plain_tasks_one:
  assumes run: "for_each (plain_task b s_rep) (pre @ (tn, t) # post) out = Inr out'"
    and pre: "t \<notin> snd ` set pre" and post: "t \<notin> snd ` set post"
  shows "\<exists>ss_rep v l. task_rep b s_rep tn t = Inr ss_rep \<and> task_value b t ss_rep = Inr v \<and>
           map_of out t = Some l \<and> map_of out' t = Some (l @ [v])"
proof -
  from run obtain s1 s2 where
    r1: "for_each (plain_task b s_rep) pre out = Inr s1"
    and r2: "plain_task b s_rep (tn, t) s1 = Inr s2"
    and r3: "for_each (plain_task b s_rep) post s2 = Inr out'"
    unfolding for_each_append_Inr for_each_Cons_Inr by blast
  from plain_tasks_other [OF pre r1] have m1: "map_of s1 t = map_of out t" .
  from plain_tasks_other [OF post r3] have m3: "map_of out' t = map_of s2 t" .
  from r2 obtain ss_rep l v where
    "task_rep b s_rep tn t = Inr ss_rep" "map_of s1 t = Some l" "task_value b t ss_rep = Inr v"
    "s2 = AList.update t (l @ [v]) s1"
    by (auto simp: plain_task_Inr)
  with m1 m3 show ?thesis by (auto simp: update_conv')
qed

lemma enumerate_split:
  "enumerate 0 (pre @ t # post) = enumerate 0 pre @ (length pre, t) # enumerate (Suc (length pre)) post"
  by (simp add: enumerate_append_eq)

lemma predicted_no_adaptation_task:
  assumes run: "predicted_no_adaptation b video i out = Inr out'"
    and tasks: "task_name b = pre @ t # post" "t \<notin> set pre" "t \<notin> set post"
  shows "\<exists>v l. predicted_value b (slice_frames video (int i - 1) (int i + 1)) (length pre) t = Inr v \<and>
           map_of out t = Some l \<and> map_of out' t = Some (l @ [v])"
proof -
  from run obtain s_rep where
    s: "enc_compress (encoder b) (slice_frames video (int i - 1) (int i + 1)) [] = Inr s_rep"
    and l: "for_each (plain_task b s_rep) (enumerate 0 pre @ (length pre, t) # enumerate (Suc (length pre)) post) out
            = Inr out'"
    by (auto simp: predicted_no_adaptation_def ebind_eq_Inr tasks(1) enumerate_split)
  from plain_tasks_one [OF l] tasks(2,3) obtain ss_rep v l where
    "task_rep b s_rep (length pre) t = Inr ss_rep" "task_value b t ss_rep = Inr v"
    "map_of out t = Some l" "map_of out' t = Some (l @ [v])"
    by (auto simp: snd_set_enumerate)
  with s show ?thesis
    by (auto simp: predicted_value_def)
qed

lemma adapt_task_other:
  "task \<noteq> ''vc'' \<Longrightarrow> adapt_task b s_rep (tn, task) (out, pr) = Inr (out', pr') \<Longrightarrow>
   map_of out' ''vc'' = map_of out ''vc'' \<and> pr' = pr"
  by (auto simp: adapt_task_def ebind_eq_Inr out_append_Inr update_conv')

lemma adapt_tasks_other:
  "''vc'' \<notin> snd ` set xs \<Longrightarrow> for_each (adapt_task b s_rep) xs (out, pr) = Inr (out', pr') \<Longrightarrow>
   map_of out' ''vc'' = map_of out ''vc'' \<and> pr' = pr"
proof (induction xs arbitrary: out pr)
  case Nil
  then show ?case by simp
next
  case (Cons x xs)
  obtain tn task where x: "x = (tn, task)" by (cases x)
  from Cons.prems(2) obtain out1 pr1 where
    o1: "adapt_task b s_rep (tn, task) (out, pr) = Inr (out1, pr1)"
    and rest: "for_each (adapt_task b s_rep) xs (out1, pr1) = Inr (out', pr')"
    by (auto simp: x split: sum.splits)
  from Cons.prems(1) have ne: "task \<noteq> ''vc''" and nin: "''vc'' \<notin> snd ` set xs" by (auto simp: x)
  from adapt_task_other [OF ne o1] Cons.IH [OF nin rest] show ?case by simp
qed

lemma adapt_task_vc:
  "adapt_task b s_rep (tn, ''vc'') (out, pr) = Inr (out', pr') \<longleftrightarrow>
     (\<exists>ss_rep results recon l. task_rep b s_rep tn ''vc'' = Inr ss_rep \<and>
        compress_and_decode b ss_rep = Inr (results, recon) \<and> map_of out ''vc'' = Some l \<and>
        out' = AList.update ''vc'' (l @ [results]) out \<and> pr' = Some recon)"
  by (auto simp: adapt_task_def ebind_eq_Inr out_append_Inr)

lemma adapt_tasks_vc:
  assumes run: "for_each (adapt_task b s_rep) (pre @ (tn, ''vc'') # post) (out, pr) = Inr (out', pr')"
    and pre: "''vc'' \<notin> snd ` set pre" and post: "''vc'' \<notin> snd ` set post"
  shows "\<exists>ss_rep results recon l. task_rep b s_rep tn ''vc'' = Inr ss_rep \<and>
           compress_and_decode b ss_rep = Inr (results, recon) \<and> map_of out ''vc'' = Some l \<and>
           map_of out' ''vc'' = Some (l @ [results]) \<and> pr' = Some recon"
proof -
  from run obtain s1 s2 where
    r1: "for_each (adapt_task b s_rep) pre (out, pr) = Inr s1"
    and r2: "adapt_task b s_rep (tn, ''vc'') s1 = Inr s2"
    and r3: "for_each (adapt_task b s_rep) post s2 = Inr (out', pr')"
    unfolding for_each_append_Inr for_each_Cons_Inr by blast
  obtain o1 p1 where s1: "s1 = (o1, p1)" by (cases s1)
  obtain o2 p2 where s2: "s2 = (o2, p2)" by (cases s2)
  from adapt_tasks_other [OF pre r1 [unfolded s1]] have m1: "map_of o1 ''vc'' = map_of out ''vc''" by simp
  from adapt_tasks_other [OF post r3 [unfolded s2]] have m3: "map_of out' ''vc'' = map_of o2 ''vc''" "pr' = p2"
    by simp_all
  from r2 [unfolded s1 s2] obtain ss_rep results recon l where
    "task_rep b s_rep tn ''vc'' = Inr ss_rep" "compress_and_decode b ss_rep = Inr (results, recon)"
    "map_of o1 ''vc'' = Some l" "o2 = AList.update ''vc'' (l @ [results]) o1" "p2 = Some recon"
    by (auto simp: adapt_task_vc)
  with m1 m3 show ?thesis by (auto simp: update_conv')
qed

subsection \<open>The keyframe branches\<close>

lemma compress_one_Inr:
  "compress_one im inp = Inr results \<Longrightarrow>
   \<exists>ib. im = IFrameModel ib \<and> IFrameModel_compress_one ib inp = Inr results"
  by (cases im) (simp_all add: compress_one_def)

lemma compress_one_results:
  assumes "compress_one im inp = Inr results"
  shows "distinct (map fst results) \<and> fst ` set results = set (task_name (base_of im))"
proof -
  from compress_one_Inr [OF assms] obtain ib where
    ib: "im = IFrameModel ib" "IFrameModel_compress_one ib inp = Inr results" by blast
  from compress_one_keys [OF ib(2)] show ?thesis by (simp add: ib(1))
qed

lemma map_of_keys: "map_of xs k = Some v \<Longrightarrow> k \<in> fst ` set xs"
  by (metis domI dom_map_of_conv_image_fst)

lemma keys_map_of: "k \<in> fst ` set xs \<Longrightarrow> \<exists>v. map_of xs k = Some v"
  by (metis domD dom_map_of_conv_image_fst)

lemma append_results_task:
  assumes "distinct (map fst results)" "append_results results out = Inr out'" "t \<in> fst ` set results"
  shows "\<exists>v l. map_of results t = Some v \<and> map_of out t = Some l \<and> map_of out' t = Some (l @ [v])"
proof -
  from keys_map_of [OF assms(3)] obtain v where v: "map_of results t = Some v" by blast
  from assms(2) have "fst ` set results \<subseteq> dom (map_of out)"
  proof (induction results arbitrary: out)
    case Nil
    then show ?case by simp
  next
    case (Cons kv rs)
    obtain k x where kv: "kv = (k, x)" by (cases kv)
    from Cons.prems obtain out1 where
      o1: "out_append k (Inr x) out = Inr out1" and rest: "append_results rs out1 = Inr out'"
      by (auto simp: append_results_def kv split: sum.splits)
    from Cons.IH [OF rest] out_append_dom [OF o1] o1 show ?case
      by (auto simp: kv out_append_Inr)
  qed
  with assms(3) obtain l where l: "map_of out t = Some l" by auto
  from append_results_map_of [OF assms(1,2), of t] v l show ?thesis by simp
qed

lemma PFrameModel_keyframe_task:
  assumes run: "PFrameModel_keyframe im video i out = Inr out'" and t: "t \<in> set (task_name (base_of im))"
  shows "\<exists>results v l. compress_one im (slice_frames video (int i) (int i + 1)) = Inr results \<and>
           map_of results t = Some v \<and> map_of out t = Some l \<and> map_of out' t = Some (l @ [v])"
proof -
  from run obtain results where
    c: "compress_one im (slice_frames video (int i) (int i + 1)) = Inr results"
    and a: "append_results results out = Inr out'"
    by (auto simp: PFrameModel_keyframe_def ebind_eq_Inr)
  from compress_one_results [OF c] t append_results_task [OF _ a, of t] c show ?thesis by auto
qed

lemma PFrameModelWithMotion_keyframe_task:
  assumes run: "PFrameModelWithMotion_keyframe im video i out = Inr out'"
    and t: "t \<in> set (task_name (base_of im))"
  shows "\<exists>results xs v l. compress_one im (slice_frames video (int i) (int i + 1)) = Inr results \<and>
           map_of results ''vc'' = Some (VList xs) \<and>
           map_of (AList.update ''vc'' (VList (xs @ [sentinel])) results) t = Some v \<and>
           map_of out t = Some l \<and> map_of out' t = Some (l @ [v])"
proof -
  from run obtain results vc vc' where
    c: "compress_one im (slice_frames video (int i) (int i + 1)) = Inr results"
    and g: "dict_get results ''vc'' = Inr vc" and e: "py_append vc sentinel = Inr vc'"
    and a: "append_results (AList.update ''vc'' vc' results) out = Inr out'"
    by (auto simp: PFrameModelWithMotion_keyframe_def ebind_eq_Inr)
  from e obtain xs where xs: "vc = VList xs" "vc' = VList (xs @ [sentinel])"
    by (cases vc) (auto simp: py_append_def)
  from g have m: "map_of results ''vc'' = Some vc"
    by (auto simp: dict_get_def split: option.splits)
  from compress_one_results [OF c] have k: "distinct (map fst results)"
    "fst ` set results = set (task_name (base_of im))" by auto
  have k': "distinct (map fst (AList.update ''vc'' vc' results))"
    "fst ` set (AList.update ''vc'' vc' results) = set (task_name (base_of im))"
    using k map_of_keys [OF m] by (auto simp: distinct_update dom_update)
  from append_results_task [OF k'(1) a, of t] k'(2) t c m xs show ?thesis by auto
qed

subsection \<open>The list of one task, frame by frame\<close>

lemma for_each_collect:
  assumes step: "\<And>i s s'. i < n \<Longrightarrow> F i s = Inr s' \<Longrightarrow> \<exists>v l. R i v \<and> g s = Some l \<and> g s' = Some (l @ [v])"
    and run: "for_each F [0..<n] s0 = Inr s" and init: "g s0 = Some []"
  shows "\<exists>l. g s = Some l \<and> length l = n \<and> (\<forall>i<n. R i (l ! i))"
  using step run
proof (induction n arbitrary: s)
  case 0
  with init show ?case by simp
next
  case (Suc n)
  from Suc.prems(2) obtain s1 where
    r1: "for_each F [0..<n] s0 = Inr s1" and r2: "F n s1 = Inr s"
    by (auto simp: for_each_snoc ebind_eq_Inr)
  have "\<exists>l. g s1 = Some l \<and> length l = n \<and> (\<forall>i<n. R i (l ! i))"
    by (rule Suc.IH [OF _ r1]) (rule Suc.prems(1), simp_all)
  then obtain l1 where l1: "g s1 = Some l1" "length l1 = n" "\<forall>i<n. R i (l1 ! i)" by blast
  from Suc.prems(1) [OF _ r2] l1(1) obtain v where v: "R n v" "g s = Some (l1 @ [v])" by auto
  show ?case
    by (rule exI [of _ "l1 @ [v]"]) (use l1 v in \<open>auto simp: nth_append less_Suc_eq\<close>)
qed


lemma slice_frames_window:
  "0 < i \<Longrightarrow> i < length v \<Longrightarrow> slice_frames v (int i - 1) (int i + 1) = [v ! (i - 1), v ! i]"
proof -
  assume i: "0 < i" "i < length v"
  then obtain j where j: "i = Suc j" by (cases i) auto
  have "slice_bound (length v) (int i - 1) = j" "slice_bound (length v) (int i + 1) = Suc (Suc j)"
    using i j by (auto simp: slice_bound_def nat_add_distrib)
  then show ?thesis
    using i j by (simp add: slice_frames_def take_Suc_conv_app_nth Cons_nth_drop_Suc [symmetric]
        numeral_2_eq_2 Suc_diff_le)
qed

lemma py_mod_Inr: "py_mod i k = Inr r \<longleftrightarrow> k \<noteq> 0 \<and> r = int i mod k"
  by (auto simp: py_mod_def)

lemma mod_nonzero_pos: "int i mod k \<noteq> 0 \<Longrightarrow> 0 < i"
  by (cases i) auto

subsection \<open>The vc record of a frame with motion\<close>

lemma dict_get_Inr: "dict_get d k = Inr v \<longleftrightarrow> map_of d k = Some v"
  by (auto simp: dict_get_def split: option.splits)


lemma py_extend_Inr: "py_extend l ys = Inr l' \<longleftrightarrow> (\<exists>xs. l = VList xs \<and> l' = VList (xs @ ys))"
  by (cases l) (auto simp: py_extend_def)

lemma append_updated_vc:
  assumes c: "compress_one im inp = Inr results" and m: "map_of results ''vc'' = Some vc"
    and a: "append_results (AList.update ''vc'' vc' results) out = Inr out'"
  shows "\<exists>l. map_of out ''vc'' = Some l \<and> map_of out' ''vc'' = Some (l @ [vc'])"
proof -
  from compress_one_results [OF c] have k: "distinct (map fst results)" by simp
  have k': "distinct (map fst (AList.update ''vc'' vc' results))"
    "''vc'' \<in> fst ` set (AList.update ''vc'' vc' results)"
    using k by (auto simp: distinct_update dom_update)
  from append_results_task [OF k'(1) a k'(2)] show ?thesis
    by (auto simp: update_conv')
qed

lemma append_vc:
  assumes c: "compress_one im inp = Inr results" and m: "map_of results ''vc'' = Some vc"
    and a: "append_results results out = Inr out'"
  shows "\<exists>l. map_of out ''vc'' = Some l \<and> map_of out' ''vc'' = Some (l @ [vc])"
proof -
  from compress_one_results [OF c] have k: "distinct (map fst results)" by simp
  from append_results_task [OF k a map_of_keys [OF m]] m show ?thesis by auto
qed


lemma PFrameModelWithMotion_keyframe_adapt_vc:
  assumes run: "PFrameModelWithMotion_keyframe_adapt im video i out = Inr (out', pr')"
  shows "\<exists>results xs vc0 recon l. compress_one im (slice_frames video (int i) (int i + 1)) = Inr results \<and>
           map_of results ''vc'' = Some (VList xs) \<and> py_getitem (VList xs) 0 = Inr vc0 \<and>
           decompress_one im vc0 = Inr recon \<and> pr' = Some recon \<and> map_of out ''vc'' = Some l \<and>
           map_of out' ''vc'' = Some (l @ [VList (xs @ [sentinel])])"
proof -
  from run obtain results xs vc0 recon where
    c: "compress_one im (slice_frames video (int i) (int i + 1)) = Inr results"
    and m: "map_of results ''vc'' = Some (VList xs)"
    and g: "py_getitem (VList xs) 0 = Inr vc0" and d: "decompress_one im vc0 = Inr recon"
    and a: "append_results (AList.update ''vc'' (VList (xs @ [sentinel])) results) out = Inr out'"
    and p: "pr' = Some recon"
    by (auto simp: PFrameModelWithMotion_keyframe_adapt_def ebind_eq_Inr dict_get_Inr py_extend_Inr)
  from append_updated_vc [OF c m a] c m g d p show ?thesis by blast
qed

lemma PFrameModel_keyframe_adapt_vc:
  assumes run: "PFrameModel_keyframe_adapt im video i out = Inr (out', pr')"
  shows "\<exists>results vc vc0 recon l. compress_one im (slice_frames video (int i) (int i + 1)) = Inr results \<and>
           map_of results ''vc'' = Some vc \<and> py_getitem vc 0 = Inr vc0 \<and>
           decompress_one im vc0 = Inr recon \<and> pr' = Some recon \<and> map_of out ''vc'' = Some l \<and>
           map_of out' ''vc'' = Some (l @ [vc])"
proof -
  from run obtain results vc vc0 recon where
    c: "compress_one im (slice_frames video (int i) (int i + 1)) = Inr results"
    and m: "map_of results ''vc'' = Some vc"
    and g: "py_getitem vc 0 = Inr vc0" and d: "decompress_one im vc0 = Inr recon"
    and a: "append_results results out = Inr out'"
    and p: "pr' = Some recon"
    by (auto simp: PFrameModel_keyframe_adapt_def ebind_eq_Inr dict_get_Inr)
  from append_vc [OF c m a] c m g d p show ?thesis by blast
qed

lemma PFrameModelWithMotion_predicted_adapt_vc:
  assumes run: "PFrameModelWithMotion_predicted_adapt b video i (out, pr) = Inr (out', pr')"
    and tasks: "task_name b = pre @ ''vc'' # post" "''vc'' \<notin> set pre" "''vc'' \<notin> set post"
  shows "\<exists>s_rep ss_rep results recon l.
           enc_compress_with_prev_recon (encoder b) (opt_val pr) (slice_frames video (int i - 1) (int i + 1))
             = Inr s_rep \<and>
           task_rep b s_rep (length pre) ''vc'' = Inr ss_rep \<and>
           compress_and_decode b ss_rep = Inr (results, recon) \<and> map_of out ''vc'' = Some l \<and>
           map_of out' ''vc'' = Some (l @ [results]) \<and> pr' = Some recon"
proof -
  from run obtain s_rep where
    s: "enc_compress_with_prev_recon (encoder b) (opt_val pr) (slice_frames video (int i - 1) (int i + 1))
          = Inr s_rep"
    and l: "for_each (adapt_task b s_rep)
              (enumerate 0 pre @ (length pre, ''vc'') # enumerate (Suc (length pre)) post) (out, pr)
            = Inr (out', pr')"
    by (auto simp: PFrameModelWithMotion_predicted_adapt_def ebind_eq_Inr tasks(1) enumerate_split)
  from adapt_tasks_vc [OF l] tasks(2,3) s show ?thesis
    by (auto simp: snd_set_enumerate)
qed

lemma PFrameModel_predicted_adapt_vc:
  assumes run: "PFrameModel_predicted_adapt b video i (out, pr) = Inr (out', pr')"
    and tasks: "task_name b = pre @ ''vc'' # post" "''vc'' \<notin> set pre" "''vc'' \<notin> set post"
  shows "\<exists>s_rep ss_rep results recon l.
           enc_compress (encoder b) (slice_frames video (int i - 1) (int i + 1)) [opt_val pr] = Inr s_rep \<and>
           task_rep b s_rep (length pre) ''vc'' = Inr ss_rep \<and>
           compress_and_decode b ss_rep = Inr (results, recon) \<and> map_of out ''vc'' = Some l \<and>
           map_of out' ''vc'' = Some (l @ [results]) \<and> pr' = Some recon"
proof -
  from run obtain s_rep where
    s: "enc_compress (encoder b) (slice_frames video (int i - 1) (int i + 1)) [opt_val pr] = Inr s_rep"
    and l: "for_each (adapt_task b s_rep)
              (enumerate 0 pre @ (length pre, ''vc'') # enumerate (Suc (length pre)) post) (out, pr)
            = Inr (out', pr')"
    by (auto simp: PFrameModel_predicted_adapt_def ebind_eq_Inr tasks(1) enumerate_split)
  from adapt_tasks_vc [OF l] tasks(2,3) s show ?thesis
    by (auto simp: snd_set_enumerate)
qed



text \<open>The record of frame \<open>i\<close> of a model with motion.\<close>

lemma split_vc:
  assumes "distinct tasks" "''vc'' \<in> set tasks"
  obtains pre post where "tasks = pre @ ''vc'' # post" "''vc'' \<notin> set pre" "''vc'' \<notin> set post"
proof -
  from assms(2) obtain pre post where sp: "tasks = pre @ ''vc'' # post" by (auto dest: split_list)
  with assms(1) have "''vc'' \<notin> set pre" "''vc'' \<notin> set post" by auto
  with sp that show ?thesis by blast
qed




subsection \<open>Encoder and decoder in step\<close>

text \<open>
  Two loops, one producing a record per round and one consuming the records: a relation
  between their states that every pair of rounds keeps holds after both loops.
\<close>

lemma for_each_simulation:
  assumes step: "\<And>i s s'. F i s = Inr s' \<Longrightarrow>
        \<exists>l v. g s = Some l \<and> g s' = Some (l @ [v]) \<and> (\<forall>t t'. I i s t \<longrightarrow> D (i, v) t = Inr t' \<longrightarrow> I (Suc i) s' t')"
    and init: "g s0 = Some []" "I 0 s0 t0"
    and enc: "for_each F [0..<n] s0 = Inr s"
    and recs: "g s = Some recs"
    and dec: "for_each D (enumerate 0 recs) t0 = Inr t"
  shows "length recs = n \<and> I n s t"
  using enc recs dec
proof (induction n arbitrary: s recs t)
  case 0
  with init show ?case by simp
next
  case (Suc n)
  from Suc.prems(1) obtain s1 where
    r1: "for_each F [0..<n] s0 = Inr s1" and r2: "F n s1 = Inr s"
    by (auto simp: for_each_snoc ebind_eq_Inr)
  from step [OF r2] Suc.prems(2) obtain l v where
    l: "g s1 = Some l" "recs = l @ [v]"
    and keep: "\<And>t t'. I n s1 t \<Longrightarrow> D (n, v) t = Inr t' \<Longrightarrow> I (Suc n) s t'"
    by auto
  from Suc.prems(3) l(2) obtain t1 where
    d1: "for_each D (enumerate 0 l) t0 = Inr t1" and d2: "D (length l, v) t1 = Inr t"
    by (auto simp: enumerate_append_eq for_each_snoc ebind_eq_Inr)
  from Suc.IH [OF r1 l(1) d1] have ih: "length l = n" "I n s1 t1" by simp_all
  from keep [OF ih(2)] d2 ih(1) have "I (Suc n) s t" by simp
  with ih(1) l(2) show ?case by simp
qed

lemma py_getitem_front:
  "py_getitem (VList xs) 0 = Inr x \<Longrightarrow> py_getitem (VList (xs @ ys)) 0 = Inr x"
  by (auto simp: py_getitem_def nth_append split: if_splits)

lemma PFrameModel_decompress_frame_Inr:
  "PFrameModel_decompress_frame b im k (n, v) t = Inr t' \<longleftrightarrow>
     k \<noteq> 0 \<and> (\<exists>recon feat.
        (if int n mod k = 0 then decode_keyframe im v else PFrameModel_decode_predicted b (snd t) v) = Inr recon \<and>
        extract_feats (encoder b) recon = Inr feat \<and> t' = (fst t @ [recon], Some feat))"
  by (cases t) (auto simp: PFrameModel_decompress_frame_def ebind_eq_Inr py_mod_Inr)

lemma PFrameModelWithMotion_decompress_frame_Inr:
  "PFrameModelWithMotion_decompress_frame b im k (n, v) t = Inr t' \<longleftrightarrow>
     k \<noteq> 0 \<and> (\<exists>recon feat.
        (if int n mod k = 0 then decode_keyframe im v
         else PFrameModelWithMotion_decode_predicted b (snd t) v) = Inr recon \<and>
        extract_feats (encoder b) recon = Inr feat \<and> t' = (fst t @ [recon], Some feat))"
  by (cases t) (auto simp: PFrameModelWithMotion_decompress_frame_def ebind_eq_Inr py_mod_Inr)

lemma in_step_snoc:
  "extract_feats (encoder b) recon = Inr feat \<Longrightarrow> in_step b (Some recon) (rv @ [recon]) (Some feat)"
  by (simp add: in_step_def)

lemma in_step_nonempty:
  assumes "in_step b pr rv pf" "rv \<noteq> []"
  obtains p f where "pr = Some p" "pf = Some f" "extract_feats (encoder b) p = Inr f"
  using assms by (auto simp: in_step_def)

text \<open>The decoder of a predicted frame repeats the decoding the encoder did.\<close>

lemma PFrameModel_decode_predicted_same:
  assumes cd: "compress_and_decode b ss_rep = Inr (results, recon)"
    and ref: "py_getitem ss_rep 0 = Inr (opt_val pf)"
  shows "PFrameModel_decode_predicted b pf results = Inr recon"
  using cd ref by (auto simp: compress_and_decode_def PFrameModel_decode_predicted_def ebind_eq_Inr)

lemma PFrameModelWithMotion_decode_predicted_same:
  assumes cd: "compress_and_decode b ss_rep = Inr (results, recon)"
    and motion: "py_getitem results 1 = Inr inp1" "py_iter inp1 = Inr margs"
      "enc_decompress (encoder b) margs = Inr recon_offsets"
      "align_features (encoder b) (opt_val pf) recon_offsets = Inr align_feat"
    and ref: "py_getitem ss_rep 0 = Inr align_feat"
  shows "PFrameModelWithMotion_decode_predicted b pf results = Inr recon"
  using cd motion ref
  by (auto simp: compress_and_decode_def PFrameModelWithMotion_decode_predicted_def ebind_eq_Inr)

lemma PFrameModel_frame_in_step:
  assumes c: "reference_contract b"
    and sp: "task_name b = pre @ ''vc'' # post" "''vc'' \<notin> set pre" "''vc'' \<notin> set post"
    and enc: "PFrameModel_adapt_frame b im k video n st = Inr st'"
  shows "\<exists>l v. map_of (fst st) ''vc'' = Some l \<and> map_of (fst st') ''vc'' = Some (l @ [v]) \<and>
           (\<forall>t t'. length (fst t) = n \<and> in_step b (snd st) (fst t) (snd t) \<longrightarrow>
              PFrameModel_decompress_frame b im k (n, v) t = Inr t' \<longrightarrow>
              length (fst t') = Suc n \<and> in_step b (snd st') (fst t') (snd t'))"
proof (cases "int n mod k = 0")
  case True
  with enc have "PFrameModel_keyframe_adapt im video n (fst st) = Inr (fst st', snd st')"
    by (auto simp: PFrameModel_adapt_frame_def ebind_eq_Inr py_mod_Inr)
  from PFrameModel_keyframe_adapt_vc [OF this] obtain vc vc0 recon l where
    k: "py_getitem vc 0 = Inr vc0" "decompress_one im vc0 = Inr recon" "snd st' = Some recon"
      "map_of (fst st) ''vc'' = Some l" "map_of (fst st') ''vc'' = Some (l @ [vc])"
    by blast
  from k(1,2) have d: "decode_keyframe im vc = Inr recon" by (simp add: decode_keyframe_def)
  have "length (fst t') = Suc n \<and> in_step b (snd st') (fst t') (snd t')"
    if "length (fst t) = n" "PFrameModel_decompress_frame b im k (n, vc) t = Inr t'" for t t'
    using that True d k(3) by (auto simp: PFrameModel_decompress_frame_Inr in_step_snoc)
  with k(4,5) show ?thesis by blast
next
  case False
  with enc have p: "PFrameModel_predicted_adapt b video n (fst st, snd st) = Inr (fst st', snd st')"
    by (auto simp: PFrameModel_adapt_frame_def ebind_eq_Inr py_mod_Inr)
  from PFrameModel_predicted_adapt_vc [OF p sp] obtain s_rep ss_rep results recon l where
    e: "enc_compress (encoder b) (slice_frames video (int n - 1) (int n + 1)) [opt_val (snd st)] = Inr s_rep"
      "task_rep b s_rep (length pre) ''vc'' = Inr ss_rep"
      "compress_and_decode b ss_rep = Inr (results, recon)"
      "map_of (fst st) ''vc'' = Some l" "map_of (fst st') ''vc'' = Some (l @ [results])"
      "snd st' = Some recon"
    by blast
  from False have pos: "0 < n" by (rule mod_nonzero_pos)
  have "length (fst t') = Suc n \<and> in_step b (snd st') (fst t') (snd t')"
    if t: "length (fst t) = n" "in_step b (snd st) (fst t) (snd t)"
      and d: "PFrameModel_decompress_frame b im k (n, results) t = Inr t'" for t t'
  proof -
    from t(1) pos have "fst t \<noteq> []" by auto
    with t(2) obtain p f where
      pf: "snd st = Some p" "snd t = Some f" "extract_feats (encoder b) p = Inr f"
      by (rule in_step_nonempty)
    from e(1) pf(1) have e1: "enc_compress (encoder b) (slice_frames video (int n - 1) (int n + 1))
        [VTensor p] = Inr s_rep"
      by (simp add: opt_val_def)
    from c [unfolded reference_contract_def, rule_format, OF e1 e(2)] pf(3)
    have "py_getitem ss_rep 0 = Inr (VTensor f)" by auto
    with pf(2) have "py_getitem ss_rep 0 = Inr (opt_val (snd t))" by (simp add: opt_val_def)
    from PFrameModel_decode_predicted_same [OF e(3) this] d False t(1) e(6) show ?thesis
      by (auto simp: PFrameModel_decompress_frame_Inr in_step_snoc)
  qed
  with e(4,5) show ?thesis by blast
qed

lemma PFrameModelWithMotion_frame_in_step:
  assumes c: "motion_reference_contract b"
    and sp: "task_name b = pre @ ''vc'' # post" "''vc'' \<notin> set pre" "''vc'' \<notin> set post"
    and enc: "PFrameModelWithMotion_adapt_frame b im k video n st = Inr st'"
  shows "\<exists>l v. map_of (fst st) ''vc'' = Some l \<and> map_of (fst st') ''vc'' = Some (l @ [v]) \<and>
           (\<forall>t t'. length (fst t) = n \<and> in_step b (snd st) (fst t) (snd t) \<longrightarrow>
              PFrameModelWithMotion_decompress_frame b im k (n, v) t = Inr t' \<longrightarrow>
              length (fst t') = Suc n \<and> in_step b (snd st') (fst t') (snd t'))"
proof (cases "int n mod k = 0")
  case True
  with enc have "PFrameModelWithMotion_keyframe_adapt im video n (fst st) = Inr (fst st', snd st')"
    by (auto simp: PFrameModelWithMotion_adapt_frame_def ebind_eq_Inr py_mod_Inr)
  from PFrameModelWithMotion_keyframe_adapt_vc [OF this] obtain xs vc0 recon l where
    k: "py_getitem (VList xs) 0 = Inr vc0" "decompress_one im vc0 = Inr recon" "snd st' = Some recon"
      "map_of (fst st) ''vc'' = Some l" "map_of (fst st') ''vc'' = Some (l @ [VList (xs @ [sentinel])])"
    by blast
  from py_getitem_front [OF k(1)] k(2) have d: "decode_keyframe im (VList (xs @ [sentinel])) = Inr recon"
    by (simp add: decode_keyframe_def)
  have "length (fst t') = Suc n \<and> in_step b (snd st') (fst t') (snd t')"
    if "length (fst t) = n"
      "PFrameModelWithMotion_decompress_frame b im k (n, VList (xs @ [sentinel])) t = Inr t'" for t t'
    using that True d k(3) by (auto simp: PFrameModelWithMotion_decompress_frame_Inr in_step_snoc)
  with k(4,5) show ?thesis by blast
next
  case False
  with enc have p: "PFrameModelWithMotion_predicted_adapt b video n (fst st, snd st) = Inr (fst st', snd st')"
    by (auto simp: PFrameModelWithMotion_adapt_frame_def ebind_eq_Inr py_mod_Inr)
  from PFrameModelWithMotion_predicted_adapt_vc [OF p sp] obtain s_rep ss_rep results recon l where
    e: "enc_compress_with_prev_recon (encoder b) (opt_val (snd st))
          (slice_frames video (int n - 1) (int n + 1)) = Inr s_rep"
      "task_rep b s_rep (length pre) ''vc'' = Inr ss_rep"
      "compress_and_decode b ss_rep = Inr (results, recon)"
      "map_of (fst st) ''vc'' = Some l" "map_of (fst st') ''vc'' = Some (l @ [results])"
      "snd st' = Some recon"
    by blast
  from False have pos: "0 < n" by (rule mod_nonzero_pos)
  have "length (fst t') = Suc n \<and> in_step b (snd st') (fst t') (snd t')"
    if t: "length (fst t) = n" "in_step b (snd st) (fst t) (snd t)"
      and d: "PFrameModelWithMotion_decompress_frame b im k (n, results) t = Inr t'" for t t'
  proof -
    from t(1) pos have "fst t \<noteq> []" by auto
    with t(2) obtain p f where
      pf: "snd st = Some p" "snd t = Some f" "extract_feats (encoder b) p = Inr f"
      by (rule in_step_nonempty)
    from e(1) pf(1) have e1: "enc_compress_with_prev_recon (encoder b) (VTensor p)
        (slice_frames video (int n - 1) (int n + 1)) = Inr s_rep"
      by (simp add: opt_val_def)
    from c [unfolded motion_reference_contract_def, rule_format, OF e1 e(2,3)] pf(3)
    obtain inp1 margs recon_offsets align_feat where
      m: "py_getitem results 1 = Inr inp1" "py_iter inp1 = Inr margs"
        "enc_decompress (encoder b) margs = Inr recon_offsets"
        "align_features (encoder b) (VTensor f) recon_offsets = Inr align_feat"
        "py_getitem ss_rep 0 = Inr align_feat"
      by auto
    from m(4) pf(2) have "align_features (encoder b) (opt_val (snd t)) recon_offsets = Inr align_feat"
      by (simp add: opt_val_def)
    from PFrameModelWithMotion_decode_predicted_same [OF e(3) m(1,2,3) this m(5)] d False t(1) e(6)
    show ?thesis
      by (auto simp: PFrameModelWithMotion_decompress_frame_Inr in_step_snoc)
  qed
  with e(4,5) show ?thesis by blast
qed

subsection \<open>The example models, run\<close>

lemma sample_tasks:
  "distinct (task_name sample_predictive)" "''vc'' \<in> set (task_name sample_predictive)"
  "distinct (task_name sample_motion)" "''vc'' \<in> set (task_name sample_motion)"
  "''vc'' \<in> set (task_name (base_of (IFrameModel sample_key)))"
  by (simp_all add: sample_predictive_def sample_motion_def sample_key_def)

lemma sample_plain_run: "compress (PFrameModel sample_predictive (IFrameModel sample_key) 3 False) sample_video =
      Inr [(''vc'', [VList [sample_record 11], VTuple [sample_record 2], VTuple [sample_record 4],
                     VList [sample_record 21]])]"
    by code_simp

lemma other_plain_run: "compress (PFrameModel sample_predictive (IFrameModel sample_key) 3 False) other_video =
      Inr [(''vc'', [VList [sample_record 51], VTuple [sample_record (- 38)], VTuple [sample_record 4],
                     VList [sample_record 100]])]"
    by code_simp


lemma sample_encoder_state: "PFrameModel_adapt_upto sample_predictive (IFrameModel sample_key) 3 sample_video 2 =
     Inr ([(''vc'', [VList [sample_record 11], VTuple [sample_record 2]])], Some (frame 12))"
    by code_simp
lemma sample_decoder_state: "PFrameModel_decompress_loop sample_predictive (IFrameModel sample_key) 3
       [VList [sample_record 11], VTuple [sample_record 2]] =
     Inr ([frame 10, frame 12], Some (frame 13))"
    by code_simp
lemma sample_motion_encoder_state: "PFrameModelWithMotion_adapt_upto sample_motion (IFrameModel sample_key) 3 sample_video 2 =
     Inr ([(''vc'', [VList [sample_record 11, sentinel], VTuple [sample_record 2, motion_record]])],
          Some (frame 12))"
    by code_simp
lemma sample_motion_decoder_state: "PFrameModelWithMotion_decompress_loop sample_motion (IFrameModel sample_key) 3
       [VList [sample_record 11, sentinel], VTuple [sample_record 2, motion_record]] =
     Inr ([frame 10, frame 12], Some (frame 13))"
    by code_simp

text \<open>The example encoders keep to the contracts.\<close>

lemma enc_compress_sample:
  "enc_compress (encoder sample_predictive) inp [VTensor p] = Inr s_rep \<Longrightarrow>
   \<exists>x0 x1. inp = [x0, x1] \<and> s_rep = pair_rep p x1"
  by (auto simp: sample_predictive_def predictive_encoder_def split: list.splits)

lemma task_rep_sample:
  "task_rep sample_predictive (VList [x]) tn task = Inr ss_rep \<Longrightarrow> ss_rep = x"
  by (auto simp: sample_predictive_def task_rep_def is_list_def py_getitem_def split: if_splits)

lemma sample_reference_contract: "reference_contract sample_predictive"
  unfolding reference_contract_def
proof (intro allI impI)
  fix inp p s_rep tn ss_rep
  assume e: "enc_compress (encoder sample_predictive) inp [VTensor p] = Inr s_rep"
    and t: "task_rep sample_predictive s_rep tn ''vc'' = Inr ss_rep"
  from enc_compress_sample [OF e] obtain x1 where s: "s_rep = pair_rep p x1" by blast
  from t have "ss_rep = VTuple [VTensor (feats p), VTensor (feats x1)]"
    unfolding s pair_rep_def by (rule task_rep_sample)
  then show "\<exists>f. extract_feats (encoder sample_predictive) p = Inr f \<and> py_getitem ss_rep 0 = Inr (VTensor f)"
    by (simp add: sample_predictive_def predictive_encoder_def py_getitem_def)
qed

lemma enc_compress_with_prev_recon_sample:
  "enc_compress_with_prev_recon (encoder sample_motion) (VTensor p) inp = Inr s_rep \<Longrightarrow>
   \<exists>x0 x1. inp = [x0, x1] \<and> s_rep = motion_rep p x1"
  by (auto simp: sample_motion_def motion_encoder_def split: list.splits)

lemma task_rep_sample_motion:
  "task_rep sample_motion (VList [x]) tn task = Inr ss_rep \<Longrightarrow> ss_rep = x"
  by (auto simp: sample_motion_def task_rep_def is_list_def py_getitem_def split: if_splits)

lemma compress_and_decode_sample:
  "compress_and_decode sample_motion (VTuple [VTensor r, VTensor c, m]) = Inr (results, recon) \<Longrightarrow>
   results = VTuple [residual r c, m]"
  by (auto simp: compress_and_decode_def get_decoder_def sample_motion_def predictive_decoder_def ebind_eq_Inr)

lemma sample_motion_reference_contract: "motion_reference_contract sample_motion"
  unfolding motion_reference_contract_def
proof (intro allI impI)
  fix inp p s_rep tn ss_rep results recon
  assume e: "enc_compress_with_prev_recon (encoder sample_motion) (VTensor p) inp = Inr s_rep"
    and t: "task_rep sample_motion s_rep tn ''vc'' = Inr ss_rep"
    and c: "compress_and_decode sample_motion ss_rep = Inr (results, recon)"
  from enc_compress_with_prev_recon_sample [OF e] obtain x1 where s: "s_rep = motion_rep p x1" by blast
  from t have ss: "ss_rep = VTuple [VTensor (feats p), VTensor (feats x1), motion_record]"
    unfolding s motion_rep_def by (rule task_rep_sample_motion)
  from c have r: "results = VTuple [residual (feats p) (feats x1), motion_record]"
    unfolding ss by (rule compress_and_decode_sample)
  show "\<exists>f inp1 margs recon_offsets align_feat.
           extract_feats (encoder sample_motion) p = Inr f \<and>
           py_getitem results 1 = Inr inp1 \<and> py_iter inp1 = Inr margs \<and>
           enc_decompress (encoder sample_motion) margs = Inr recon_offsets \<and>
           align_features (encoder sample_motion) (VTensor f) recon_offsets = Inr align_feat \<and>
           py_getitem ss_rep 0 = Inr align_feat"
    unfolding ss r
    by (simp add: sample_motion_def motion_encoder_def py_getitem_def py_iter_def motion_record_def)
qed

subsection \<open>Predicted frames without adaptation\<close>

lemma PFrameModel_plain_frame_task:
  assumes run: "PFrameModel_plain_frame b im k video i out = Inr out'"
    and tasks: "task_name b = pre @ t # post" "t \<notin> set pre" "t \<notin> set post"
    and key: "t \<in> set (task_name (base_of im))"
  shows "\<exists>v l. (int i mod k \<noteq> 0 \<longrightarrow>
             predicted_value b (slice_frames video (int i - 1) (int i + 1)) (length pre) t = Inr v) \<and>
           map_of out t = Some l \<and> map_of out' t = Some (l @ [v])"
proof (cases "int i mod k = 0")
  case True
  with run have "PFrameModel_keyframe im video i out = Inr out'"
    by (auto simp: PFrameModel_plain_frame_def ebind_eq_Inr py_mod_Inr)
  from PFrameModel_keyframe_task [OF this key] True show ?thesis by auto
next
  case False
  with run have "predicted_no_adaptation b video i out = Inr out'"
    by (auto simp: PFrameModel_plain_frame_def ebind_eq_Inr py_mod_Inr)
  from predicted_no_adaptation_task [OF this tasks] show ?thesis by auto
qed

lemma PFrameModelWithMotion_plain_frame_task:
  assumes run: "PFrameModelWithMotion_plain_frame b im k video i out = Inr out'"
    and tasks: "task_name b = pre @ t # post" "t \<notin> set pre" "t \<notin> set post"
    and key: "t \<in> set (task_name (base_of im))"
  shows "\<exists>v l. (int i mod k \<noteq> 0 \<longrightarrow>
             predicted_value b (slice_frames video (int i - 1) (int i + 1)) (length pre) t = Inr v) \<and>
           map_of out t = Some l \<and> map_of out' t = Some (l @ [v])"
proof (cases "int i mod k = 0")
  case True
  with run have "PFrameModelWithMotion_keyframe im video i out = Inr out'"
    by (auto simp: PFrameModelWithMotion_plain_frame_def ebind_eq_Inr py_mod_Inr)
  from PFrameModelWithMotion_keyframe_task [OF this key] True show ?thesis by auto
next
  case False
  with run have "predicted_no_adaptation b video i out = Inr out'"
    by (auto simp: PFrameModelWithMotion_plain_frame_def ebind_eq_Inr py_mod_Inr)
  from predicted_no_adaptation_task [OF this tasks] show ?thesis by auto
qed

lemma no_adaptation_records:
  assumes m: "m = PFrameModel b im k False \<or> m = PFrameModelWithMotion b im k False"
    and tasks: "task_name b = pre @ t # post" "t \<notin> set pre" "t \<notin> set post"
    and key: "t \<in> set (task_name (base_of im))"
    and run: "compress m video = Inr out"
  shows "\<exists>l. map_of out t = Some l \<and> length l = length video \<and>
           (\<forall>i<length video. int i mod k \<noteq> 0 \<longrightarrow>
              predicted_value b (slice_frames video (int i - 1) (int i + 1)) (length pre) t = Inr (l ! i))"
proof -
  have init: "map_of (init_out (task_name b) :: 'a out) t = Some []"
    by (simp add: map_of_init_out tasks(1))
  from m show ?thesis
  proof
    assume "m = PFrameModel b im k False"
    with run have r: "for_each (PFrameModel_plain_frame b im k video) [0..<length video] (init_out (task_name b))
        = Inr out"
      by (simp add: compress_def PFrameModel_compress_no_adaptation_def PFrameModel_plain_upto_def)
    show ?thesis
      by (rule for_each_collect [where g = "\<lambda>out. map_of out t", OF _ r init])
        (rule PFrameModel_plain_frame_task [OF _ tasks key])
  next
    assume "m = PFrameModelWithMotion b im k False"
    with run have r: "for_each (PFrameModelWithMotion_plain_frame b im k video) [0..<length video]
        (init_out (task_name b)) = Inr out"
      by (simp add: compress_def PFrameModelWithMotion_compress_no_adaptation_def
          PFrameModelWithMotion_plain_upto_def)
    show ?thesis
      by (rule for_each_collect [where g = "\<lambda>out. map_of out t", OF _ r init])
        (rule PFrameModelWithMotion_plain_frame_task [OF _ tasks key])
  qed
qed

text \<open>
  Taking the decoder-side methods away changes no step of \<^verbatim>\<open>compress_no_adaptation\<close>.
\<close>

lemma get_decoder_encode_only:
  "get_decoder (encode_only_base b) task =
     ebind (get_decoder b task) (\<lambda>d. Inr (d\<lparr>dec_decompress := (\<lambda>args. Inl AttributeError)\<rparr>))"
  by (simp add: get_decoder_def encode_only_base_def split: option.splits)

lemma task_value_encode_only [simp]: "task_value (encode_only_base b) = task_value b"
  by (auto simp: fun_eq_iff task_value_def get_decoder_encode_only ebind_def split: sum.splits)

lemma task_rep_encode_only [simp]: "task_rep (encode_only_base b) = task_rep b"
  by (simp add: fun_eq_iff task_rep_def encode_only_base_def)

lemma task_name_encode_only [simp]: "task_name (encode_only_base b) = task_name b"
  by (simp add: encode_only_base_def)

lemma compress_one_encode_only [simp]: "compress_one (encode_only im) = compress_one im"
  by (cases im)
    (simp_all add: fun_eq_iff compress_one_def IFrameModel_compress_one_def, simp add: encode_only_base_def)

lemma plain_task_encode_only [simp]: "plain_task (encode_only_base b) = plain_task b"
  by (simp add: fun_eq_iff plain_task_def)

lemma predicted_no_adaptation_encode_only [simp]:
  "predicted_no_adaptation (encode_only_base b) = predicted_no_adaptation b"
  by (simp add: fun_eq_iff predicted_no_adaptation_def, simp add: encode_only_base_def)

lemma plain_frame_encode_only [simp]:
  "PFrameModel_plain_frame (encode_only_base b) (encode_only im) = PFrameModel_plain_frame b im"
  "PFrameModelWithMotion_plain_frame (encode_only_base b) (encode_only im) =
     PFrameModelWithMotion_plain_frame b im"
  by (simp_all add: fun_eq_iff PFrameModel_plain_frame_def PFrameModel_keyframe_def
      PFrameModelWithMotion_plain_frame_def PFrameModelWithMotion_keyframe_def cong: if_cong)

lemma compress_encode_only:
  "compress (PFrameModel (encode_only_base b) (encode_only im) k False) video =
     compress (PFrameModel b im k False) video"
  "compress (PFrameModelWithMotion (encode_only_base b) (encode_only im) k False) video =
     compress (PFrameModelWithMotion b im k False) video"
  by (simp_all add: compress_def PFrameModel_compress_no_adaptation_def PFrameModel_plain_upto_def
      PFrameModelWithMotion_compress_no_adaptation_def PFrameModelWithMotion_plain_upto_def)

text \<open>
  Claim C7.  For the predictive models with \<^verbatim>\<open>adaptation=false\<close>, \<^verbatim>\<open>compress\<close> neither computes
  nor consumes a reconstruction: it calls none of the decoding methods (\<^verbatim>\<open>decompress\<close> of
  the decoders; \<^verbatim>\<open>extract_feats\<close>, \<^verbatim>\<open>decompress\<close> and \<^verbatim>\<open>align_features\<close> of the encoder), so it
  is the same function on the model where each of them raises.  The record of a task at
  a predicted index \<open>i\<close> is a function of the frame pair \<^verbatim>\<open>video[:, i - 1:i + 1]\<close> alone, so
  two videos that agree on the frames \<open>i - 1\<close> and \<open>i\<close> have the same record at \<open>i\<close>,
  whatever their other frames are.
\<close>

theorem no_adaptation_window:
  assumes m: "m = PFrameModel b im k False \<or> m = PFrameModelWithMotion b im k False"
    and tasks: "distinct (task_name b)" "t \<in> set (task_name b)" "t \<in> set (task_name (base_of im))"
    and run: "compress m v1 = Inr out1" "compress m v2 = Inr out2"
    and i: "i < length v1" "i < length v2" "int i mod k \<noteq> 0"
    and agree: "v1 ! (i - 1) = v2 ! (i - 1)" "v1 ! i = v2 ! i"
  shows "compress (encode_only m) v1 = compress m v1 \<and>
         (\<exists>l1 l2 tn. map_of out1 t = Some l1 \<and> map_of out2 t = Some l2 \<and>
            length l1 = length v1 \<and> length l2 = length v2 \<and> l1 ! i = l2 ! i \<and>
            predicted_value b [v1 ! (i - 1), v1 ! i] tn t = Inr (l1 ! i))"
proof
  from m show "compress (encode_only m) v1 = compress m v1"
    by (auto simp: compress_encode_only)
next
  from tasks(2) obtain pre post where sp: "task_name b = pre @ t # post" "t \<notin> set pre"
    by (auto dest: split_list_first)
  with tasks(1) have post: "t \<notin> set post" by auto
  from no_adaptation_records [OF m sp post tasks(3) run(1)] obtain l1 where
    l1: "map_of out1 t = Some l1" "length l1 = length v1"
      "\<forall>i<length v1. int i mod k \<noteq> 0 \<longrightarrow>
         predicted_value b (slice_frames v1 (int i - 1) (int i + 1)) (length pre) t = Inr (l1 ! i)"
    by blast
  from no_adaptation_records [OF m sp post tasks(3) run(2)] obtain l2 where
    l2: "map_of out2 t = Some l2" "length l2 = length v2"
      "\<forall>i<length v2. int i mod k \<noteq> 0 \<longrightarrow>
         predicted_value b (slice_frames v2 (int i - 1) (int i + 1)) (length pre) t = Inr (l2 ! i)"
    by blast
  from i(3) have pos: "0 < i" by (rule mod_nonzero_pos)
  have w1: "slice_frames v1 (int i - 1) (int i + 1) = [v1 ! (i - 1), v1 ! i]"
    by (rule slice_frames_window [OF pos i(1)])
  have w2: "slice_frames v2 (int i - 1) (int i + 1) = [v1 ! (i - 1), v1 ! i]"
    using slice_frames_window [OF pos i(2)] agree by simp
  from l1(3) i w1 have p1: "predicted_value b [v1 ! (i - 1), v1 ! i] (length pre) t = Inr (l1 ! i)" by auto
  from l2(3) i w2 have p2: "predicted_value b [v1 ! (i - 1), v1 ! i] (length pre) t = Inr (l2 ! i)" by auto
  from p1 p2 have "l1 ! i = l2 ! i" by simp
  with l1 l2 p1 show "\<exists>l1 l2 tn. map_of out1 t = Some l1 \<and> map_of out2 t = Some l2 \<and>
            length l1 = length v1 \<and> length l2 = length v2 \<and> l1 ! i = l2 ! i \<and>
            predicted_value b [v1 ! (i - 1), v1 ! i] tn t = Inr (l1 ! i)"
    by blast
qed

theorem no_adaptation_window_witness:
  "\<exists>out1 out2.
     compress (PFrameModel sample_predictive (IFrameModel sample_key) 3 False) sample_video = Inr out1 \<and>
     compress (PFrameModel sample_predictive (IFrameModel sample_key) 3 False) other_video = Inr out2 \<and>
     compress (encode_only (PFrameModel sample_predictive (IFrameModel sample_key) 3 False)) sample_video =
       compress (PFrameModel sample_predictive (IFrameModel sample_key) 3 False) sample_video \<and>
     (\<exists>l1 l2 tn. map_of out1 ''vc'' = Some l1 \<and> map_of out2 ''vc'' = Some l2 \<and>
        length l1 = length sample_video \<and> length l2 = length other_video \<and> l1 ! 2 = l2 ! 2 \<and>
        predicted_value sample_predictive [sample_video ! (2 - 1), sample_video ! 2] tn ''vc'' = Inr (l1 ! 2))"
proof -
  have v: "2 < length sample_video" "2 < length other_video" "int 2 mod 3 \<noteq> 0"
    "sample_video ! (2 - 1) = other_video ! (2 - 1)" "sample_video ! 2 = other_video ! 2"
    by (simp_all add: sample_video_def other_video_def)
  from no_adaptation_window [OF _ sample_tasks(1,2,5) sample_plain_run other_plain_run v]
    sample_plain_run other_plain_run
  show ?thesis by blast
qed

subsection \<open>The motion slot\<close>




subsection \<open>No drift with adaptation\<close>

text \<open>
  Claim C1.  For the Predictive and the PredictiveWithMotion policy with
  \<^verbatim>\<open>adaptation=true\<close>, an encoder that keeps to the contract of its class, every video
  and every \<open>n\<close>: when the loop of \<^verbatim>\<open>compress_with_adaptation\<close> has done \<open>n\<close> frames and the
  loop of \<^verbatim>\<open>decompress\<close> has decoded the \<open>n\<close> records of the \<^verbatim>\<open>vc\<close> task, the \<^verbatim>\<open>prev_recon\<close>
  the encoder takes to frame \<open>n\<close> is the reconstruction the decoder made of frame
  \<open>n - 1\<close>, and the \<^verbatim>\<open>prev_feat\<close> of the decoder is \<^verbatim>\<open>extract_feats\<close> of that same tensor.
\<close>

theorem drift_free:
  assumes tasks: "distinct (task_name b)" "''vc'' \<in> set (task_name b)"
    and recs: "map_of out ''vc'' = Some recs"
  shows "(reference_contract b \<longrightarrow>
          PFrameModel_adapt_upto b im k video n = Inr (out, prev_recon) \<longrightarrow>
          PFrameModel_decompress_loop b im k recs = Inr (reconstructed_video, prev_feat) \<longrightarrow>
          length recs = n \<and> length reconstructed_video = n \<and>
          in_step b prev_recon reconstructed_video prev_feat) \<and>
         (motion_reference_contract b \<longrightarrow>
          PFrameModelWithMotion_adapt_upto b im k video n = Inr (out, prev_recon) \<longrightarrow>
          PFrameModelWithMotion_decompress_loop b im k recs = Inr (reconstructed_video, prev_feat) \<longrightarrow>
          length recs = n \<and> length reconstructed_video = n \<and>
          in_step b prev_recon reconstructed_video prev_feat)"
proof -
  from tasks obtain pre post where
    sp: "task_name b = pre @ ''vc'' # post" "''vc'' \<notin> set pre" "''vc'' \<notin> set post"
    by (rule split_vc)
  let ?g = "\<lambda>st :: 'a out \<times> 'a tensor option. map_of (fst st) ''vc''"
  let ?I = "\<lambda>i (st :: 'a out \<times> 'a tensor option) (t :: 'a tensor list \<times> 'a tensor option).
      length (fst t) = i \<and> in_step b (snd st) (fst t) (snd t)"
  have init: "?g (init_out (task_name b), None) = Some []" "?I 0 (init_out (task_name b), None) ([], None)"
    using tasks(2) by (simp_all add: map_of_init_out in_step_def)
  have g: "?g (out, prev_recon) = Some recs" using recs by simp
  have "length recs = n \<and> ?I n (out, prev_recon) (reconstructed_video, prev_feat)"
    if c: "reference_contract b"
      and enc: "PFrameModel_adapt_upto b im k video n = Inr (out, prev_recon)"
      and dec: "PFrameModel_decompress_loop b im k recs = Inr (reconstructed_video, prev_feat)"
    by (rule for_each_simulation [where g = ?g and I = ?I, OF _ init
          enc [unfolded PFrameModel_adapt_upto_def] g dec [unfolded PFrameModel_decompress_loop_def]])
      (rule PFrameModel_frame_in_step [OF c sp])
  moreover have "length recs = n \<and> ?I n (out, prev_recon) (reconstructed_video, prev_feat)"
    if c: "motion_reference_contract b"
      and enc: "PFrameModelWithMotion_adapt_upto b im k video n = Inr (out, prev_recon)"
      and dec: "PFrameModelWithMotion_decompress_loop b im k recs = Inr (reconstructed_video, prev_feat)"
    by (rule for_each_simulation [where g = ?g and I = ?I, OF _ init
          enc [unfolded PFrameModelWithMotion_adapt_upto_def] g
          dec [unfolded PFrameModelWithMotion_decompress_loop_def]])
      (rule PFrameModelWithMotion_frame_in_step [OF c sp])
  ultimately show ?thesis by simp
qed

theorem drift_free_witness:
  "reference_contract sample_predictive \<and>
   PFrameModel_adapt_upto sample_predictive (IFrameModel sample_key) 3 sample_video 2 =
     Inr ([(''vc'', [VList [sample_record 11], VTuple [sample_record 2]])], Some (frame 12)) \<and>
   PFrameModel_decompress_loop sample_predictive (IFrameModel sample_key) 3
       [VList [sample_record 11], VTuple [sample_record 2]] =
     Inr ([frame 10, frame 12], Some (frame 13)) \<and>
   in_step sample_predictive (Some (frame 12)) [frame 10, frame 12] (Some (frame 13)) \<and>
   motion_reference_contract sample_motion \<and>
   PFrameModelWithMotion_adapt_upto sample_motion (IFrameModel sample_key) 3 sample_video 2 =
     Inr ([(''vc'', [VList [sample_record 11, sentinel], VTuple [sample_record 2, motion_record]])],
          Some (frame 12)) \<and>
   PFrameModelWithMotion_decompress_loop sample_motion (IFrameModel sample_key) 3
       [VList [sample_record 11, sentinel], VTuple [sample_record 2, motion_record]] =
     Inr ([frame 10, frame 12], Some (frame 13)) \<and>
   in_step sample_motion (Some (frame 12)) [frame 10, frame 12] (Some (frame 13))"
proof -
  have m1: "map_of [(''vc'', [VList [sample_record 11], VTuple [sample_record 2]])] ''vc'' =
      Some [VList [sample_record 11], VTuple [sample_record 2]]"
    by simp
  have m2: "map_of [(''vc'', [VList [sample_record 11, sentinel], VTuple [sample_record 2, motion_record]])] ''vc'' =
      Some [VList [sample_record 11, sentinel], VTuple [sample_record 2, motion_record :: int pyval]]"
    by simp
  from drift_free [OF sample_tasks(1,2) m1, THEN conjunct1, rule_format,
        OF sample_reference_contract sample_encoder_state sample_decoder_state]
    drift_free [OF sample_tasks(3,4) m2, THEN conjunct2, rule_format,
        OF sample_motion_reference_contract sample_motion_encoder_state sample_motion_decoder_state]
    sample_reference_contract sample_motion_reference_contract sample_encoder_state sample_decoder_state
    sample_motion_encoder_state sample_motion_decoder_state
  show ?thesis by blast
qed

end
